theory Spec2Isabelle
  imports Complex_Main "HOL-Library.Word" "HOL-Library.AList" "HOL-Library.Log_Nat"
begin

section \<open>Chain inscription planner and signer (coin-bitcoin, inscribe\_chain)\<close>

text \<open>
  A shallow embedding of the chain inscription tool: the envelope builder
  (\<open>createInscriptionTxCtxData\<close>), the planner
  (\<open>buildEnhancedInscriptionChains\<close>), the chain assembler
  (\<open>buildSingleUtxoChain\<close>), the fee estimator (\<open>estimateFeeAndOutput\<close>),
  the signer (\<open>signTx\<close>, \<open>signAllTransactions\<close>) and the entry point
  (\<open>inscribeChain\<close>).

  Conventions.
  \<^item> A \<open>Buffer\<close> is a list of bytes. Satoshi amounts, sizes and fees are JavaScript
    numbers that hold integers: they are modelled as \<open>int\<close> (exact below \<open>2^53\<close>).
    A fee rate may be fractional (the tests use 2.5): it is a \<open>rat\<close>, which the
    program holds as the nearest IEEE-754 double, and the product \<open>vsize * feeRate\<close> is
    rounded as a double product is: see \<open>toDouble\<close> and \<open>feeFor\<close>.
  \<open>changeAmount\<close> can also be \<open>-Infinity\<close>: see \<open>jsnum\<close>.
  \<^item> A \<open>throw\<close> is the value \<open>Inl e\<close>. Methods of the tool that mutate it take the
    tool and return it, also when they throw (the state the exception leaves behind).
  \<^item> The bitcoinjs-lib fork, the crypto library, \<open>txBuild\<close>, \<open>taproot\<close> and
    \<open>sigcost\<close> are imported by the source and are not part of it: they are the fields
    of the record \<open>ext\<close>, a parameter of every definition. A library call that can
    throw returns \<open>Inl message\<close>.
\<close>

subsection \<open>Data model\<close>

type_synonym bytes = "8 word list"

datatype Network = Bitcoin | Testnet

record InscriptionData =
  contentType :: string
  body :: bytes
  revealAddr :: string

record PrevOutput =
  txId :: string
  vOut :: int
  amount :: int
  address :: string
  privateKey :: string
  publicKey :: "string option"

text \<open>
  The optional \<open>minChangeValue\<close> is \<open>None\<close> when absent. The fields kept "for
  compatibility" (\<open>shareData\<close>, \<open>masterPublicKey\<close>, ...) are never read.
\<close>

record InscriptionRequest =
  req_commitTxPrevOutputList :: "PrevOutput list"
  req_commitFeeRate :: rat
  req_revealFeeRate :: rat
  req_inscriptionDataList :: "InscriptionData list"
  req_revealOutValue :: int
  req_changeAddress :: string
  req_minChangeValue :: "int option"

text \<open>The type \<open>TxOut\<close> of the source (only used for the placeholder field of a context).\<close>

record TxOut =
  pkScript :: bytes
  txout_value :: int

text \<open>bitcoinjs-lib's transaction, as far as the source reads and writes it.\<close>

record TxInput =
  in_hash :: bytes
  in_index :: int
  in_sequence :: nat
  in_script :: bytes
  in_witness :: "bytes list"

record TxOutput =
  out_script :: bytes
  out_value :: int

record Transaction =
  version :: nat
  locktime :: nat
  ins :: "TxInput list"
  outs :: "TxOutput list"

record InscriptionTxCtxData =
  ctx_privateKey :: bytes
  inscriptionScript :: bytes
  commitTxAddress :: string
  commitTxAddressPkScript :: bytes
  ctx_witness :: "bytes list"
  ctx_hash :: bytes
  revealTxPrevOutput :: TxOut
  revealPkScript :: bytes

record ContextMapping =
  cm_chainIndex :: nat
  cm_txIndex :: nat
  contextIndex :: "nat option"

record TxFee =
  tf_chainIndex :: nat
  tf_txIndex :: nat
  tf_fee :: int

record UtxoInfo =
  ui_amount :: int
  ui_address :: string
  ui_privateKey :: string

record ChainInscriptionTool =
  network :: Network
  inscriptionTxCtxDataList :: "InscriptionTxCtxData list"
  txChains :: "Transaction list list"
  utxoMap :: "((string \<times> int) \<times> UtxoInfo) list"
  totalEstimatedFee :: int
  chainContextMapping :: "ContextMapping list"
  txFees :: "TxFee list"

text \<open>
  A JavaScript number that is an integer or \<open>-Infinity\<close>: the type of the estimator's
  \<open>changeAmount\<close>, whose sentinels are the numbers \<open>-1\<close> and \<open>-Infinity\<close>.
\<close>

datatype jsnum = Num int | NegInfinity

fun js_ge :: "jsnum \<Rightarrow> int \<Rightarrow> bool" where
  "js_ge (Num c) m = (c \<ge> m)"
| "js_ge NegInfinity m = False"

fun js_lt :: "jsnum \<Rightarrow> int \<Rightarrow> bool" where
  "js_lt (Num c) m = (c < m)"
| "js_lt NegInfinity m = True"

subsection \<open>Errors\<close>

text \<open>
  One constructor per \<open>throw\<close> of the source. \<open>External m\<close> is an exception of a
  library, with its message. The wrappers are the \<open>catch\<close> blocks that throw a new
  \<open>Error\<close> whose message embeds the caught one.
\<close>

datatype error =
    External string
  | EmptyPrevOutputList
  | EmptyInscriptionDataList
  | MissingPrivateKey nat
  | UtxoCountInsufficient nat nat
  | SegmentFetchFailed
  | CommitInsufficient nat
  | NoChangeAddress nat nat
  | RevealInsufficient nat nat
  | NonFinalNeedsChange nat nat
  | ChangeAnomaly nat nat
  | RevealWithoutInput
  | RevealWithoutContext
  | NoChangeSlot
  | EstimateSignFailed error
  | EstimateVsizeFailed error
  | EstimateSignNoChangeFailed error
  | EstimateVsizeNoChangeFailed error
  | SpendsMissingOutput nat nat
  | NoContextMapping nat nat
  | NoContextData nat nat
  | ScriptMismatch
  | SignFailed nat nat error

text \<open>
  \<open>e.message\<close>. The source's messages are Chinese text with interpolated numbers; the
  model keeps one ASCII tag per template and, for a wrapper, the embedded message.
\<close>

fun message :: "error \<Rightarrow> string" where
  "message (External m) = m"
| "message EmptyPrevOutputList = ''input error: commitTxPrevOutputList must not be empty''"
| "message EmptyInscriptionDataList = ''input error: inscriptionDataList must not be empty''"
| "message (MissingPrivateKey i) = ''input error: UTXO lacks privateKey''"
| "message (UtxoCountInsufficient m n) = ''chain inscription error: UTXO count insufficient for all inscriptions''"
| "message SegmentFetchFailed = ''chain inscription internal error: cannot fetch inscription segment''"
| "message (CommitInsufficient k) = ''chain inscription error: balance cannot pay initial commit fee''"
| "message (NoChangeAddress k i) = ''chain inscription internal error: no change address for reveal''"
| "message (RevealInsufficient k i) = ''chain inscription error: chain broken, balance cannot pay reveal fee + inscription output''"
| "message (NonFinalNeedsChange k i) = ''chain inscription error: chain broken, non-final reveal must carry change''"
| "message (ChangeAnomaly k i) = ''chain inscription internal error: abnormal change amount''"
| "message RevealWithoutInput = ''fee estimate internal error: reveal without input''"
| "message RevealWithoutContext = ''fee estimate internal error: reveal needs inscriptionCtx''"
| "message NoChangeSlot = ''fee estimate internal error: expected change output''"
| "message (EstimateSignFailed e) = ''fee estimate error: simulated signing failed: '' @ message e"
| "message (EstimateVsizeFailed e) = ''fee estimate error: vsize failed: '' @ message e"
| "message (EstimateSignNoChangeFailed e) = ''fee estimate error: simulated signing (no change) failed: '' @ message e"
| "message (EstimateVsizeNoChangeFailed e) = ''fee estimate error: vsize (no change) failed: '' @ message e"
| "message (SpendsMissingOutput k t) = ''sign error: spends a missing output of the previous transaction''"
| "message (NoContextMapping k t) = ''sign error: no context mapping for the transaction''"
| "message (NoContextData k t) = ''sign error: no context data at the mapped index''"
| "message ScriptMismatch = ''sign error: spent script does not match the expected context''"
| "message (SignFailed k t e) = ''sign error (chain, tx): '' @ message e"

subsection \<open>The libraries the source imports\<close>

record P2trPayment =
  p2tr_output :: bytes
  p2tr_witness :: "bytes list"
  p2tr_hash :: bytes
  p2tr_address :: string

datatype StackElement = Op nat | Push bytes

record ext =
  toOutputScript :: "string \<Rightarrow> Network \<Rightarrow> string + bytes"
  getHash :: "Transaction \<Rightarrow> bytes"
  getId :: "Transaction \<Rightarrow> string"
  toHex :: "Transaction \<Rightarrow> string"
  countAdjustedVsize :: "Transaction \<Rightarrow> string list \<Rightarrow> Network \<Rightarrow> string + int"
  getAddressType :: "string \<Rightarrow> Network \<Rightarrow> string + string"
  privateKeyFromWIF :: "string \<Rightarrow> Network \<Rightarrow> string + bytes"
  private2public :: "bytes \<Rightarrow> bytes"
  wif2Public :: "string \<Rightarrow> Network \<Rightarrow> string + bytes"
  private2Wif :: "bytes \<Rightarrow> Network \<Rightarrow> string"
  txidToHash :: "string \<Rightarrow> bytes"
  hashForWitnessV1 :: "Transaction \<Rightarrow> nat \<Rightarrow> bytes list \<Rightarrow> int list \<Rightarrow> nat \<Rightarrow> bytes option \<Rightarrow> bytes"
  hashForSignature :: "Transaction \<Rightarrow> nat \<Rightarrow> bytes \<Rightarrow> nat \<Rightarrow> bytes"
  hashForWitness :: "Transaction \<Rightarrow> nat \<Rightarrow> bytes \<Rightarrow> int \<Rightarrow> nat \<Rightarrow> bytes"
  taprootTweakPrivKey :: "bytes \<Rightarrow> bytes"
  schnorr_sign :: "bytes \<Rightarrow> bytes \<Rightarrow> bytes \<Rightarrow> bytes"
  randomBytes :: "nat \<Rightarrow> bytes"
  ecdsa_sign :: "bytes \<Rightarrow> bytes \<Rightarrow> bytes"
  signature_encode :: "bytes \<Rightarrow> nat \<Rightarrow> bytes"
  p2pkh_input :: "bytes \<Rightarrow> bytes \<Rightarrow> bytes"
  hash160 :: "bytes \<Rightarrow> bytes"
  script_compile :: "StackElement list \<Rightarrow> bytes"
  p2tr :: "bytes \<Rightarrow> bytes \<Rightarrow> bytes \<Rightarrow> nat \<Rightarrow> Network \<Rightarrow> string + P2trPayment"
  bufferToHex :: "bytes \<Rightarrow> string"

text \<open>
  \<open>txidToHash\<close> is \<open>base.reverseBuffer (base.fromHex txId)\<close>; \<open>privateKeyFromWIF\<close> is
  followed by \<open>base.fromHex\<close> everywhere in the source and returns the bytes here;
  \<open>ecdsa_sign\<close> is \<open>sign\<close> of \<open>txBuild\<close>; \<open>bufferToHex\<close> is \<open>buf.toString('hex')\<close>;
  the arguments of \<open>p2tr\<close> are \<open>internalPubkey\<close>, \<open>scriptTree.output\<close>, \<open>redeem.output\<close>,
  \<open>redeem.redeemVersion\<close> and \<open>network\<close>. \<open>randomBytes\<close> is one outcome of the random
  source: no theorem below depends on which.
\<close>

subsection \<open>Constants\<close>

definition DEFAULT_SEQUENCE_NUM :: nat where "DEFAULT_SEQUENCE_NUM = 0xfffffffd"
definition MAX_TRANSACTIONS_PER_CHAIN :: nat where "MAX_TRANSACTIONS_PER_CHAIN = 25"
definition DEFAULT_TX_VERSION :: nat where "DEFAULT_TX_VERSION = 2"
definition DEFAULT_REVEAL_OUT_VALUE :: int where "DEFAULT_REVEAL_OUT_VALUE = 546"
definition DEFAULT_MIN_CHANGE_VALUE :: int where "DEFAULT_MIN_CHANGE_VALUE = 546"

text \<open>bitcoinjs-lib's \<open>Transaction.SIGHASH_DEFAULT\<close> and \<open>SIGHASH_ALL\<close>.\<close>

definition SIGHASH_DEFAULT :: nat where "SIGHASH_DEFAULT = 0"
definition SIGHASH_ALL :: nat where "SIGHASH_ALL = 1"

text \<open>
  Modelled from the spec: the opcode table \<open>bitcoin.script.OPS\<close> is not part of the
  source; the values are those of the Bitcoin script language, and \<open>OP_DATA_1\<close> is
  the byte \<open>0x01\<close> the spec names.
\<close>

definition OP_0 :: nat where "OP_0 = 0"
definition OP_FALSE :: nat where "OP_FALSE = 0"
definition OP_DATA_1 :: nat where "OP_DATA_1 = 1"
definition OP_IF :: nat where "OP_IF = 99"
definition OP_ENDIF :: nat where "OP_ENDIF = 104"
definition OP_CHECKSIG :: nat where "OP_CHECKSIG = 172"

subsection \<open>\<open>signTx\<close>: signing the inputs of a transaction that spends wallet addresses\<close>

definition new_Transaction :: Transaction where
  "new_Transaction = \<lparr>version = 1, locktime = 0, ins = [], outs = []\<rparr>"

definition addInput :: "bytes \<Rightarrow> int \<Rightarrow> nat \<Rightarrow> Transaction \<Rightarrow> Transaction" where
  "addInput h i s tx = tx\<lparr>ins := ins tx @
     [\<lparr>in_hash = h, in_index = i, in_sequence = s, in_script = [], in_witness = []\<rparr>]\<rparr>"

definition addOutput :: "bytes \<Rightarrow> int \<Rightarrow> Transaction \<Rightarrow> Transaction" where
  "addOutput s v tx = tx\<lparr>outs := outs tx @ [\<lparr>out_script = s, out_value = v\<rparr>]\<rparr>"

text \<open>\<open>xs.map(f)\<close> where \<open>f\<close> can throw: the first exception ends the map.\<close>

fun mapM :: "('a \<Rightarrow> 'e + 'b) \<Rightarrow> 'a list \<Rightarrow> 'e + 'b list" where
  "mapM f [] = Inr []"
| "mapM f (x # xs) =
     (case f x of Inl e \<Rightarrow> Inl e
      | Inr y \<Rightarrow> (case mapM f xs of Inl e \<Rightarrow> Inl e | Inr ys \<Rightarrow> Inr (y # ys)))"

text \<open>
  The body of \<open>tx.ins.forEach((input, i) => ...)\<close> in \<open>signTx\<close>. Reading
  \<open>commitTxPrevOutputList[i]\<close> beyond the list is a \<open>TypeError\<close>.
\<close>

definition signTx_input ::
  "ext \<Rightarrow> Network \<Rightarrow> PrevOutput list \<Rightarrow> Transaction \<Rightarrow> nat \<Rightarrow> error + Transaction" where
  "signTx_input E net commitTxPrevOutputList tx i =
    (if i \<ge> length commitTxPrevOutputList
     then Inl (External ''TypeError: cannot read properties of undefined'')
     else
      let prev = commitTxPrevOutputList ! i; input = ins tx ! i in
      case getAddressType E (address prev) net of
        Inl m \<Rightarrow> Inl (External m)
      | Inr addressType \<Rightarrow>
      (case privateKeyFromWIF E (privateKey prev) net of
        Inl m \<Rightarrow> Inl (External m)
      | Inr privKey \<Rightarrow>
        let pubKey = private2public E privKey in
        if addressType = ''segwit_taproot'' then
          (case mapM (\<lambda>p. toOutputScript E (address p) net) commitTxPrevOutputList of
             Inl m \<Rightarrow> Inl (External m)
           | Inr prevOutScripts \<Rightarrow>
             let values = map amount commitTxPrevOutputList;
                 hash = hashForWitnessV1 E tx i prevOutScripts values SIGHASH_DEFAULT None;
                 tweakedPrivKey = taprootTweakPrivKey E privKey;
                 signature = schnorr_sign E hash tweakedPrivKey (randomBytes E 32)
             in Inr (tx\<lparr>ins := (ins tx)[i := input\<lparr>in_witness := [signature]\<rparr>]\<rparr>))
        else if addressType = ''legacy'' then
          (case toOutputScript E (address prev) net of
             Inl m \<Rightarrow> Inl (External m)
           | Inr prevScript \<Rightarrow>
             let hash = hashForSignature E tx i prevScript SIGHASH_ALL;
                 signature = ecdsa_sign E hash privKey;
                 payment_input = p2pkh_input E (signature_encode E signature SIGHASH_ALL) pubKey
             in Inr (tx\<lparr>ins := (ins tx)[i := input\<lparr>in_script := payment_input\<rparr>]\<rparr>))
        else
          let pubKeyHash = hash160 E pubKey;
              prevOutScript = [0x19, 0x76, 0xa9, 0x14] @ pubKeyHash @ [0x88, 0xac];
              hash = hashForWitness E tx i prevOutScript (amount prev) SIGHASH_ALL;
              signature = ecdsa_sign E hash privKey;
              input' = input\<lparr>in_witness := [signature_encode E signature SIGHASH_ALL, pubKey]\<rparr>;
              redeemScript = [0x16, 0, 20] @ pubKeyHash;
              input'' = (if addressType = ''segwit_nested''
                         then input'\<lparr>in_script := redeemScript\<rparr> else input')
          in Inr (tx\<lparr>ins := (ins tx)[i := input'']\<rparr>)))"

text \<open>\<open>forEach\<close> over the indices, stopping at the first exception.\<close>

fun signTx_loop ::
  "ext \<Rightarrow> Network \<Rightarrow> PrevOutput list \<Rightarrow> Transaction \<Rightarrow> nat list \<Rightarrow> error + Transaction" where
  "signTx_loop E net prevs tx [] = Inr tx"
| "signTx_loop E net prevs tx (i # is) =
     (case signTx_input E net prevs tx i of
        Inl e \<Rightarrow> Inl e
      | Inr tx' \<Rightarrow> signTx_loop E net prevs tx' is)"

definition signTx ::
  "ext \<Rightarrow> Network \<Rightarrow> Transaction \<Rightarrow> PrevOutput list \<Rightarrow> error + Transaction" where
  "signTx E net tx commitTxPrevOutputList =
     signTx_loop E net commitTxPrevOutputList tx [0..<length (ins tx)]"

subsection \<open>\<open>estimateFeeAndOutput\<close>\<close>

text \<open>
  The block that fills in a plausible witness; the source has it twice, for the
  candidate and for the candidate without its change output.
\<close>

definition simulateSign ::
  "ext \<Rightarrow> Network \<Rightarrow> Transaction \<Rightarrow> PrevOutput list \<Rightarrow> bool \<Rightarrow>
   InscriptionTxCtxData option \<Rightarrow> error + Transaction" where
  "simulateSign E net txForEstimate inputs isCommitTx inscriptionCtx =
    (if isCommitTx then signTx E net txForEstimate inputs
     else case inscriptionCtx of
       Some c \<Rightarrow>
         (case ins txForEstimate of
            [] \<Rightarrow> Inl RevealWithoutInput
          | in0 # rest \<Rightarrow>
              let emptySignature = replicate 64 (0 :: 8 word) in
              Inr (txForEstimate\<lparr>ins := in0\<lparr>in_witness := emptySignature # ctx_witness c\<rparr> # rest\<rparr>))
     | None \<Rightarrow> Inl RevealWithoutContext)"

text \<open>
  The arithmetic of \<open>vsize * feeRate\<close>. A JavaScript number is an IEEE-754 double and a
  product is the exact product rounded to the nearest double, ties to the even
  significand. \<open>toDouble x\<close> is that rounding of the rational \<open>x\<close>: a significand of 53
  bits, and below \<open>2^-1022\<close> the fixed spacing \<open>2^-1074\<close> of the subnormal numbers. It is
  the identity on a double. Numbers beyond the largest double (a fee rate above
  \<open>10^300\<close>), \<open>NaN\<close> and the infinities are not modelled.
\<close>

definition roundHalfEven :: "rat \<Rightarrow> int" where
  "roundHalfEven x =
     (let f = \<lfloor>x\<rfloor>; d = x - of_int f in
      if d < 1 / 2 then f else if 1 / 2 < d then f + 1 else if even f then f else f + 1)"

text \<open>\<open>\<lfloor>log\<^sub>2 a\<rfloor>\<close> for \<open>a > 0\<close>, from the bit lengths of numerator and denominator.\<close>

definition ilog2 :: "rat \<Rightarrow> int" where
  "ilog2 a = (case quotient_of a of (p, q) \<Rightarrow>
      let k = bitlen p - bitlen q in if 2 powi k \<le> a then k else k - 1)"

definition toDouble :: "rat \<Rightarrow> rat" where
  "toDouble x =
     (if x = 0 then 0
      else let a = \<bar>x\<bar>;
               e = max (ilog2 a - 52) (- 1074);
               m = roundHalfEven (a / 2 powi e)
           in sgn x * of_int m * 2 powi e)"

text \<open>
  \<open>Math.max(Math.ceil(vsize * feeRate), vsize)\<close>, where \<open>feeRate\<close> is the double that the
  caller's number is and \<open>vsize\<close> is an integer.
\<close>

definition feeFor :: "int \<Rightarrow> rat \<Rightarrow> int" where
  "feeFor vsize feeRate = max \<lceil>toDouble (of_int vsize * toDouble feeRate)\<rceil> vsize"

text \<open>\<open>outs.splice(changeOutputIndex, 1)\<close>.\<close>

definition splice1 :: "nat \<Rightarrow> 'a list \<Rightarrow> 'a list" where
  "splice1 i xs = take i xs @ drop (Suc i) xs"

text \<open>
  A method of the tool: it signs and sizes with \<open>this.network\<close>, the network of the tool
  \<open>st\<close>, and does not change the tool.
\<close>

definition estimateFeeAndOutput ::
  "ext \<Rightarrow> ChainInscriptionTool \<Rightarrow> Transaction \<Rightarrow> PrevOutput list \<Rightarrow> rat \<Rightarrow> int \<Rightarrow> int \<Rightarrow> int \<Rightarrow>
   bool \<Rightarrow> InscriptionTxCtxData option \<Rightarrow> error + (int \<times> jsnum)" where
  "estimateFeeAndOutput E st tx inputs feeRate totalInputValue fixedOutputValue minChangeValue
      isCommitTx inscriptionCtx =
    (case simulateSign E (network st) tx inputs isCommitTx inscriptionCtx of
       Inl e \<Rightarrow> Inl (EstimateSignFailed e)
     | Inr txForEstimate \<Rightarrow>
    (case countAdjustedVsize E txForEstimate (map address inputs) (network st) of
       Inl m \<Rightarrow> Inl (EstimateVsizeFailed (External m))
     | Inr vsize \<Rightarrow>
       let fee = feeFor vsize feeRate;
           changeAmount = totalInputValue - fixedOutputValue - fee;
           changeOutputIndex = (if isCommitTx then - 1 else (1 :: int))
       in
       if changeOutputIndex \<noteq> - 1 \<and> int (length (outs tx)) > changeOutputIndex
          \<and> \<not> (changeAmount \<ge> minChangeValue)
       then
         (let txWithoutChange = tx\<lparr>outs := splice1 (nat changeOutputIndex) (outs tx)\<rparr> in
          case simulateSign E (network st) txWithoutChange inputs isCommitTx inscriptionCtx of
            Inl e \<Rightarrow> Inl (EstimateSignNoChangeFailed e)
          | Inr estimateTxWithoutChange \<Rightarrow>
          (case countAdjustedVsize E estimateTxWithoutChange (map address inputs) (network st) of
            Inl m \<Rightarrow> Inl (EstimateVsizeNoChangeFailed (External m))
          | Inr vsizeWithoutChange \<Rightarrow>
            let feeWithoutChange = feeFor vsizeWithoutChange feeRate in
            if totalInputValue \<ge> fixedOutputValue + feeWithoutChange
            then Inr (feeWithoutChange, Num (- 1))
            else Inr (fee, NegInfinity)))
       else Inr (fee, Num changeAmount)))"

subsection \<open>\<open>buildSingleUtxoChain\<close>\<close>

text \<open>The parameters of \<open>buildSingleUtxoChain\<close> (after \<open>network\<close>), as one record.\<close>

record ChainArgs =
  a_utxo :: PrevOutput
  a_inscriptions :: "InscriptionTxCtxData list"
  a_revealOutValue :: int
  a_revealFeeRate :: rat
  a_finalChangeAddress :: string
  a_minChangeValue :: int
  a_commitFeeRate :: rat
  a_inscriptionCtxStartIndex :: nat
  a_chainIndex :: nat

text \<open>The local variables that the reveal loop updates.\<close>

record ChainLoop =
  txChain :: "Transaction list"
  prevTx :: Transaction
  prevOutputValue :: int
  prevOutputIndex :: int

text \<open>
  The three statements that record a transaction's fee: \<open>totalEstimatedFee += fee\<close>,
  \<open>txFees.push\<close> and \<open>chainContextMapping.push\<close>.
\<close>

definition recordTx :: "nat \<Rightarrow> nat \<Rightarrow> int \<Rightarrow> nat option \<Rightarrow> ChainInscriptionTool \<Rightarrow> ChainInscriptionTool" where
  "recordTx k t f c st = st
     \<lparr>totalEstimatedFee := totalEstimatedFee st + f,
      chainContextMapping := chainContextMapping st @
         [\<lparr>cm_chainIndex = k, cm_txIndex = t, contextIndex = c\<rparr>],
      txFees := txFees st @ [\<lparr>tf_chainIndex = k, tf_txIndex = t, tf_fee = f\<rparr>]\<rparr>"

text \<open>
  One iteration of \<open>for (let i = 0; i < inscriptionCount; i++)\<close>, up to and including
  the assignment to \<open>prevOutputIndex\<close>. The parameter \<open>network\<close> of the method is \<open>net\<close>: it
  is used for the output script of the change address only; the estimator is called on
  the tool and reads the tool's own network. \<open>inscriptions[i + 1]?.commitTxAddress\<close> beyond
  the list is \<open>undefined\<close>, which \<open>!currentChangeAddress\<close> treats as the empty string.
\<close>

definition revealStep ::
  "ext \<Rightarrow> Network \<Rightarrow> ChainArgs \<Rightarrow> nat \<Rightarrow> ChainLoop \<Rightarrow> ChainInscriptionTool \<Rightarrow>
   (error + ChainLoop) \<times> ChainInscriptionTool" where
  "revealStep E net P i L st =
    (let inscriptions = a_inscriptions P;
         inscriptionCount = length inscriptions;
         utxo = a_utxo P;
         chainIndex = a_chainIndex P;
         firstInscriptionCtx = inscriptions ! 0;
         inscriptionCtx = inscriptions ! i;
         isLastReveal = (int i = int inscriptionCount - 1);
         currentTxIndex = length (txChain L);
         contextIndexForThisReveal = a_inscriptionCtxStartIndex P + i;
         currentChangeAddress =
           (if isLastReveal then a_finalChangeAddress P
            else if i + 1 < inscriptionCount then commitTxAddress (inscriptions ! (i + 1))
            else [])
     in
     if currentChangeAddress = [] then (Inl (NoChangeAddress chainIndex i), st)
     else
      (case toOutputScript E currentChangeAddress net of
         Inl m \<Rightarrow> (Inl (External m), st)
       | Inr changePkScript \<Rightarrow>
        let revealTx =
              addOutput changePkScript 0
               (addOutput (revealPkScript inscriptionCtx) (a_revealOutValue P)
                 (addInput (getHash E (prevTx L)) (prevOutputIndex L) DEFAULT_SEQUENCE_NUM
                   (new_Transaction\<lparr>version := DEFAULT_TX_VERSION\<rparr>)));
            simInputs = [utxo\<lparr>amount := prevOutputValue L,
                              address := commitTxAddress firstInscriptionCtx,
                              privateKey := []\<rparr>]
        in
        (case estimateFeeAndOutput E st revealTx simInputs (a_revealFeeRate P)
                (prevOutputValue L) (a_revealOutValue P) (a_minChangeValue P) False
                (Some inscriptionCtx) of
           Inl e \<Rightarrow> (Inl e, st)
         | Inr (revealFee, revealChangeAmount) \<Rightarrow>
           let newIndex = (if isLastReveal \<and> revealChangeAmount = Num (- 1) then - 1 else 1) in
           if revealChangeAmount = NegInfinity then (Inl (RevealInsufficient chainIndex i), st)
           else if revealChangeAmount = Num (- 1) then
             (if \<not> isLastReveal then (Inl (NonFinalNeedsChange chainIndex i), st)
              else
               let revealTx' = revealTx\<lparr>outs := butlast (outs revealTx)\<rparr> in
               (case estimateFeeAndOutput E st revealTx' simInputs (a_revealFeeRate P)
                       (prevOutputValue L) (a_revealOutValue P) 0 False (Some inscriptionCtx) of
                  Inl e \<Rightarrow> (Inl e, st)
                | Inr (revealFeeNoChange, _) \<Rightarrow>
                   (Inr \<lparr>txChain = txChain L @ [revealTx'], prevTx = revealTx',
                         prevOutputValue = 0, prevOutputIndex = newIndex\<rparr>,
                    recordTx chainIndex currentTxIndex revealFeeNoChange
                      (Some contextIndexForThisReveal) st)))
           else
             (case revealChangeAmount of
                Num c \<Rightarrow>
                  if c \<ge> a_minChangeValue P then
                    let revealTx' = revealTx\<lparr>outs := (outs revealTx)
                                       [1 := (outs revealTx ! 1)\<lparr>out_value := c\<rparr>]\<rparr> in
                    (Inr \<lparr>txChain = txChain L @ [revealTx'], prevTx = revealTx',
                          prevOutputValue = c, prevOutputIndex = newIndex\<rparr>,
                     recordTx chainIndex currentTxIndex revealFee
                       (Some contextIndexForThisReveal) st)
                  else (Inl (ChangeAnomaly chainIndex i), st)
              | NegInfinity \<Rightarrow> (Inl (ChangeAnomaly chainIndex i), st)))))"

text \<open>The loop over \<open>i = 0, ..., inscriptionCount - 1\<close> with its \<open>break\<close>.\<close>

fun revealLoop ::
  "ext \<Rightarrow> Network \<Rightarrow> ChainArgs \<Rightarrow> nat list \<Rightarrow> ChainLoop \<Rightarrow> ChainInscriptionTool \<Rightarrow>
   (error + ChainLoop) \<times> ChainInscriptionTool" where
  "revealLoop E net P [] L st = (Inr L, st)"
| "revealLoop E net P (i # is) L st =
     (case revealStep E net P i L st of
        (Inl e, st') \<Rightarrow> (Inl e, st')
      | (Inr L', st') \<Rightarrow>
          if prevOutputIndex L' = - 1 then (Inr L', st')
          else revealLoop E net P is L' st')"

definition buildSingleUtxoChain ::
  "ext \<Rightarrow> Network \<Rightarrow> ChainArgs \<Rightarrow> ChainInscriptionTool \<Rightarrow>
   (error + Transaction list) \<times> ChainInscriptionTool" where
  "buildSingleUtxoChain E net P st =
    (let inscriptions = a_inscriptions P;
         inscriptionCount = length inscriptions;
         utxo = a_utxo P;
         chainIndex = a_chainIndex P
     in
     if inscriptionCount = 0 then (Inr [], st)
     else
      let firstInscriptionCtx = inscriptions ! 0;
          initialCommitTx =
            addOutput (commitTxAddressPkScript firstInscriptionCtx) 0
              (addInput (txidToHash E (txId utxo)) (vOut utxo) DEFAULT_SEQUENCE_NUM
                (new_Transaction\<lparr>version := DEFAULT_TX_VERSION\<rparr>))
      in
      (case estimateFeeAndOutput E st initialCommitTx [utxo] (a_commitFeeRate P) (amount utxo) 0
              (a_minChangeValue P) True None of
         Inl e \<Rightarrow> (Inl e, st)
       | Inr (initialCommitFee, commitOutputAmount) \<Rightarrow>
          (case commitOutputAmount of
             NegInfinity \<Rightarrow> (Inl (CommitInsufficient chainIndex), st)
           | Num c \<Rightarrow>
              if c < 0 then (Inl (CommitInsufficient chainIndex), st)
              else
               let st1 = recordTx chainIndex 0 initialCommitFee None st;
                   initialCommitTx' = initialCommitTx\<lparr>outs := (outs initialCommitTx)
                        [0 := (outs initialCommitTx ! 0)\<lparr>out_value := c\<rparr>]\<rparr>
               in
               (case revealLoop E net P [0..<inscriptionCount]
                       \<lparr>txChain = [initialCommitTx'], prevTx = initialCommitTx',
                        prevOutputValue = c, prevOutputIndex = 0\<rparr> st1 of
                  (Inl e, st') \<Rightarrow> (Inl e, st')
                | (Inr L, st') \<Rightarrow> (Inr (txChain L), st')))))"

subsection \<open>\<open>buildEnhancedInscriptionChains\<close>\<close>

text \<open>\<open>xs.slice(a, b)\<close> for \<open>0 \<le> a\<close>.\<close>

definition slice :: "'a list \<Rightarrow> nat \<Rightarrow> nat \<Rightarrow> 'a list" where
  "slice xs a b = take (b - a) (drop a xs)"

text \<open>
  The \<open>while (inscriptionStartIndex < totalInscriptions)\<close> loop; \<open>totalInscriptions\<close> is
  read once, before the loop.
\<close>

function buildChains_loop ::
  "ext \<Rightarrow> Network \<Rightarrow> PrevOutput list \<Rightarrow> int \<Rightarrow> rat \<Rightarrow> string \<Rightarrow> int \<Rightarrow> rat \<Rightarrow> nat \<Rightarrow>
   nat \<Rightarrow> nat \<Rightarrow> ChainInscriptionTool \<Rightarrow> (error + unit) \<times> ChainInscriptionTool" where
  "buildChains_loop E net prevOutputs rov revealFeeRate changeAddress mcv commitFeeRate
      totalInscriptions inscriptionStartIndex currentUtxoIndex st =
    (let utxoCount = length prevOutputs;
         maxInscriptionsPerChain = MAX_TRANSACTIONS_PER_CHAIN - 1
     in
     if inscriptionStartIndex < totalInscriptions then
       if currentUtxoIndex \<ge> utxoCount
       then (Inl (UtxoCountInsufficient utxoCount totalInscriptions), st)
       else
        let utxo = prevOutputs ! currentUtxoIndex;
            remainingInscriptions = totalInscriptions - inscriptionStartIndex;
            countForThisChain = min remainingInscriptions maxInscriptionsPerChain;
            segmentEndIndex = inscriptionStartIndex + countForThisChain;
            inscriptionsForThisChain =
              slice (inscriptionTxCtxDataList st) inscriptionStartIndex segmentEndIndex
        in
        if length inscriptionsForThisChain = 0
           \<or> length inscriptionsForThisChain \<noteq> countForThisChain
        then (Inl SegmentFetchFailed, st)
        else
         let currentChainIndex = length (txChains st) in
         (case buildSingleUtxoChain E net
                 \<lparr>a_utxo = utxo, a_inscriptions = inscriptionsForThisChain,
                  a_revealOutValue = rov, a_revealFeeRate = revealFeeRate,
                  a_finalChangeAddress = changeAddress, a_minChangeValue = mcv,
                  a_commitFeeRate = commitFeeRate,
                  a_inscriptionCtxStartIndex = inscriptionStartIndex,
                  a_chainIndex = currentChainIndex\<rparr> st of
            (Inl e, st') \<Rightarrow> (Inl e, st')
          | (Inr chain, st') \<Rightarrow>
              buildChains_loop E net prevOutputs rov revealFeeRate changeAddress mcv
                commitFeeRate totalInscriptions (inscriptionStartIndex + countForThisChain)
                (currentUtxoIndex + 1)
                (if length chain > 0 then st'\<lparr>txChains := txChains st' @ [chain]\<rparr> else st'))
     else (Inr (), st))"
  by pat_completeness auto
termination
  by (relation "measure (\<lambda>(E, net, prevOutputs, rov, rfr, ca, mcv, cfr, total, start, cur, st).
        total - start)") (auto simp: MAX_TRANSACTIONS_PER_CHAIN_def)

declare buildChains_loop.simps [simp del]

definition buildEnhancedInscriptionChains ::
  "ext \<Rightarrow> Network \<Rightarrow> PrevOutput list \<Rightarrow> int \<Rightarrow> rat \<Rightarrow> string \<Rightarrow> int \<Rightarrow> rat \<Rightarrow>
   ChainInscriptionTool \<Rightarrow> (error + unit) \<times> ChainInscriptionTool" where
  "buildEnhancedInscriptionChains E net prevOutputs rov revealFeeRate changeAddress mcv
      commitFeeRate st =
    (let totalInscriptions = length (inscriptionTxCtxDataList st);
         utxoCount = length prevOutputs
     in
     if utxoCount = 0 then (Inr (), st)
     else if totalInscriptions = 0 then (Inr (), st)
     else buildChains_loop E net prevOutputs rov revealFeeRate changeAddress mcv commitFeeRate
            totalInscriptions 0 0 st)"

subsection \<open>\<open>createInscriptionTxCtxData\<close>\<close>

text \<open>\<open>Buffer.from(s)\<close> for a string of one-byte characters.\<close>

definition bytes_of_string :: "string \<Rightarrow> bytes" where
  "bytes_of_string s = map (\<lambda>c. of_char c) s"

text \<open>
  The loop \<open>for (let i = 0; i < bodySize; i += maxChunkSize)\<close> that pushes
  \<open>body.slice(i, end)\<close>.
\<close>

definition maxChunkSize :: nat where "maxChunkSize = 520"

function bodyChunks :: "bytes \<Rightarrow> nat \<Rightarrow> bytes list" where
  "bodyChunks bdy i =
     (if i < length bdy then
        (let end1 = i + maxChunkSize;
             end2 = (if end1 > length bdy then length bdy else end1)
         in slice bdy i end2 # bodyChunks bdy (i + maxChunkSize))
      else [])"
  by pat_completeness auto
termination
  by (relation "measure (\<lambda>(b, i). length b - i)") (auto simp: maxChunkSize_def)

declare bodyChunks.simps [simp del]

text \<open>
  The list \<open>inscriptionBuilder\<close>. The body is the request's \<open>body\<close> after
  \<open>Buffer.from\<close>, that is, its bytes.
\<close>

definition inscriptionBuilder :: "bytes \<Rightarrow> InscriptionData \<Rightarrow> StackElement list" where
  "inscriptionBuilder internalPubKey inscriptionData =
     [Push internalPubKey, Op OP_CHECKSIG, Op OP_FALSE, Op OP_IF,
      Push (bytes_of_string ''ord''), Op OP_DATA_1, Op OP_DATA_1,
      Push (bytes_of_string (contentType inscriptionData)), Op OP_0]
     @ map Push (bodyChunks (body inscriptionData) 0)
     @ [Op OP_ENDIF]"

definition createInscriptionTxCtxData ::
  "ext \<Rightarrow> Network \<Rightarrow> InscriptionData \<Rightarrow> string \<Rightarrow> error + InscriptionTxCtxData" where
  "createInscriptionTxCtxData E net inscriptionData privateKeyWif =
    (case privateKeyFromWIF E privateKeyWif net of
       Inl m \<Rightarrow> Inl (External m)
     | Inr privKey \<Rightarrow>
    (case wif2Public E privateKeyWif net of
       Inl m \<Rightarrow> Inl (External m)
     | Inr pub \<Rightarrow>
       let internalPubKey = drop 1 pub;
           inscriptionScript' = script_compile E (inscriptionBuilder internalPubKey inscriptionData)
       in
       (case p2tr E internalPubKey inscriptionScript' inscriptionScript' 0xc0 net of
          Inl m \<Rightarrow> Inl (External m)
        | Inr pay \<Rightarrow>
         (case toOutputScript E (revealAddr inscriptionData) net of
            Inl m \<Rightarrow> Inl (External m)
          | Inr revealScript \<Rightarrow>
             Inr \<lparr>ctx_privateKey = privKey,
                  inscriptionScript = inscriptionScript',
                  commitTxAddress = p2tr_address pay,
                  commitTxAddressPkScript = p2tr_output pay,
                  ctx_witness = p2tr_witness pay,
                  ctx_hash = p2tr_hash pay,
                  revealTxPrevOutput = \<lparr>pkScript = [], txout_value = 0\<rparr>,
                  revealPkScript = revealScript\<rparr>))))"

subsection \<open>\<open>signAllTransactions\<close>\<close>

text \<open>The body of the \<open>try\<close> block for the transaction \<open>txIndex\<close> of a chain.\<close>

definition signChainTx ::
  "ext \<Rightarrow> ChainInscriptionTool \<Rightarrow> nat \<Rightarrow> PrevOutput \<Rightarrow> Transaction \<Rightarrow> nat \<Rightarrow> TxOutput list \<Rightarrow>
   error + (Transaction \<times> TxOutput list)" where
  "signChainTx E st chainIndex initialUtxo tx txIndex prevTxOutputs =
    (if txIndex = 0 then
       (case signTx E (network st) tx [initialUtxo] of
          Inl e \<Rightarrow> Inl e
        | Inr tx' \<Rightarrow> Inr (tx', outs tx'))
     else
      (case ins tx of
         [] \<Rightarrow> Inl (External ''TypeError: cannot read properties of undefined'')
       | in0 # rest \<Rightarrow>
        let outputSpentIndex = in_index in0 in
        if outputSpentIndex \<ge> int (length prevTxOutputs)
        then Inl (SpendsMissingOutput chainIndex txIndex)
        else if outputSpentIndex < 0
        then Inl (External ''TypeError: cannot read properties of undefined'')
        else
         let prevOutScript = out_script (prevTxOutputs ! nat outputSpentIndex);
             val = out_value (prevTxOutputs ! nat outputSpentIndex)
         in
         (case find (\<lambda>m. cm_chainIndex m = chainIndex \<and> cm_txIndex m = txIndex)
                 (chainContextMapping st) of
            None \<Rightarrow> Inl (NoContextMapping chainIndex txIndex)
          | Some mapping \<Rightarrow>
           (case contextIndex mapping of
              None \<Rightarrow> Inl (NoContextMapping chainIndex txIndex)
            | Some ci \<Rightarrow>
              if ci \<ge> length (inscriptionTxCtxDataList st)
              then Inl (NoContextData chainIndex txIndex)
              else
               let inscriptionCtx = inscriptionTxCtxDataList st ! ci in
               if commitTxAddressPkScript inscriptionCtx \<noteq> prevOutScript
               then Inl ScriptMismatch
               else
                let privateKeyForSigning = ctx_privateKey inscriptionCtx;
                    scriptHashForSigning = ctx_hash inscriptionCtx;
                    witnessForSigning = ctx_witness inscriptionCtx;
                    hash = hashForWitnessV1 E tx 0 [prevOutScript] [val] SIGHASH_DEFAULT
                             (Some scriptHashForSigning);
                    signature = schnorr_sign E hash privateKeyForSigning (randomBytes E 32);
                    tx' = tx\<lparr>ins := in0\<lparr>in_witness := signature # witnessForSigning\<rparr> # rest\<rparr>
                in Inr (tx', outs tx')))))"

text \<open>
  \<open>chain.forEach((tx, txIndex) => ...)\<close>: the chain is updated in place, and an
  exception is rethrown with the position in its message.
\<close>

fun signChain_loop ::
  "ext \<Rightarrow> ChainInscriptionTool \<Rightarrow> nat \<Rightarrow> PrevOutput \<Rightarrow> Transaction list \<Rightarrow> TxOutput list \<Rightarrow>
   nat list \<Rightarrow> (error + unit) \<times> Transaction list" where
  "signChain_loop E st chainIndex initialUtxo chain prevTxOutputs [] = (Inr (), chain)"
| "signChain_loop E st chainIndex initialUtxo chain prevTxOutputs (txIndex # rest) =
     (case signChainTx E st chainIndex initialUtxo (chain ! txIndex) txIndex prevTxOutputs of
        Inl e \<Rightarrow> (Inl (SignFailed chainIndex txIndex e), chain)
      | Inr (tx', prevTxOutputs') \<Rightarrow>
          signChain_loop E st chainIndex initialUtxo (chain[txIndex := tx']) prevTxOutputs' rest)"

text \<open>\<open>this.txChains.forEach((chain, chainIndex) => ...)\<close>; \<open>return\<close> skips a chain.\<close>

fun signAll_loop ::
  "ext \<Rightarrow> PrevOutput list \<Rightarrow> ChainInscriptionTool \<Rightarrow> nat list \<Rightarrow>
   (error + unit) \<times> ChainInscriptionTool" where
  "signAll_loop E prevOutputs st [] = (Inr (), st)"
| "signAll_loop E prevOutputs st (chainIndex # rest) =
     (if chainIndex \<ge> length prevOutputs then signAll_loop E prevOutputs st rest
      else
       let initialUtxo = prevOutputs ! chainIndex in
       if privateKey initialUtxo = [] then signAll_loop E prevOutputs st rest
       else
        (case signChain_loop E st chainIndex initialUtxo (txChains st ! chainIndex) []
                [0..<length (txChains st ! chainIndex)] of
           (Inl e, chain') \<Rightarrow> (Inl e, st\<lparr>txChains := (txChains st)[chainIndex := chain']\<rparr>)
         | (Inr u, chain') \<Rightarrow>
             signAll_loop E prevOutputs (st\<lparr>txChains := (txChains st)[chainIndex := chain']\<rparr>)
               rest))"

definition signAllTransactions ::
  "ext \<Rightarrow> PrevOutput list \<Rightarrow> ChainInscriptionTool \<Rightarrow> (error + unit) \<times> ChainInscriptionTool" where
  "signAllTransactions E prevOutputs st =
     (if txChains st = [] then (Inr (), st)
      else signAll_loop E prevOutputs st [0..<length (txChains st)])"

subsection \<open>\<open>newChainInscriptionTool\<close>\<close>

definition new_ChainInscriptionTool :: ChainInscriptionTool where
  "new_ChainInscriptionTool =
     \<lparr>network = Bitcoin, inscriptionTxCtxDataList = [], txChains = [], utxoMap = [],
      totalEstimatedFee = 0, chainContextMapping = [], txFees = []\<rparr>"

text \<open>\<open>x || d\<close> on a number: \<open>0\<close> is falsy.\<close>

definition orDefault :: "int \<Rightarrow> int \<Rightarrow> int" where
  "orDefault x d = (if x = 0 then d else x)"

text \<open>The same on an optional number: \<open>undefined\<close> is falsy too.\<close>

definition orDefaultOpt :: "int option \<Rightarrow> int \<Rightarrow> int" where
  "orDefaultOpt x d = (case x of None \<Rightarrow> d | Some v \<Rightarrow> orDefault v d)"

text \<open>The first index whose UTXO has no private key (\<open>!utxo.privateKey\<close>), if any.\<close>

fun firstMissingKey :: "PrevOutput list \<Rightarrow> nat \<Rightarrow> nat option" where
  "firstMissingKey [] i = None"
| "firstMissingKey (u # us) i = (if privateKey u = [] then Some i else firstMissingKey us (Suc i))"

text \<open>
  \<open>utxoMap.set\<close> for every UTXO. The key of the source is the string
  \<open>txId:vOut\<close>; the model keeps \<open>vOut\<close> in decimal out of the key's text and uses the
  pair. The map is never read.
\<close>

definition initUtxoMap :: "PrevOutput list \<Rightarrow> ((string \<times> int) \<times> UtxoInfo) list" where
  "initUtxoMap prevOutputs =
     foldl (\<lambda>m u. AList.update (txId u, vOut u)
              \<lparr>ui_amount = amount u, ui_address = address u, ui_privateKey = privateKey u\<rparr> m)
       [] prevOutputs"

definition newChainInscriptionTool ::
  "ext \<Rightarrow> Network \<Rightarrow> InscriptionRequest \<Rightarrow> error + ChainInscriptionTool" where
  "newChainInscriptionTool E net request =
    (let tool = new_ChainInscriptionTool\<lparr>network := net\<rparr>;
         revealOutValue = orDefault (req_revealOutValue request) DEFAULT_REVEAL_OUT_VALUE;
         minChangeValue = orDefaultOpt (req_minChangeValue request) DEFAULT_MIN_CHANGE_VALUE;
         prevOutputs = req_commitTxPrevOutputList request
     in
     if prevOutputs = [] then Inl EmptyPrevOutputList
     else if req_inscriptionDataList request = [] then Inl EmptyInscriptionDataList
     else
      (case firstMissingKey prevOutputs 0 of
         Some i \<Rightarrow> Inl (MissingPrivateKey i)
       | None \<Rightarrow>
         let primaryPrivateKeyWif = privateKey (prevOutputs ! 0) in
         (case mapM (\<lambda>d. createInscriptionTxCtxData E net d primaryPrivateKeyWif)
                 (req_inscriptionDataList request) of
            Inl e \<Rightarrow> Inl e
          | Inr ctxs \<Rightarrow>
            let tool1 = tool\<lparr>inscriptionTxCtxDataList := ctxs,
                             utxoMap := initUtxoMap prevOutputs\<rparr> in
            (case buildEnhancedInscriptionChains E net prevOutputs revealOutValue
                    (req_revealFeeRate request) (req_changeAddress request) minChangeValue
                    (req_commitFeeRate request) tool1 of
               (Inl e, tool2) \<Rightarrow> Inl e
             | (Inr u, tool2) \<Rightarrow>
                (case signAllTransactions E prevOutputs tool2 of
                   (Inl e, tool3) \<Rightarrow> Inl e
                 | (Inr u', tool3) \<Rightarrow> Inr tool3)))))"

subsection \<open>\<open>inscribeChain\<close>\<close>

record OutputInfo =
  pkScriptHex :: string
  oi_value :: int

record LastTxInfo =
  lt_txId :: string
  lt_hex :: string
  lt_fee :: int
  inputTxId :: string
  inputVout :: int
  inputValue :: int
  lt_outputs :: "OutputInfo list"
  signingPrivateKeyWIF :: string
  finalChangeAddress :: string
  lt_network :: Network
  lt_revealOutValue :: int
  lt_minChangeValue :: int
  prevInputPkScriptHex :: string
  revealPkScriptHex :: string
  finalChangePkScriptHex :: string
  tapScriptTreeHashHex :: string
  networkType :: string

record ChainInscribeResult =
  success :: bool
  r_txChains :: "string list list"
  r_txChainTxIds :: "string list list"
  lastTxDetails :: "LastTxInfo list"
  r_totalEstimatedFee :: int
  r_error :: "string option"

text \<open>The three arrays that the packaging loop fills.\<close>

record Packaged =
  txChainsHex :: "string list list"
  txChainTxIds :: "string list list"
  pk_lastTxDetails :: "LastTxInfo list"

text \<open>
  The body of \<open>tool.txChains.forEach((chain, chainIndex) => ...)\<close> in \<open>inscribeChain\<close>.
  A \<open>return\<close> ends the iteration with what was pushed so far.
\<close>

definition packageChain ::
  "ext \<Rightarrow> InscriptionRequest \<Rightarrow> ChainInscriptionTool \<Rightarrow> Transaction list \<Rightarrow> nat \<Rightarrow> Packaged \<Rightarrow>
   error + Packaged" where
  "packageChain E request tool chain chainIndex acc =
    (if length chain < 2
     then Inr (acc\<lparr>txChainsHex := txChainsHex acc @ [[]],
                   txChainTxIds := txChainTxIds acc @ [[]]\<rparr>)
     else
      let lastTxIndex = length chain - 1;
          lastTx = chain ! lastTxIndex;
          prevTx' = chain ! (lastTxIndex - 1);
          acc1 = acc\<lparr>txChainsHex := txChainsHex acc @ [map (toHex E) chain],
                     txChainTxIds := txChainTxIds acc @ [map (getId E) chain]\<rparr>;
          lastTxFee =
            (case find (\<lambda>f. tf_chainIndex f = chainIndex \<and> tf_txIndex f = lastTxIndex)
                    (txFees tool) of
               Some feeInfo \<Rightarrow> tf_fee feeInfo | None \<Rightarrow> 0)
      in
      (case ins lastTx of
         [] \<Rightarrow> Inl (External ''TypeError: cannot read properties of undefined'')
       | inputInfo # rest \<Rightarrow>
         let inputVout' = in_index inputInfo in
         if inputVout' \<ge> int (length (outs prevTx')) then Inr acc1
         else if inputVout' < 0
         then Inl (External ''TypeError: cannot read properties of undefined'')
         else
          let inputValue' = out_value (outs prevTx' ! nat inputVout');
              outputs = map (\<lambda>p. \<lparr>pkScriptHex = bufferToHex E (out_script p),
                                  oi_value = out_value p\<rparr>) (outs lastTx);
              mappingInfo =
                find (\<lambda>m. cm_chainIndex m = chainIndex \<and> cm_txIndex m = lastTxIndex)
                  (chainContextMapping tool);
              ctxIndex = (case mappingInfo of None \<Rightarrow> None | Some m \<Rightarrow> contextIndex m);
              context =
                (case ctxIndex of
                   None \<Rightarrow> None
                 | Some ci \<Rightarrow>
                     if ci < length (inscriptionTxCtxDataList tool)
                     then Some (inscriptionTxCtxDataList tool ! ci) else None);
              detail =
                \<lparr>lt_txId = getId E lastTx,
                 lt_hex = toHex E lastTx,
                 lt_fee = lastTxFee,
                 inputTxId = getId E prevTx',
                 inputVout = inputVout',
                 inputValue = inputValue',
                 lt_outputs = outputs,
                 signingPrivateKeyWIF =
                   (case context of None \<Rightarrow> []
                    | Some c \<Rightarrow> private2Wif E (ctx_privateKey c) (network tool)),
                 finalChangeAddress = req_changeAddress request,
                 lt_network = network tool,
                 lt_revealOutValue =
                   orDefault (req_revealOutValue request) DEFAULT_REVEAL_OUT_VALUE,
                 lt_minChangeValue =
                   orDefaultOpt (req_minChangeValue request) DEFAULT_MIN_CHANGE_VALUE,
                 prevInputPkScriptHex =
                   (case context of None \<Rightarrow> []
                    | Some c \<Rightarrow> bufferToHex E (commitTxAddressPkScript c)),
                 revealPkScriptHex =
                   (if length outputs > 0 then pkScriptHex (outputs ! 0) else []),
                 finalChangePkScriptHex =
                   (if length outputs > 1 then pkScriptHex (outputs ! 1) else []),
                 tapScriptTreeHashHex =
                   (case context of None \<Rightarrow> [] | Some c \<Rightarrow> bufferToHex E (ctx_hash c)),
                 networkType = (if network tool = Bitcoin then ''mainnet'' else ''testnet'')\<rparr>
          in Inr (acc1\<lparr>pk_lastTxDetails := pk_lastTxDetails acc1 @ [detail]\<rparr>)))"

fun package_loop ::
  "ext \<Rightarrow> InscriptionRequest \<Rightarrow> ChainInscriptionTool \<Rightarrow> nat list \<Rightarrow> Packaged \<Rightarrow> error + Packaged" where
  "package_loop E request tool [] acc = Inr acc"
| "package_loop E request tool (chainIndex # rest) acc =
     (case packageChain E request tool (txChains tool ! chainIndex) chainIndex acc of
        Inl e \<Rightarrow> Inl e
      | Inr acc' \<Rightarrow> package_loop E request tool rest acc')"

text \<open>The \<open>catch\<close> block: \<open>error.message || (a fixed text)\<close>.\<close>

definition failureResult :: "error \<Rightarrow> ChainInscribeResult" where
  "failureResult e =
     \<lparr>success = False, r_txChains = [], r_txChainTxIds = [], lastTxDetails = [],
      r_totalEstimatedFee = 0,
      r_error = Some (if message e = [] then ''unknown error'' else message e)\<rparr>"

definition inscribeChain :: "ext \<Rightarrow> Network \<Rightarrow> InscriptionRequest \<Rightarrow> ChainInscribeResult" where
  "inscribeChain E net request =
    (case newChainInscriptionTool E net request of
       Inl e \<Rightarrow> failureResult e
     | Inr tool \<Rightarrow>
        (case package_loop E request tool [0..<length (txChains tool)]
                \<lparr>txChainsHex = [], txChainTxIds = [], pk_lastTxDetails = []\<rparr> of
           Inl e \<Rightarrow> failureResult e
         | Inr acc \<Rightarrow>
            \<lparr>success = True, r_txChains = txChainsHex acc, r_txChainTxIds = txChainTxIds acc,
             lastTxDetails = pk_lastTxDetails acc,
             r_totalEstimatedFee = totalEstimatedFee tool, r_error = None\<rparr>))"


section \<open>Specification-level definitions\<close>

text \<open>
  Names for the expressions of the source that the statements below talk about, the
  invariants of its loops, and one concrete environment on which the definitions can be
  evaluated.
\<close>

definition changeAddressOf :: "ChainArgs \<Rightarrow> nat \<Rightarrow> string" where
  "changeAddressOf P i =
     (if Suc i = length (a_inscriptions P) then a_finalChangeAddress P
      else commitTxAddress (a_inscriptions P ! Suc i))"

definition dustOutput :: "ChainArgs \<Rightarrow> nat \<Rightarrow> TxOutput" where
  "dustOutput P i =
     \<lparr>out_script = revealPkScript (a_inscriptions P ! i), out_value = a_revealOutValue P\<rparr>"

definition spendInput :: "ext \<Rightarrow> Transaction \<Rightarrow> int \<Rightarrow> TxInput" where
  "spendInput E prev vout =
     \<lparr>in_hash = getHash E prev, in_index = vout, in_sequence = DEFAULT_SEQUENCE_NUM,
      in_script = [], in_witness = []\<rparr>"

definition revealInputs :: "ChainArgs \<Rightarrow> int \<Rightarrow> PrevOutput list" where
  "revealInputs P pv =
     [(a_utxo P)\<lparr>amount := pv, address := commitTxAddress (a_inscriptions P ! 0),
                 privateKey := []\<rparr>]"

definition revealEstimate ::
  "ext \<Rightarrow> ChainInscriptionTool \<Rightarrow> ChainArgs \<Rightarrow> nat \<Rightarrow> Transaction \<Rightarrow> int \<Rightarrow> int \<Rightarrow>
   error + (int \<times> jsnum)" where
  "revealEstimate E st P i tx pv mc =
     estimateFeeAndOutput E st tx (revealInputs P pv) (a_revealFeeRate P) pv
       (a_revealOutValue P) mc False (Some (a_inscriptions P ! i))"

definition revealTemplate :: "ext \<Rightarrow> ChainArgs \<Rightarrow> ChainLoop \<Rightarrow> nat \<Rightarrow> bytes \<Rightarrow> Transaction" where
  "revealTemplate E P L i cs =
     \<lparr>version = DEFAULT_TX_VERSION, locktime = 0,
      ins = [spendInput E (prevTx L) (prevOutputIndex L)],
      outs = [dustOutput P i, \<lparr>out_script = cs, out_value = 0\<rparr>]\<rparr>"

definition revealOk :: "ext \<Rightarrow> Network \<Rightarrow> ChainArgs \<Rightarrow> nat \<Rightarrow> Transaction \<Rightarrow> Transaction \<Rightarrow> bool" where
  "revealOk E net P i prev tx \<longleftrightarrow>
     version tx = DEFAULT_TX_VERSION \<and> locktime tx = 0
   \<and> ins tx = [spendInput E prev (if i = 0 then 0 else 1)]
   \<and> (case outs tx of
         [d] \<Rightarrow> d = dustOutput P i \<and> Suc i = length (a_inscriptions P)
       | [d, c] \<Rightarrow> d = dustOutput P i
            \<and> toOutputScript E (changeAddressOf P i) net = Inr (out_script c)
            \<and> a_minChangeValue P \<le> out_value c
       | _ \<Rightarrow> False)"

definition feeOk ::
  "ext \<Rightarrow> ChainInscriptionTool \<Rightarrow> Network \<Rightarrow> ChainArgs \<Rightarrow> nat \<Rightarrow> Transaction \<Rightarrow> Transaction \<Rightarrow> int \<Rightarrow>
   bool" where
  "feeOk E st net P i prev tx f \<longleftrightarrow>
    (let pv = out_value (outs prev ! (if i = 0 then 0 else 1)) in
     case outs tx of
       [d] \<Rightarrow>
         (case revealEstimate E st P i tx pv 0 of Inr (f', x) \<Rightarrow> f' = f | Inl e \<Rightarrow> False)
         \<and> (case toOutputScript E (changeAddressOf P i) net of
              Inr cs \<Rightarrow>
                (case revealEstimate E st P i (tx\<lparr>outs := [d, \<lparr>out_script = cs, out_value = 0\<rparr>]\<rparr>)
                        pv (a_minChangeValue P) of
                   Inr (f0, x) \<Rightarrow> x = Num (- 1) | Inl e \<Rightarrow> False)
            | Inl m \<Rightarrow> False)
     | [d, c] \<Rightarrow>
         revealEstimate E st P i (tx\<lparr>outs := [d, c\<lparr>out_value := 0\<rparr>]\<rparr>) pv (a_minChangeValue P)
           = Inr (f, Num (out_value c))
     | _ \<Rightarrow> False)"

definition loopInv :: "ext \<Rightarrow> Network \<Rightarrow> ChainArgs \<Rightarrow> nat \<Rightarrow> ChainLoop \<Rightarrow> bool" where
  "loopInv E net P i0 L \<longleftrightarrow>
     length (txChain L) = Suc i0
   \<and> prevTx L = last (txChain L)
   \<and> prevOutputIndex L = (if i0 = 0 then 0 else 1)
   \<and> prevOutputValue L = out_value (outs (prevTx L) ! (if i0 = 0 then 0 else 1))
   \<and> (\<forall>i<i0. revealOk E net P i (txChain L ! i) (txChain L ! Suc i))"

text \<open>What a run of the loop from \<open>i0\<close> leaves in the tool.\<close>

definition recorded ::
  "ext \<Rightarrow> Network \<Rightarrow> ChainArgs \<Rightarrow> nat \<Rightarrow> nat \<Rightarrow> Transaction list \<Rightarrow> ChainInscriptionTool \<Rightarrow>
   ChainInscriptionTool \<Rightarrow> bool" where
  "recorded E net P i0 n chain st st' \<longleftrightarrow>
     network st' = network st \<and> inscriptionTxCtxDataList st' = inscriptionTxCtxDataList st
   \<and> txChains st' = txChains st \<and> utxoMap st' = utxoMap st
   \<and> chainContextMapping st' = chainContextMapping st @
        map (\<lambda>i. \<lparr>cm_chainIndex = a_chainIndex P, cm_txIndex = Suc i,
                   contextIndex = Some (a_inscriptionCtxStartIndex P + i)\<rparr>) [i0..<n]
   \<and> (\<exists>fs. length fs = n - i0 \<and> txFees st' = txFees st @ fs
        \<and> totalEstimatedFee st' = totalEstimatedFee st + sum_list (map tf_fee fs)
        \<and> (\<forall>j<n - i0. tf_chainIndex (fs ! j) = a_chainIndex P \<and> tf_txIndex (fs ! j) = Suc (i0 + j)
               \<and> feeOk E st net P (i0 + j) (chain ! (i0 + j)) (chain ! Suc (i0 + j)) (tf_fee (fs ! j))))"

definition commitTemplate :: "ext \<Rightarrow> ChainArgs \<Rightarrow> int \<Rightarrow> Transaction" where
  "commitTemplate E P c =
     \<lparr>version = DEFAULT_TX_VERSION, locktime = 0,
      ins = [\<lparr>in_hash = txidToHash E (txId (a_utxo P)), in_index = vOut (a_utxo P),
              in_sequence = DEFAULT_SEQUENCE_NUM, in_script = [], in_witness = []\<rparr>],
      outs = [\<lparr>out_script = commitTxAddressPkScript (a_inscriptions P ! 0), out_value = c\<rparr>]\<rparr>"

definition commitEstimate ::
  "ext \<Rightarrow> ChainInscriptionTool \<Rightarrow> ChainArgs \<Rightarrow> error + (int \<times> jsnum)" where
  "commitEstimate E st P =
     estimateFeeAndOutput E st (commitTemplate E P 0) [a_utxo P] (a_commitFeeRate P)
       (amount (a_utxo P)) 0 (a_minChangeValue P) True None"

definition isOk :: "'e + 'a \<Rightarrow> bool" where
  "isOk r = (case r of Inr x \<Rightarrow> True | Inl e \<Rightarrow> False)"

definition chainCount :: "nat \<Rightarrow> nat" where
  "chainCount n = (n + 23) div 24"

definition inscriptionsInChain :: "nat \<Rightarrow> nat \<Rightarrow> nat" where
  "inscriptionsInChain n k = min 24 (n - 24 * k)"

definition argsOfChain ::
  "PrevOutput list \<Rightarrow> InscriptionTxCtxData list \<Rightarrow> int \<Rightarrow> rat \<Rightarrow> string \<Rightarrow> int \<Rightarrow> rat \<Rightarrow> nat \<Rightarrow> ChainArgs" where
  "argsOfChain prevOutputs ctxs rov rfr ca mcv cfr k =
     \<lparr>a_utxo = prevOutputs ! k,
      a_inscriptions = slice ctxs (24 * k) (24 * k + inscriptionsInChain (length ctxs) k),
      a_revealOutValue = rov, a_revealFeeRate = rfr, a_finalChangeAddress = ca,
      a_minChangeValue = mcv, a_commitFeeRate = cfr,
      a_inscriptionCtxStartIndex = 24 * k, a_chainIndex = k\<rparr>"

text \<open>
  The value of \<open>prevTxOutputs\<close> when the signer reaches the transaction \<open>t\<close> of a chain:
  the outputs of the transaction before it.
\<close>

definition prevOutsAt :: "Transaction list \<Rightarrow> nat \<Rightarrow> TxOutput list" where
  "prevOutsAt chain t = (if t = 0 then [] else outs (chain ! (t - 1)))"

text \<open>
  What \<open>signAllTransactions\<close> does with the chain \<open>k\<close>: it skips a chain without funding
  output or without private key, and signs the others from the first transaction on.
\<close>

definition chainSigned ::
  "ext \<Rightarrow> PrevOutput list \<Rightarrow> ChainInscriptionTool \<Rightarrow> nat \<Rightarrow> Transaction list \<Rightarrow> bool" where
  "chainSigned E us st k chain' \<longleftrightarrow>
     (if length us \<le> k \<or> privateKey (us ! k) = [] then chain' = txChains st ! k
      else signChain_loop E st k (us ! k) (txChains st ! k) []
             [0..<length (txChains st ! k)] = (Inr (), chain'))"

text \<open>
  The look-up \<open>this.chainContextMapping.find(...)\<close> of the signer, with its
  \<open>contextIndex\<close>; \<open>None\<close> when there is no entry or the entry has no context.
\<close>

definition contextOf :: "ChainInscriptionTool \<Rightarrow> nat \<Rightarrow> nat \<Rightarrow> nat option" where
  "contextOf st chainIndex txIndex =
     (case find (\<lambda>m. cm_chainIndex m = chainIndex \<and> cm_txIndex m = txIndex)
             (chainContextMapping st) of
        None \<Rightarrow> None
      | Some mapping \<Rightarrow> contextIndex mapping)"

text \<open>
  Modelled from the spec: \<open>schnorr.sign\<close> of the signature library, which is not among
  the sources: the signer prepends ``a 64-byte Schnorr signature''.
\<close>

definition schnorrSignatureSize :: "ext \<Rightarrow> bool" where
  "schnorrSignatureSize E \<longleftrightarrow> (\<forall>h k a. length (schnorr_sign E h k a) = 64)"

text \<open>
  Modelled from the spec: \<open>wif2Public\<close> of the library, which is not among the sources,
  returns the 33-byte compressed public key, so that \<open>.slice(1)\<close> is ``the raw 32-byte
  x-only internal public key''.
\<close>

definition compressedPublicKey :: "ext \<Rightarrow> bool" where
  "compressedPublicKey E \<longleftrightarrow> (\<forall>w net pub. wif2Public E w net = Inr pub \<longrightarrow> length pub = 33)"

text \<open>
  Modelled from the spec: the control block that \<open>payments.p2tr\<close> of the library, which
  is not among the sources, derives for a script tree of a single leaf:
  ``\<open>0xC0 | parity\<close> followed by the internal x-only pubkey; no merkle siblings since the
  tree has depth 0''.
\<close>

definition controlBlock :: "nat \<Rightarrow> 8 word \<Rightarrow> bytes \<Rightarrow> bytes" where
  "controlBlock leafVersion parity internalPubKey = or (of_nat leafVersion) parity # internalPubKey"

text \<open>
  Modelled from the spec: the witness of \<open>payments.p2tr\<close> for a redeem script that is the
  single leaf of the tree is ``the reveal-only witness suffix \<open>W = [script, c]\<close>'', with
  the control block \<open>c\<close> above.
\<close>

definition p2trSingleLeaf :: "ext \<Rightarrow> bool" where
  "p2trSingleLeaf E \<longleftrightarrow>
     (\<forall>ipk s v net pay. p2tr E ipk s s v net = Inr pay \<longrightarrow>
        (\<exists>parity. parity \<le> 1 \<and> p2tr_witness pay = [s, controlBlock v parity ipk]))"


subsection \<open>A concrete environment\<close>

text \<open>
  The libraries replaced by small functions. The environment knows the test network
  only: an address, a WIF key or a size request checked against another network is
  refused, as the libraries refuse a \<open>tb1...\<close> address on the main network. The virtual
  size counts the outputs only, a script is the length of its address, a transaction hash
  covers the number of outputs and the input scripts (not the witnesses), an address is
  P2TR when it starts with \<open>tb\<close> and legacy otherwise, a Schnorr signature is 64 bytes and
  starts with the length of the key, a compressed public key is 33 bytes and \<open>p2tr\<close>
  answers the commit address \<open>tb1c\<close> with the witness \<open>[script, control block]\<close>.
\<close>

definition sample_ext :: ext where
  "sample_ext =
    \<lparr>toOutputScript = (\<lambda>a n. if a = [] \<or> n \<noteq> Testnet then Inl ''invalid address''
                              else Inr [of_nat (length a)]),
     getHash = (\<lambda>tx. of_nat (length (outs tx)) # concat (map in_script (ins tx))),
     getId = (\<lambda>tx. ''id''),
     toHex = (\<lambda>tx. ''hex''),
     countAdjustedVsize = (\<lambda>tx addrs n. if n \<noteq> Testnet then Inl ''invalid address''
                                  else Inr (100 + 10 * int (length (outs tx)))),
     getAddressType = (\<lambda>a n. if n \<noteq> Testnet then Inl ''invalid prefix''
                              else if take 2 a = ''tb'' then Inr ''segwit_taproot''
                              else Inr ''legacy''),
     privateKeyFromWIF = (\<lambda>w n. if w = [] \<or> n \<noteq> Testnet then Inl ''invalid WIF''
                                 else Inr [of_nat (length w)]),
     private2public = (\<lambda>k. 2 # k),
     wif2Public = (\<lambda>w n. if n \<noteq> Testnet then Inl ''invalid WIF'' else Inr (2 # replicate 32 7)),
     private2Wif = (\<lambda>k n. ''wif''),
     txidToHash = (\<lambda>t. [of_nat (length t)]),
     hashForWitnessV1 = (\<lambda>tx i scripts vals t leaf. [of_nat i]),
     hashForSignature = (\<lambda>tx i s t. [of_nat i]),
     hashForWitness = (\<lambda>tx i s v t. [of_nat i]),
     taprootTweakPrivKey = (\<lambda>k. 1 # k),
     schnorr_sign = (\<lambda>h k a. of_nat (length k) # replicate 63 1),
     randomBytes = (\<lambda>n. replicate n 0),
     ecdsa_sign = (\<lambda>h k. replicate 64 2),
     signature_encode = (\<lambda>s t. s @ [of_nat t]),
     p2pkh_input = (\<lambda>s k. s @ k),
     hash160 = (\<lambda>b. take 20 b),
     script_compile = (\<lambda>es. [of_nat (length es)]),
     p2tr = (\<lambda>ipk tree red v n. Inr \<lparr>p2tr_output = [4], p2tr_witness = [red, of_nat v # ipk],
                p2tr_hash = [9], p2tr_address = ''tb1c''\<rparr>),
     bufferToHex = (\<lambda>b. ''ff'')\<rparr>"

text \<open>A tool of the test network, before the planner runs.\<close>

definition sample_st :: "InscriptionTxCtxData list \<Rightarrow> ChainInscriptionTool" where
  "sample_st ctxs = new_ChainInscriptionTool\<lparr>network := Testnet, inscriptionTxCtxDataList := ctxs\<rparr>"

definition sample_utxo :: "int \<Rightarrow> PrevOutput" where
  "sample_utxo v =
     \<lparr>txId = ''aa'', vOut = 0, amount = v, address = ''tb1p'', privateKey = ''K'',
      publicKey = None\<rparr>"

text \<open>The same funding output at a legacy (P2PKH) address.\<close>

definition sample_legacy_utxo :: "int \<Rightarrow> PrevOutput" where
  "sample_legacy_utxo v = (sample_utxo v)\<lparr>address := ''mLegacy''\<rparr>"

definition sample_ctx :: InscriptionTxCtxData where
  "sample_ctx =
     \<lparr>ctx_privateKey = [1], inscriptionScript = [11], commitTxAddress = ''tb1c'',
      commitTxAddressPkScript = [4], ctx_witness = [[11], 192 # replicate 32 7], ctx_hash = [9],
      revealTxPrevOutput = \<lparr>pkScript = [], txout_value = 0\<rparr>, revealPkScript = [5]\<rparr>"

text \<open>
  The arguments of chain \<open>k\<close>: \<open>n\<close> inscriptions, each with the sample context, funded by
  \<open>u\<close>, at the fee rates 1.
\<close>

definition sample_chain_args :: "nat \<Rightarrow> nat \<Rightarrow> PrevOutput \<Rightarrow> ChainArgs" where
  "sample_chain_args k n u =
     \<lparr>a_utxo = u, a_inscriptions = replicate n sample_ctx, a_revealOutValue = 546,
      a_revealFeeRate = 1, a_finalChangeAddress = ''tb1ccc'', a_minChangeValue = 546,
      a_commitFeeRate = 1, a_inscriptionCtxStartIndex = 24 * k, a_chainIndex = k\<rparr>"

text \<open>
  The reveal that spends output \<open>vout\<close> of a transaction with the hash \<open>h\<close> and pays the
  dust and \<open>change\<close>.
\<close>

definition sample_reveal_of :: "bytes \<Rightarrow> int \<Rightarrow> TxOutput list \<Rightarrow> Transaction" where
  "sample_reveal_of h vout change =
     \<lparr>version = 2, locktime = 0,
      ins = [\<lparr>in_hash = h, in_index = vout, in_sequence = 4294967293, in_script = [],
              in_witness = []\<rparr>],
      outs = \<lparr>out_script = [5], out_value = 546\<rparr> # change\<rparr>"

definition sample_data :: InscriptionData where
  "sample_data = \<lparr>contentType = ''text/plain'', body = [1, 2, 3], revealAddr = ''tb1qq''\<rparr>"

definition sample_request :: "int \<Rightarrow> InscriptionRequest" where
  "sample_request v =
     \<lparr>req_commitTxPrevOutputList = [sample_utxo v], req_commitFeeRate = 1,
      req_revealFeeRate = 1, req_inscriptionDataList = [sample_data],
      req_revealOutValue = 546, req_changeAddress = ''tb1ccc'',
      req_minChangeValue = Some 546\<rparr>"

definition sample_commit :: "int \<Rightarrow> Transaction" where
  "sample_commit c =
     \<lparr>version = 2, locktime = 0,
      ins = [\<lparr>in_hash = [2], in_index = 0, in_sequence = 4294967293, in_script = [],
              in_witness = []\<rparr>],
      outs = [\<lparr>out_script = [4], out_value = c\<rparr>]\<rparr>"

text \<open>The sample request funded by \<open>u\<close>.\<close>

definition sample_request_of :: "PrevOutput \<Rightarrow> InscriptionRequest" where
  "sample_request_of u = (sample_request 0)\<lparr>req_commitTxPrevOutputList := [u]\<rparr>"

text \<open>
  The tool of the sample request, funded by \<open>u\<close> with \<open>v\<close> sat, after the planner: one chain,
  a commit and a reveal with change, and the ledger entries of both.
\<close>

definition sample_built :: "PrevOutput \<Rightarrow> int \<Rightarrow> ChainInscriptionTool" where
  "sample_built u v =
     (recordTx 0 (Suc 0) 120 (Some 0) (recordTx 0 0 110 None
        ((sample_st [sample_ctx])\<lparr>utxoMap := initUtxoMap [u]\<rparr>)))
     \<lparr>txChains := [[sample_commit (v - 110),
                     sample_reveal_of [1] 0 [\<lparr>out_script = [6], out_value = v - 776\<rparr>]]]\<rparr>"

text \<open>
  The chain after signing: the commit with the input script (legacy funding) or the
  witness (P2TR funding) of its funding input, the reveal with its witness.
\<close>

definition sample_signed :: "bool \<Rightarrow> int \<Rightarrow> Transaction list" where
  "sample_signed legacy v =
     [(sample_commit (v - 110))\<lparr>ins := [\<lparr>in_hash = [2], in_index = 0, in_sequence = 4294967293,
         in_script = (if legacy then replicate 64 2 @ [1, 2, 1] else []),
         in_witness = (if legacy then [] else [2 # replicate 63 1])\<rparr>]\<rparr>,
      (sample_reveal_of [1] 0 [\<lparr>out_script = [6], out_value = v - 776\<rparr>])\<lparr>ins :=
        [\<lparr>in_hash = [1], in_index = 0, in_sequence = 4294967293, in_script = [],
          in_witness = [1 # replicate 63 1, [11], 192 # replicate 32 7]\<rparr>]\<rparr>]"


section \<open>Lemmas\<close>

text \<open>The estimator reads nothing of the tool but its network.\<close>

lemma estimate_network:
  assumes "network s1 = network s2"
  shows "estimateFeeAndOutput E s1 tx inputs r t f m c x = estimateFeeAndOutput E s2 tx inputs r t f m c x"
  unfolding estimateFeeAndOutput_def assms ..

lemma revealEstimate_network:
  "network s1 = network s2 \<Longrightarrow> revealEstimate E s1 P i tx pv mc = revealEstimate E s2 P i tx pv mc"
  unfolding revealEstimate_def by (rule estimate_network)

lemma commitEstimate_network:
  "network s1 = network s2 \<Longrightarrow> commitEstimate E s1 P = commitEstimate E s2 P"
  unfolding commitEstimate_def by (rule estimate_network)

lemma feeOk_network:
  assumes "network s1 = network s2"
  shows "feeOk E s1 net P i a b f = feeOk E s2 net P i a b f"
  unfolding feeOk_def revealEstimate_network [OF assms] ..

lemma network_recordTx: "network (recordTx k t f c st) = network st"
  by (simp add: recordTx_def)

lemma revealStep_ok:
  assumes "revealStep E net P i L st = (Inr L', st')"
  shows "\<exists>f cs.
     changeAddressOf P i \<noteq> [] \<and> i < length (a_inscriptions P)
   \<and> toOutputScript E (changeAddressOf P i) net = Inr cs
   \<and> st' = recordTx (a_chainIndex P) (length (txChain L)) f
             (Some (a_inscriptionCtxStartIndex P + i)) st
   \<and> txChain L' = txChain L @ [prevTx L']
   \<and> version (prevTx L') = DEFAULT_TX_VERSION \<and> locktime (prevTx L') = 0
   \<and> ins (prevTx L') = [spendInput E (prevTx L) (prevOutputIndex L)]
   \<and> ((\<exists>c. outs (prevTx L') = [dustOutput P i, \<lparr>out_script = cs, out_value = c\<rparr>]
            \<and> a_minChangeValue P \<le> c \<and> prevOutputValue L' = c \<and> prevOutputIndex L' = 1
            \<and> revealEstimate E st P i
                 ((prevTx L')\<lparr>outs := [dustOutput P i, \<lparr>out_script = cs, out_value = 0\<rparr>]\<rparr>)
                 (prevOutputValue L) (a_minChangeValue P) = Inr (f, Num c))
       \<or> (Suc i = length (a_inscriptions P)
          \<and> outs (prevTx L') = [dustOutput P i]
          \<and> prevOutputValue L' = 0 \<and> prevOutputIndex L' = - 1
          \<and> (\<exists>f0. revealEstimate E st P i
                 ((prevTx L')\<lparr>outs := [dustOutput P i, \<lparr>out_script = cs, out_value = 0\<rparr>]\<rparr>)
                 (prevOutputValue L) (a_minChangeValue P) = Inr (f0, Num (- 1)))
          \<and> (\<exists>x. revealEstimate E st P i (prevTx L') (prevOutputValue L) 0 = Inr (f, x))))"
  using assms
  unfolding revealStep_def Let_def addOutput_def addInput_def new_Transaction_def
    changeAddressOf_def dustOutput_def spendInput_def revealInputs_def revealEstimate_def
  by (auto split: sum.splits prod.splits jsnum.splits if_splits)

lemma recorded_refl: "recorded E net P n n chain st st"
  by (simp add: recorded_def)

lemma recorded_step:
  assumes s1: "s1 = recordTx (a_chainIndex P) (Suc i0) f (Some (a_inscriptionCtxStartIndex P + i0)) st"
    and fee: "feeOk E st net P i0 (chain ! i0) (chain ! Suc i0) f"
    and rest: "recorded E net P (Suc i0) n chain s1 st'" and lt: "i0 < n"
  shows "recorded E net P i0 n chain st st'"
proof -
  have nw: "network s1 = network st" unfolding s1 by (rule network_recordTx)
  from rest obtain fs where fs: "length fs = n - Suc i0" "txFees st' = txFees s1 @ fs"
    "totalEstimatedFee st' = totalEstimatedFee s1 + sum_list (map tf_fee fs)"
    "\<forall>j<n - Suc i0. tf_chainIndex (fs ! j) = a_chainIndex P \<and> tf_txIndex (fs ! j) = Suc (Suc i0 + j)
               \<and> feeOk E st net P (Suc i0 + j) (chain ! (Suc i0 + j)) (chain ! Suc (Suc i0 + j)) (tf_fee (fs ! j))"
    unfolding recorded_def feeOk_network [OF nw] by blast
  let ?e = "\<lparr>tf_chainIndex = a_chainIndex P, tf_txIndex = Suc i0, tf_fee = f\<rparr>"
  have a: "length (?e # fs) = n - i0" using fs(1) lt by simp
  have b: "txFees st' = txFees st @ (?e # fs)" using fs(2) s1 by (simp add: recordTx_def)
  have c: "totalEstimatedFee st' = totalEstimatedFee st + sum_list (map tf_fee (?e # fs))"
    using fs(3) s1 by (simp add: recordTx_def)
  have d: "\<forall>j<n - i0. tf_chainIndex ((?e # fs) ! j) = a_chainIndex P \<and> tf_txIndex ((?e # fs) ! j) = Suc (i0 + j)
               \<and> feeOk E st net P (i0 + j) (chain ! (i0 + j)) (chain ! Suc (i0 + j)) (tf_fee ((?e # fs) ! j))"
  proof (intro allI impI)
    fix j assume j: "j < n - i0"
    show "tf_chainIndex ((?e # fs) ! j) = a_chainIndex P \<and> tf_txIndex ((?e # fs) ! j) = Suc (i0 + j)
               \<and> feeOk E st net P (i0 + j) (chain ! (i0 + j)) (chain ! Suc (i0 + j)) (tf_fee ((?e # fs) ! j))"
    proof (cases j)
      case 0
      then show ?thesis using fee by simp
    next
      case (Suc j')
      then have "j' < n - Suc i0" using j by simp
      with fs(4) Suc show ?thesis by simp
    qed
  qed
  have m: "chainContextMapping st' = chainContextMapping st @
        map (\<lambda>i. \<lparr>cm_chainIndex = a_chainIndex P, cm_txIndex = Suc i,
                   contextIndex = Some (a_inscriptionCtxStartIndex P + i)\<rparr>) [i0..<n]"
    using rest s1 lt unfolding recorded_def by (simp add: recordTx_def upt_conv_Cons)
  have p: "network st' = network st \<and> inscriptionTxCtxDataList st' = inscriptionTxCtxDataList st
   \<and> txChains st' = txChains st \<and> utxoMap st' = utxoMap st"
    using rest s1 unfolding recorded_def by (simp add: recordTx_def)
  show ?thesis unfolding recorded_def using p m a b c d by blast
qed

lemma revealStep_inv:
  assumes step: "revealStep E net P i L st = (Inr L', st')"
    and inv: "loopInv E net P i L"
  shows "take (Suc i) (txChain L') = txChain L"
    and "length (txChain L') = Suc (Suc i)"
    and "i < length (a_inscriptions P)"
    and "\<forall>j<Suc i. revealOk E net P j (txChain L' ! j) (txChain L' ! Suc j)"
    and "\<exists>f. st' = recordTx (a_chainIndex P) (Suc i) f (Some (a_inscriptionCtxStartIndex P + i)) st
           \<and> feeOk E st net P i (txChain L' ! i) (txChain L' ! Suc i) f"
    and "prevOutputIndex L' \<noteq> - 1 \<Longrightarrow> loopInv E net P (Suc i) L'"
    and "prevOutputIndex L' = - 1 \<Longrightarrow> Suc i = length (a_inscriptions P)"
proof -
  from revealStep_ok [OF step] obtain f cs where
    a: "toOutputScript E (changeAddressOf P i) net = Inr cs"
    and r: "st' = recordTx (a_chainIndex P) (length (txChain L)) f
             (Some (a_inscriptionCtxStartIndex P + i)) st"
    and c: "txChain L' = txChain L @ [prevTx L']"
    and v: "version (prevTx L') = DEFAULT_TX_VERSION" "locktime (prevTx L') = 0"
    and i: "ins (prevTx L') = [spendInput E (prevTx L) (prevOutputIndex L)]"
    and o: "((\<exists>c. outs (prevTx L') = [dustOutput P i, \<lparr>out_script = cs, out_value = c\<rparr>]
            \<and> a_minChangeValue P \<le> c \<and> prevOutputValue L' = c \<and> prevOutputIndex L' = 1
            \<and> revealEstimate E st P i
                 ((prevTx L')\<lparr>outs := [dustOutput P i, \<lparr>out_script = cs, out_value = 0\<rparr>]\<rparr>)
                 (prevOutputValue L) (a_minChangeValue P) = Inr (f, Num c))
       \<or> (Suc i = length (a_inscriptions P)
          \<and> outs (prevTx L') = [dustOutput P i]
          \<and> prevOutputValue L' = 0 \<and> prevOutputIndex L' = - 1
          \<and> (\<exists>f0. revealEstimate E st P i
                 ((prevTx L')\<lparr>outs := [dustOutput P i, \<lparr>out_script = cs, out_value = 0\<rparr>]\<rparr>)
                 (prevOutputValue L) (a_minChangeValue P) = Inr (f0, Num (- 1)))
          \<and> (\<exists>x. revealEstimate E st P i (prevTx L') (prevOutputValue L) 0 = Inr (f, x))))"
    and il: "i < length (a_inscriptions P)"
    by blast
  from inv have len: "length (txChain L) = Suc i" and pt: "prevTx L = last (txChain L)"
    and pi: "prevOutputIndex L = (if i = 0 then 0 else 1)"
    and pv: "prevOutputValue L = out_value (outs (prevTx L) ! (if i = 0 then 0 else 1))"
    and old: "\<forall>j<i. revealOk E net P j (txChain L ! j) (txChain L ! Suc j)"
    by (simp_all add: loopInv_def)
  have ne: "txChain L \<noteq> []" using len by auto
  have pt': "prevTx L = txChain L ! i" using pt len ne by (simp add: last_conv_nth)
  have n1: "txChain L' ! i = prevTx L" using c len pt' by (simp add: nth_append)
  have n2: "txChain L' ! Suc i = prevTx L'" using c len by (simp add: nth_append)
  show "take (Suc i) (txChain L') = txChain L" using c len by simp
  show "length (txChain L') = Suc (Suc i)" using c len by simp
  show "i < length (a_inscriptions P)" by (rule il)
  have new: "revealOk E net P i (txChain L' ! i) (txChain L' ! Suc i)"
    unfolding n1 n2 using o a v i pi by (auto simp: revealOk_def)
  show all: "\<forall>j<Suc i. revealOk E net P j (txChain L' ! j) (txChain L' ! Suc j)"
  proof (intro allI impI)
    fix j assume "j < Suc i"
    then consider "j < i" | "j = i" by linarith
    then show "revealOk E net P j (txChain L' ! j) (txChain L' ! Suc j)"
    proof cases
      case 1
      then show ?thesis using old c len by (simp add: nth_append)
    next
      case 2
      then show ?thesis using new by simp
    qed
  qed
  have fee: "feeOk E st net P i (txChain L' ! i) (txChain L' ! Suc i) f"
    unfolding n1 n2 using o a pv by (auto simp: feeOk_def Let_def)
  show "\<exists>f. st' = recordTx (a_chainIndex P) (Suc i) f (Some (a_inscriptionCtxStartIndex P + i)) st
           \<and> feeOk E st net P i (txChain L' ! i) (txChain L' ! Suc i) f"
    using r len fee by auto
  have last': "last (txChain L') = prevTx L'" using c by simp
  show "prevOutputIndex L' \<noteq> - 1 \<Longrightarrow> loopInv E net P (Suc i) L'"
    using o all c len by (auto simp: loopInv_def)
  show "prevOutputIndex L' = - 1 \<Longrightarrow> Suc i = length (a_inscriptions P)"
    using o by auto
qed

lemma revealLoop_ok:
  assumes "revealLoop E net P [i0..<n] L st = (Inr L', st')"
    and "n = length (a_inscriptions P)" and "i0 \<le> n"
    and "loopInv E net P i0 L"
  shows "length (txChain L') = Suc n \<and> take (Suc i0) (txChain L') = txChain L
       \<and> (\<forall>j<n. revealOk E net P j (txChain L' ! j) (txChain L' ! Suc j))
       \<and> recorded E net P i0 n (txChain L') st st'"
  using assms
proof (induction "n - i0" arbitrary: i0 L st)
  case 0
  then have "i0 = n" by simp
  with 0 show ?case by (simp add: loopInv_def recorded_refl)
next
  case (Suc d)
  then have lt: "i0 < n" by simp
  then have up: "[i0..<n] = i0 # [Suc i0..<n]" by (simp add: upt_conv_Cons)
  obtain r s where step: "revealStep E net P i0 L st = (r, s)" by (cases "revealStep E net P i0 L st")
  from Suc.prems(1) up step obtain L1 where r: "r = Inr L1" by (cases r) auto
  note facts = revealStep_inv [OF step [unfolded r] Suc.prems(4)]
  from facts(5) obtain f where
    s: "s = recordTx (a_chainIndex P) (Suc i0) f (Some (a_inscriptionCtxStartIndex P + i0)) st"
    and fee1: "feeOk E st net P i0 (txChain L1 ! i0) (txChain L1 ! Suc i0) f" by blast
  show ?case
  proof (cases "prevOutputIndex L1 = - 1")
    case True
    with Suc.prems(1) up step r have e: "L' = L1" "st' = s" by simp_all
    have n: "n = Suc i0" using facts(7) [OF True] Suc.prems(2) by simp
    have "recorded E net P i0 n (txChain L') st st'"
      by (rule recorded_step [OF s]) (use fee1 e n recorded_refl lt in auto)
    with facts(1,2,4) e n show ?thesis by simp
  next
    case False
    with Suc.prems(1) up step r have rec: "revealLoop E net P [Suc i0..<n] L1 s = (Inr L', st')" by simp
    have "d = n - Suc i0" using Suc.hyps(2) by simp
    from Suc.hyps(1) [OF this rec Suc.prems(2) _ facts(6) [OF False]] lt
    have ih: "length (txChain L') = Suc n" "take (Suc (Suc i0)) (txChain L') = txChain L1"
      "\<forall>j<n. revealOk E net P j (txChain L' ! j) (txChain L' ! Suc j)"
      "recorded E net P (Suc i0) n (txChain L') s st'" by auto
    have "take (Suc i0) (txChain L') = take (Suc i0) (take (Suc (Suc i0)) (txChain L'))"
      by (simp add: min_def)
    also have "\<dots> = txChain L" using ih(2) facts(1) by simp
    finally have tk: "take (Suc i0) (txChain L') = txChain L" .
    have e1: "txChain L1 ! i0 = txChain L' ! i0" and e2: "txChain L1 ! Suc i0 = txChain L' ! Suc i0"
      using ih(2) [symmetric] by simp_all
    have "recorded E net P i0 n (txChain L') st st'"
      by (rule recorded_step [OF s _ ih(4) lt]) (use fee1 e1 e2 in simp)
    then show ?thesis using ih tk by simp
  qed
qed

lemma build_unfold:
  "a_inscriptions P \<noteq> [] \<Longrightarrow> buildSingleUtxoChain E net P st =
     (case commitEstimate E st P of
        Inl e \<Rightarrow> (Inl e, st)
      | Inr (f0, NegInfinity) \<Rightarrow> (Inl (CommitInsufficient (a_chainIndex P)), st)
      | Inr (f0, Num c) \<Rightarrow>
          if c < 0 then (Inl (CommitInsufficient (a_chainIndex P)), st)
          else (case revealLoop E net P [0..<length (a_inscriptions P)]
                       \<lparr>txChain = [commitTemplate E P c], prevTx = commitTemplate E P c,
                        prevOutputValue = c, prevOutputIndex = 0\<rparr>
                       (recordTx (a_chainIndex P) 0 f0 None st) of
                  (Inl e, st') \<Rightarrow> (Inl e, st')
                | (Inr L, st') \<Rightarrow> (Inr (txChain L), st')))"
  by (simp add: buildSingleUtxoChain_def commitEstimate_def commitTemplate_def Let_def
      addInput_def addOutput_def new_Transaction_def split: sum.splits prod.splits jsnum.splits)

lemma build_ok:
  assumes b: "buildSingleUtxoChain E net P st = (Inr chain, st')"
    and ne: "a_inscriptions P \<noteq> []"
  shows "\<exists>f0 c. commitEstimate E st P = Inr (f0, Num c) \<and> 0 \<le> c
      \<and> length chain = Suc (length (a_inscriptions P))
      \<and> chain ! 0 = commitTemplate E P c
      \<and> (\<forall>j<length (a_inscriptions P). revealOk E net P j (chain ! j) (chain ! Suc j))
      \<and> recorded E net P 0 (length (a_inscriptions P)) chain (recordTx (a_chainIndex P) 0 f0 None st) st'"
proof -
  from b ne obtain f0 c L where
    ce: "commitEstimate E st P = Inr (f0, Num c)" and c0: "0 \<le> c"
    and loop: "revealLoop E net P [0..<length (a_inscriptions P)]
                       \<lparr>txChain = [commitTemplate E P c], prevTx = commitTemplate E P c,
                        prevOutputValue = c, prevOutputIndex = 0\<rparr>
                       (recordTx (a_chainIndex P) 0 f0 None st) = (Inr L, st')"
    and ch: "chain = txChain L"
    by (auto simp: build_unfold split: sum.splits prod.splits jsnum.splits if_splits)
  have inv: "loopInv E net P 0 \<lparr>txChain = [commitTemplate E P c], prevTx = commitTemplate E P c,
                        prevOutputValue = c, prevOutputIndex = 0\<rparr>"
    by (simp add: loopInv_def commitTemplate_def)
  from revealLoop_ok [OF loop refl _ inv]
  have r: "length (txChain L) = Suc (length (a_inscriptions P))"
    "take (Suc 0) (txChain L) = [commitTemplate E P c]"
    "\<forall>j<length (a_inscriptions P). revealOk E net P j (txChain L ! j) (txChain L ! Suc j)"
    "recorded E net P 0 (length (a_inscriptions P)) (txChain L) (recordTx (a_chainIndex P) 0 f0 None st) st'"
    by simp_all
  have "txChain L ! 0 = commitTemplate E P c"
    using r(1,2) by (cases "txChain L") simp_all
  with ce c0 r ch show ?thesis by blast
qed

text \<open>
  What a chain is, and whether its assembly throws, depends on the tool through its network
  only; the assembly leaves the network as it is.
\<close>

lemma revealStep_network:
  "network (snd (revealStep E net P i L st)) = network st"
  by (simp add: revealStep_def Let_def recordTx_def split: sum.splits prod.splits jsnum.splits)

lemma revealStep_fst_indep:
  "network st2 = network st \<Longrightarrow> fst (revealStep E net P i L st) = fst (revealStep E net P i L st2)"
  by (simp add: revealStep_def Let_def estimate_network [of st2 st]
      split: sum.splits prod.splits jsnum.splits)

lemma revealLoop_fst_indep:
  "network st2 = network st \<Longrightarrow> fst (revealLoop E net P js L st) = fst (revealLoop E net P js L st2)"
proof (induction js arbitrary: L st st2)
  case Nil
  then show ?case by simp
next
  case (Cons j js)
  obtain r s where a: "revealStep E net P j L st = (r, s)" by (cases "revealStep E net P j L st")
  obtain r2 s2 where b: "revealStep E net P j L st2 = (r2, s2)" by (cases "revealStep E net P j L st2")
  have "r = r2" using revealStep_fst_indep [OF Cons.prems, of E net P j L] a b by simp
  moreover have "network s2 = network s"
    using revealStep_network [of E net P j L st] revealStep_network [of E net P j L st2]
      a b Cons.prems by simp
  ultimately show ?case using a b Cons.IH [of s2 s] by (cases r) auto
qed

lemma build_fst_indep:
  assumes nw: "network st2 = network st"
  shows "fst (buildSingleUtxoChain E net P st) = fst (buildSingleUtxoChain E net P st2)"
proof -
  have *: "\<And>js L s1 s2. network (s2 :: ChainInscriptionTool) = network (s1 :: ChainInscriptionTool) \<Longrightarrow> fst (case revealLoop E net P js L s1 of (Inl e, st') \<Rightarrow> (Inl e, st') | (Inr L, st') \<Rightarrow> (Inr (txChain L), st'))
     = fst (case revealLoop E net P js L s2 of (Inl e, st') \<Rightarrow> (Inl e, st') | (Inr L, st') \<Rightarrow> (Inr (txChain L), st'))"
  proof -
    fix js L and s1 s2 :: ChainInscriptionTool
    assume n: "network s2 = network s1"
    obtain r s where a: "revealLoop E net P js L s1 = (r, s)" by (cases "revealLoop E net P js L s1")
    obtain r2 s' where b: "revealLoop E net P js L s2 = (r2, s')" by (cases "revealLoop E net P js L s2")
    have "r = r2" using revealLoop_fst_indep [OF n, of E net P js L] a b by simp
    then show "fst (case revealLoop E net P js L s1 of (Inl e, st') \<Rightarrow> (Inl e, st') | (Inr L, st') \<Rightarrow> (Inr (txChain L), st'))
     = fst (case revealLoop E net P js L s2 of (Inl e, st') \<Rightarrow> (Inl e, st') | (Inr L, st') \<Rightarrow> (Inr (txChain L), st'))"
      using a b by (cases r) auto
  qed
  have e: "estimateFeeAndOutput E st2 = estimateFeeAndOutput E st"
    by (intro ext) (rule estimate_network [OF nw])
  have r: "\<And>k t f c. network (recordTx k t f c st2) = network (recordTx k t f c st)"
    using nw by (simp add: recordTx_def)
  show ?thesis
    by (simp add: buildSingleUtxoChain_def Let_def e * [OF r]
        split: sum.splits prod.splits jsnum.splits)
qed

lemma loop_exit:
  "\<not> start < n \<Longrightarrow> buildChains_loop E net us rov rfr ca mcv cfr n start cur st = (Inr (), st)"
  by (subst buildChains_loop.simps) simp

lemma loop_no_utxo:
  "start < n \<Longrightarrow> length us \<le> cur \<Longrightarrow>
   buildChains_loop E net us rov rfr ca mcv cfr n start cur st
     = (Inl (UtxoCountInsufficient (length us) n), st)"
  by (subst buildChains_loop.simps) (simp add: Let_def)

lemma loop_step:
  assumes "start < n" "cur < length us" "n \<le> length (inscriptionTxCtxDataList st)"
    and "buildSingleUtxoChain E net
                 \<lparr>a_utxo = us ! cur,
                  a_inscriptions = slice (inscriptionTxCtxDataList st) start (start + min (n - start) 24),
                  a_revealOutValue = rov, a_revealFeeRate = rfr,
                  a_finalChangeAddress = ca, a_minChangeValue = mcv,
                  a_commitFeeRate = cfr,
                  a_inscriptionCtxStartIndex = start,
                  a_chainIndex = length (txChains st)\<rparr> st = (Inr chain, s1)"
    and "chain \<noteq> []"
  shows "buildChains_loop E net us rov rfr ca mcv cfr n start cur st
     = buildChains_loop E net us rov rfr ca mcv cfr n (start + min (n - start) 24) (Suc cur)
         (s1\<lparr>txChains := txChains s1 @ [chain]\<rparr>)"
proof -
  have l: "length (slice (inscriptionTxCtxDataList st) start (start + min (n - start) 24)) = min (n - start) 24"
    using assms(1,3) by (simp add: slice_def)
  have p: "(min (n - start) 24 = 0) = False" using assms(1) by simp
  show ?thesis
    apply (subst buildChains_loop.simps)
    apply (simp only: Let_def MAX_TRANSACTIONS_PER_CHAIN_def)
    using assms(1,2,4,5)
    apply (simp add: l p)
    done
qed

lemma chainCount_less: "k < chainCount n \<longleftrightarrow> 24 * k < n"
proof -
  have "k < chainCount n \<longleftrightarrow> Suc k \<le> (n + 23) div 24" by (simp add: chainCount_def Suc_le_eq)
  also have "\<dots> \<longleftrightarrow> Suc k * 24 \<le> n + 23" by (rule less_eq_div_iff_mult_less_eq) simp
  also have "\<dots> \<longleftrightarrow> 24 * k < n" by auto
  finally show ?thesis .
qed

lemma args_length:
  "length (a_inscriptions (argsOfChain us ctxs rov rfr ca mcv cfr k)) = inscriptionsInChain (length ctxs) k"
  by (simp add: argsOfChain_def slice_def inscriptionsInChain_def)

lemma estimate_not_CommitInsufficient:
  "estimateFeeAndOutput E st tx inputs r t f m c x \<noteq> Inl (CommitInsufficient k)"
  by (simp add: estimateFeeAndOutput_def Let_def split: sum.splits)

lemma revealStep_not_CommitInsufficient:
  "fst (revealStep E net P i L st) \<noteq> Inl (CommitInsufficient k)"
  by (auto simp: revealStep_def Let_def estimate_not_CommitInsufficient
      split: sum.splits prod.splits jsnum.splits)

lemma revealLoop_not_CommitInsufficient:
  "fst (revealLoop E net P js L st) \<noteq> Inl (CommitInsufficient k)"
proof (induction js arbitrary: L st)
  case Nil
  then show ?case by simp
next
  case (Cons j js)
  obtain r s where a: "revealStep E net P j L st = (r, s)" by (cases "revealStep E net P j L st")
  have "r \<noteq> Inl (CommitInsufficient k)"
    using revealStep_not_CommitInsufficient [of E net P j L st k] a by simp
  then show ?case using a Cons.IH by (cases r) auto
qed

lemma estimate_first_pass:
  assumes "simulateSign E (network st) tx inputs isCommitTx ictx = Inr txS"
    and "countAdjustedVsize E txS (map address inputs) (network st) = Inr vsize"
    and "isCommitTx \<or> length (outs tx) \<le> 1
         \<or> mc \<le> totalIn - fixedOut - feeFor vsize feeRate"
  shows "estimateFeeAndOutput E st tx inputs feeRate totalIn fixedOut mc isCommitTx ictx
     = Inr (feeFor vsize feeRate,
            Num (totalIn - fixedOut - feeFor vsize feeRate))"
  using assms by (auto simp: estimateFeeAndOutput_def Let_def)

lemma estimate_second_pass:
  assumes "simulateSign E (network st) tx inputs False ictx = Inr txS"
    and "countAdjustedVsize E txS (map address inputs) (network st) = Inr vsize"
    and "1 < length (outs tx)"
    and "totalIn - fixedOut - feeFor vsize feeRate < mc"
    and "simulateSign E (network st) (tx\<lparr>outs := take 1 (outs tx) @ drop 2 (outs tx)\<rparr>) inputs False ictx = Inr txS'"
    and "countAdjustedVsize E txS' (map address inputs) (network st) = Inr vsize'"
  shows "estimateFeeAndOutput E st tx inputs feeRate totalIn fixedOut mc False ictx
     = (if 0 \<le> totalIn - fixedOut - feeFor vsize' feeRate
        then Inr (feeFor vsize' feeRate, Num (- 1))
        else Inr (feeFor vsize feeRate, NegInfinity))"
  using assms by (auto simp: estimateFeeAndOutput_def Let_def splice1_def numeral_2_eq_2)

lemma build_commit_fails_iff:
  assumes "a_inscriptions P \<noteq> []" and "commitEstimate E st P = Inr (f, Num c)"
  shows "fst (buildSingleUtxoChain E net P st) = Inl (CommitInsufficient (a_chainIndex P)) \<longleftrightarrow> c < 0"
proof (cases "c < 0")
  case True
  then show ?thesis using assms by (simp add: build_unfold)
next
  case False
  let ?L = "\<lparr>txChain = [commitTemplate E P c], prevTx = commitTemplate E P c,
            prevOutputValue = c, prevOutputIndex = 0\<rparr>"
  let ?s = "recordTx (a_chainIndex P) 0 f None st"
  obtain r s where a: "revealLoop E net P [0..<length (a_inscriptions P)] ?L ?s = (r, s)"
    by (cases "revealLoop E net P [0..<length (a_inscriptions P)] ?L ?s")
  have "r \<noteq> Inl (CommitInsufficient (a_chainIndex P))"
    using revealLoop_not_CommitInsufficient [of E net P "[0..<length (a_inscriptions P)]" ?L ?s "a_chainIndex P"] a
    by simp
  then show ?thesis using False assms a by (cases r) (simp_all add: build_unfold)
qed

lemma message_failure_nonempty:
  "(if message e = [] then ''unknown error'' else message e) \<noteq> []"
  by simp

lemma packageChain_request:
  assumes "req_changeAddress r1 = req_changeAddress r2"
    and "orDefault (req_revealOutValue r1) DEFAULT_REVEAL_OUT_VALUE
         = orDefault (req_revealOutValue r2) DEFAULT_REVEAL_OUT_VALUE"
    and "orDefaultOpt (req_minChangeValue r1) DEFAULT_MIN_CHANGE_VALUE
         = orDefaultOpt (req_minChangeValue r2) DEFAULT_MIN_CHANGE_VALUE"
  shows "packageChain E r1 tool chain k acc = packageChain E r2 tool chain k acc"
  unfolding packageChain_def assms ..

lemma package_loop_request:
  assumes "req_changeAddress r1 = req_changeAddress r2"
    and "orDefault (req_revealOutValue r1) DEFAULT_REVEAL_OUT_VALUE
         = orDefault (req_revealOutValue r2) DEFAULT_REVEAL_OUT_VALUE"
    and "orDefaultOpt (req_minChangeValue r1) DEFAULT_MIN_CHANGE_VALUE
         = orDefaultOpt (req_minChangeValue r2) DEFAULT_MIN_CHANGE_VALUE"
  shows "package_loop E r1 tool ks acc = package_loop E r2 tool ks acc"
  by (induction ks arbitrary: acc)
    (simp_all add: packageChain_request [OF assms] split: sum.splits)

lemma newTool_request:
  assumes "req_commitTxPrevOutputList r1 = req_commitTxPrevOutputList r2"
    and "req_inscriptionDataList r1 = req_inscriptionDataList r2"
    and "req_commitFeeRate r1 = req_commitFeeRate r2"
    and "req_revealFeeRate r1 = req_revealFeeRate r2"
    and "req_changeAddress r1 = req_changeAddress r2"
    and "orDefault (req_revealOutValue r1) DEFAULT_REVEAL_OUT_VALUE
         = orDefault (req_revealOutValue r2) DEFAULT_REVEAL_OUT_VALUE"
    and "orDefaultOpt (req_minChangeValue r1) DEFAULT_MIN_CHANGE_VALUE
         = orDefaultOpt (req_minChangeValue r2) DEFAULT_MIN_CHANGE_VALUE"
  shows "newChainInscriptionTool E net r1 = newChainInscriptionTool E net r2"
  unfolding newChainInscriptionTool_def assms ..

lemma inscribeChain_request:
  assumes "req_commitTxPrevOutputList r1 = req_commitTxPrevOutputList r2"
    and "req_inscriptionDataList r1 = req_inscriptionDataList r2"
    and "req_commitFeeRate r1 = req_commitFeeRate r2"
    and "req_revealFeeRate r1 = req_revealFeeRate r2"
    and "req_changeAddress r1 = req_changeAddress r2"
    and "orDefault (req_revealOutValue r1) DEFAULT_REVEAL_OUT_VALUE
         = orDefault (req_revealOutValue r2) DEFAULT_REVEAL_OUT_VALUE"
    and "orDefaultOpt (req_minChangeValue r1) DEFAULT_MIN_CHANGE_VALUE
         = orDefaultOpt (req_minChangeValue r2) DEFAULT_MIN_CHANGE_VALUE"
  shows "inscribeChain E net r1 = inscribeChain E net r2"
  unfolding inscribeChain_def newTool_request [OF assms]
    package_loop_request [OF assms(5-7)] ..

lemma packageChain_details:
  assumes "packageChain E request tool chain k acc = Inr acc'"
    and "\<forall>d\<in>set (pk_lastTxDetails acc).
           lt_revealOutValue d = orDefault (req_revealOutValue request) DEFAULT_REVEAL_OUT_VALUE
         \<and> lt_minChangeValue d = orDefaultOpt (req_minChangeValue request) DEFAULT_MIN_CHANGE_VALUE"
  shows "\<forall>d\<in>set (pk_lastTxDetails acc').
           lt_revealOutValue d = orDefault (req_revealOutValue request) DEFAULT_REVEAL_OUT_VALUE
         \<and> lt_minChangeValue d = orDefaultOpt (req_minChangeValue request) DEFAULT_MIN_CHANGE_VALUE"
  using assms
  by (auto simp: packageChain_def Let_def split: if_splits list.splits)

lemma package_loop_details:
  assumes "package_loop E request tool ks acc = Inr acc'"
    and "\<forall>d\<in>set (pk_lastTxDetails acc).
           lt_revealOutValue d = orDefault (req_revealOutValue request) DEFAULT_REVEAL_OUT_VALUE
         \<and> lt_minChangeValue d = orDefaultOpt (req_minChangeValue request) DEFAULT_MIN_CHANGE_VALUE"
  shows "\<forall>d\<in>set (pk_lastTxDetails acc').
           lt_revealOutValue d = orDefault (req_revealOutValue request) DEFAULT_REVEAL_OUT_VALUE
         \<and> lt_minChangeValue d = orDefaultOpt (req_minChangeValue request) DEFAULT_MIN_CHANGE_VALUE"
  using assms
proof (induction ks arbitrary: acc)
  case Nil
  then show ?case by simp
next
  case (Cons k ks)
  from Cons.prems(1) obtain a where
    a: "packageChain E request tool (txChains tool ! k) k acc = Inr a"
    and b: "package_loop E request tool ks a = Inr acc'"
    by (auto split: sum.splits)
  show ?case
    by (rule Cons.IH [OF b packageChain_details [OF a Cons.prems(2)]])
qed

lemma inscribeChain_details:
  "d \<in> set (lastTxDetails (inscribeChain E net request)) \<Longrightarrow>
     lt_revealOutValue d = orDefault (req_revealOutValue request) DEFAULT_REVEAL_OUT_VALUE
   \<and> lt_minChangeValue d = orDefaultOpt (req_minChangeValue request) DEFAULT_MIN_CHANGE_VALUE"
proof -
  assume d: "d \<in> set (lastTxDetails (inscribeChain E net request))"
  show ?thesis
  proof (cases "newChainInscriptionTool E net request")
    case (Inl e)
    with d show ?thesis by (simp add: inscribeChain_def failureResult_def)
  next
    case (Inr tool)
    show ?thesis
    proof (cases "package_loop E request tool [0..<length (txChains tool)]
                \<lparr>txChainsHex = [], txChainTxIds = [], pk_lastTxDetails = []\<rparr>")
      case (Inl e)
      with d Inr show ?thesis by (simp add: inscribeChain_def failureResult_def)
    next
      case r: (Inr acc)
      have "\<forall>d\<in>set (pk_lastTxDetails acc).
           lt_revealOutValue d = orDefault (req_revealOutValue request) DEFAULT_REVEAL_OUT_VALUE
         \<and> lt_minChangeValue d = orDefaultOpt (req_minChangeValue request) DEFAULT_MIN_CHANGE_VALUE"
        by (rule package_loop_details [OF r]) simp
      moreover have "lastTxDetails (inscribeChain E net request) = pk_lastTxDetails acc"
        using Inr r by (simp add: inscribeChain_def)
      ultimately show ?thesis using d by simp
    qed
  qed
qed

lemma map_const_replicate: "(\<And>x. x \<in> set xs \<Longrightarrow> f x = c) \<Longrightarrow> map f xs = replicate (length xs) c"
  by (induction xs) simp_all

lemma revealStep_pre:
  assumes "i < length (a_inscriptions P)"
  shows "(if int i = int (length (a_inscriptions P)) - 1 then a_finalChangeAddress P
         else if i + 1 < length (a_inscriptions P) then commitTxAddress (a_inscriptions P ! (i + 1))
         else []) = changeAddressOf P i"
    and "(if Suc i = length (a_inscriptions P) then a_finalChangeAddress P
         else if i + 1 < length (a_inscriptions P) then commitTxAddress (a_inscriptions P ! (i + 1))
         else []) = changeAddressOf P i"
    and "(int i = int (length (a_inscriptions P)) - 1) = (Suc i = length (a_inscriptions P))"
    and "addOutput cs 0
               (addOutput (revealPkScript (a_inscriptions P ! i)) (a_revealOutValue P)
                 (addInput (getHash E (prevTx L)) (prevOutputIndex L) DEFAULT_SEQUENCE_NUM
                   (new_Transaction\<lparr>version := DEFAULT_TX_VERSION\<rparr>))) = revealTemplate E P L i cs"
    and "estimateFeeAndOutput E st tx [(a_utxo P)\<lparr>amount := pv,
                              address := commitTxAddress (a_inscriptions P ! 0),
                              privateKey := []\<rparr>] (a_revealFeeRate P)
                pv (a_revealOutValue P) mc False
                (Some (a_inscriptions P ! i)) = revealEstimate E st P i tx pv mc"
    and "butlast (outs (revealTemplate E P L i cs)) = [dustOutput P i]"
  using assms
  by (auto simp: changeAddressOf_def revealTemplate_def revealEstimate_def revealInputs_def
      dustOutput_def spendInput_def addOutput_def addInput_def new_Transaction_def)

lemma revealStep_nonfinal_drop:
  assumes "changeAddressOf P i \<noteq> []" and "i < length (a_inscriptions P)"
    and "toOutputScript E (changeAddressOf P i) net = Inr cs"
    and "revealEstimate E st P i (revealTemplate E P L i cs) (prevOutputValue L)
            (a_minChangeValue P) = Inr (f0, Num (- 1))"
    and "Suc i \<noteq> length (a_inscriptions P)"
  shows "revealStep E net P i L st = (Inl (NonFinalNeedsChange (a_chainIndex P) i), st)"
  unfolding revealStep_def Let_def revealStep_pre [OF assms(2)]
  using assms(1,3,4,5) by simp

lemma revealStep_final_drop:
  assumes "changeAddressOf P i \<noteq> []" and "i < length (a_inscriptions P)"
    and "toOutputScript E (changeAddressOf P i) net = Inr cs"
    and "revealEstimate E st P i (revealTemplate E P L i cs) (prevOutputValue L)
            (a_minChangeValue P) = Inr (f0, Num (- 1))"
    and "Suc i = length (a_inscriptions P)"
    and "revealEstimate E st P i ((revealTemplate E P L i cs)\<lparr>outs := [dustOutput P i]\<rparr>)
            (prevOutputValue L) 0 = Inr (f, x)"
  shows "revealStep E net P i L st =
     (Inr \<lparr>txChain = txChain L @ [(revealTemplate E P L i cs)\<lparr>outs := [dustOutput P i]\<rparr>],
           prevTx = (revealTemplate E P L i cs)\<lparr>outs := [dustOutput P i]\<rparr>,
           prevOutputValue = 0, prevOutputIndex = - 1\<rparr>,
      recordTx (a_chainIndex P) (length (txChain L)) f
        (Some (a_inscriptionCtxStartIndex P + i)) st)"
  unfolding revealStep_def Let_def revealStep_pre [OF assms(2)]
  using assms(1,3,4,5,6) by simp

lemma revealStep_insufficient:
  assumes "changeAddressOf P i \<noteq> []" and "i < length (a_inscriptions P)"
    and "toOutputScript E (changeAddressOf P i) net = Inr cs"
    and "revealEstimate E st P i (revealTemplate E P L i cs) (prevOutputValue L)
            (a_minChangeValue P) = Inr (f0, NegInfinity)"
  shows "revealStep E net P i L st = (Inl (RevealInsufficient (a_chainIndex P) i), st)"
  unfolding revealStep_def Let_def revealStep_pre [OF assms(2)]
  using assms(1,3,4) by simp

lemma revealLoop_error:
  "revealStep E net P i L st = (Inl e, s) \<Longrightarrow> revealLoop E net P (i # js) L st = (Inl e, s)"
  by simp

lemma loop_fail:
  assumes "start < n" "cur < length us" "n \<le> length (inscriptionTxCtxDataList st)"
    and "buildSingleUtxoChain E net
                 \<lparr>a_utxo = us ! cur,
                  a_inscriptions = slice (inscriptionTxCtxDataList st) start (start + min (n - start) 24),
                  a_revealOutValue = rov, a_revealFeeRate = rfr,
                  a_finalChangeAddress = ca, a_minChangeValue = mcv,
                  a_commitFeeRate = cfr,
                  a_inscriptionCtxStartIndex = start,
                  a_chainIndex = length (txChains st)\<rparr> st = (Inl e, s1)"
  shows "buildChains_loop E net us rov rfr ca mcv cfr n start cur st = (Inl e, s1)"
proof -
  have l: "length (slice (inscriptionTxCtxDataList st) start (start + min (n - start) 24)) = min (n - start) 24"
    using assms(1,3) by (simp add: slice_def)
  have p: "(min (n - start) 24 = 0) = False" using assms(1) by simp
  show ?thesis
    apply (subst buildChains_loop.simps)
    apply (simp only: Let_def MAX_TRANSACTIONS_PER_CHAIN_def)
    using assms(1,2,4)
    apply (simp add: l p)
    done
qed

lemma estimate_drop_bound:
  assumes "estimateFeeAndOutput E st (tx\<lparr>outs := [d, c]\<rparr>) inp r t f mc False ictx
             = Inr (f0, Num (- 1))"
    and "0 \<le> mc" and "outs tx = [d]"
    and "estimateFeeAndOutput E st tx inp r t f 0 False ictx = Inr (f1, x)"
  shows "f + f1 \<le> t \<and> x = Num (t - f - f1)"
proof -
  have e: "tx\<lparr>outs := [d]\<rparr> = tx" using assms(3) by simp
  show ?thesis
    using assms(1,2,4)
    by (auto simp: estimateFeeAndOutput_def Let_def splice1_def e assms(3)
        split: sum.splits if_splits)
qed

lemma build_last_fee:
  assumes b: "buildSingleUtxoChain E net P st = (Inr chain, st')"
    and ne: "a_inscriptions P \<noteq> []"
  shows "txFees st' \<noteq> [] \<and> tf_chainIndex (last (txFees st')) = a_chainIndex P
     \<and> tf_txIndex (last (txFees st')) = length (a_inscriptions P)
     \<and> feeOk E st net P (length (a_inscriptions P) - 1) (chain ! (length (a_inscriptions P) - 1))
          (chain ! length (a_inscriptions P)) (tf_fee (last (txFees st')))"
proof -
  let ?n = "length (a_inscriptions P)"
  from build_ok [OF b ne] obtain f0 where
    rec: "recorded E net P 0 ?n chain (recordTx (a_chainIndex P) 0 f0 None st) st'"
    by auto
  then obtain fs where fs: "length fs = ?n"
    "txFees st' = txFees (recordTx (a_chainIndex P) 0 f0 None st) @ fs"
    "\<forall>j<?n. tf_chainIndex (fs ! j) = a_chainIndex P \<and> tf_txIndex (fs ! j) = Suc j
        \<and> feeOk E st net P j (chain ! j) (chain ! Suc j) (tf_fee (fs ! j))"
    unfolding recorded_def feeOk_network [OF network_recordTx] by auto
  have pos: "0 < ?n" using ne by simp
  then have fne: "fs \<noteq> []" using fs(1) by auto
  have "last (txFees st') = last fs" unfolding fs(2) using fne by simp
  also have "\<dots> = fs ! (?n - 1)" using fne fs(1) by (simp add: last_conv_nth)
  finally have l: "last (txFees st') = fs ! (?n - 1)" .
  have "?n - 1 < ?n" using pos by simp
  with fs(3) have "tf_chainIndex (fs ! (?n - 1)) = a_chainIndex P \<and> tf_txIndex (fs ! (?n - 1)) = Suc (?n - 1)
        \<and> feeOk E st net P (?n - 1) (chain ! (?n - 1)) (chain ! Suc (?n - 1)) (tf_fee (fs ! (?n - 1)))"
    by simp
  then show ?thesis using l fs(2) fne pos by simp
qed

lemma build_reveal:
  assumes b: "buildSingleUtxoChain E net P st = (Inr chain, st')"
    and ne: "a_inscriptions P \<noteq> []" and i: "i < length (a_inscriptions P)"
  shows "length chain = Suc (length (a_inscriptions P))"
    and "\<exists>c. 0 \<le> c \<and> chain ! 0 = commitTemplate E P c"
    and "revealOk E net P i (chain ! i) (chain ! Suc i)"
  using build_ok [OF b ne] i by auto

lemma planner_loop:
  assumes K: "K = min (length us) (chainCount (length ctxs))"
    and ctx: "inscriptionTxCtxDataList st = ctxs"
    and k0: "length (txChains st) = k0" "k0 \<le> K"
    and ok: "\<forall>k. k0 \<le> k \<and> k < K \<longrightarrow>
               isOk (fst (buildSingleUtxoChain E net (argsOfChain us ctxs rov rfr ca mcv cfr k) st0))"
    and run: "buildChains_loop E net us rov rfr ca mcv cfr (length ctxs) (min (length ctxs) (24 * k0)) k0 st = (r, st')"
    and net0: "network st0 = network st"
  shows "inscriptionTxCtxDataList st' = ctxs
     \<and> network st' = network st \<and> utxoMap st' = utxoMap st
     \<and> length (txChains st') = K
     \<and> take k0 (txChains st') = txChains st
     \<and> (\<forall>k. k0 \<le> k \<and> k < K \<longrightarrow>
           fst (buildSingleUtxoChain E net (argsOfChain us ctxs rov rfr ca mcv cfr k) st0)
             = Inr (txChains st' ! k))
     \<and> r = (if chainCount (length ctxs) \<le> length us then Inr ()
            else Inl (UtxoCountInsufficient (length us) (length ctxs)))"
  using ctx k0 ok run net0
proof (induction "K - k0" arbitrary: k0 st)
  case 0
  have e: "k0 = K" using "0.hyps" "0.prems"(3) by simp
  have "(r = (if chainCount (length ctxs) \<le> length us then Inr ()
            else Inl (UtxoCountInsufficient (length us) (length ctxs)))) \<and> st' = st"
  proof (cases "chainCount (length ctxs) \<le> length us")
    case True
    then have "k0 = chainCount (length ctxs)" using e K by simp
    then have "\<not> 24 * k0 < length ctxs" using chainCount_less [of k0 "length ctxs"] by simp
    then have "min (length ctxs) (24 * k0) = length ctxs" by simp
    with "0.prems"(5) have "r = Inr ()" "st' = st"
      by (simp_all add: loop_exit)
    with True show ?thesis by simp
  next
    case False
    then have k: "k0 = length us" "k0 < chainCount (length ctxs)" using e K by simp_all
    then have "24 * k0 < length ctxs" using chainCount_less by simp
    then have m: "min (length ctxs) (24 * k0) = 24 * k0" "24 * k0 < length ctxs" by simp_all
    have "length us \<le> k0" using k by simp
    from "0.prems"(5) [unfolded m(1) loop_no_utxo [OF m(2) this]]
    have "r = Inl (UtxoCountInsufficient (length us) (length ctxs))" "st' = st"
      by simp_all
    with False show ?thesis by simp
  qed
  then have r: "r = (if chainCount (length ctxs) \<le> length us then Inr ()
            else Inl (UtxoCountInsufficient (length us) (length ctxs)))" and s: "st' = st" by simp_all
  have c1: "inscriptionTxCtxDataList st' = ctxs" using s "0.prems"(1) by simp
  have c4: "length (txChains st') = K" using s "0.prems"(2) e by simp
  have c5: "take k0 (txChains st') = txChains st" using s "0.prems"(2) by simp
  have c6: "\<forall>k. k0 \<le> k \<and> k < K \<longrightarrow>
           fst (buildSingleUtxoChain E net (argsOfChain us ctxs rov rfr ca mcv cfr k) st0)
             = Inr (txChains st' ! k)" using e by auto
  show ?case using c1 c4 c5 c6 r s by (intro conjI) simp_all
next
  case (Suc d)
  let ?n = "length ctxs"
  let ?P = "argsOfChain us ctxs rov rfr ca mcv cfr k0"
  have lt: "k0 < K" using Suc.hyps(2) by linarith
  then have lt1: "k0 < length us" and "k0 < chainCount ?n" using K by linarith+
  then have lt2: "24 * k0 < ?n" using chainCount_less by simp
  have m: "min ?n (24 * k0) = 24 * k0" using lt2 by simp
  have pos: "0 < inscriptionsInChain ?n k0" using lt2 by (simp add: inscriptionsInChain_def)
  have cnt: "min (?n - 24 * k0) 24 = inscriptionsInChain ?n k0"
    by (simp add: inscriptionsInChain_def min.commute)
  have args: "\<lparr>a_utxo = us ! k0,
      a_inscriptions = slice (inscriptionTxCtxDataList st) (24 * k0) (24 * k0 + min (?n - 24 * k0) 24),
      a_revealOutValue = rov, a_revealFeeRate = rfr, a_finalChangeAddress = ca,
      a_minChangeValue = mcv, a_commitFeeRate = cfr,
      a_inscriptionCtxStartIndex = 24 * k0, a_chainIndex = length (txChains st)\<rparr> = ?P"
    unfolding argsOfChain_def cnt Suc.prems(1) Suc.prems(2) ..
  obtain b s1 where bd: "buildSingleUtxoChain E net ?P st = (b, s1)"
    by (cases "buildSingleUtxoChain E net ?P st")
  have fb: "fst (buildSingleUtxoChain E net ?P st0) = b"
    using build_fst_indep [OF Suc.prems(6) [symmetric], of E net ?P] unfolding bd by simp
  have "isOk (fst (buildSingleUtxoChain E net ?P st0))" using Suc.prems(4) lt by simp
  then have "isOk b" unfolding fb .
  then obtain chain where b: "b = Inr chain" by (cases b) (simp_all add: isOk_def)
  have ne: "a_inscriptions ?P \<noteq> []" using pos args_length [of us ctxs rov rfr ca mcv cfr k0] by auto
  from build_ok [OF bd [unfolded b] ne] obtain f0 where
    len: "length chain = Suc (length (a_inscriptions ?P))"
    and rec: "recorded E net ?P 0 (length (a_inscriptions ?P)) chain (recordTx (a_chainIndex ?P) 0 f0 None st) s1"
    by auto
  let ?s2 = "s1\<lparr>txChains := txChains s1 @ [chain]\<rparr>"
  have s1: "inscriptionTxCtxDataList s1 = ctxs" "txChains s1 = txChains st"
    "network s1 = network st" "utxoMap s1 = utxoMap st"
    using rec Suc.prems(1) by (simp_all add: recorded_def recordTx_def)
  have next_start: "24 * k0 + min (?n - 24 * k0) 24 = min ?n (24 * Suc k0)"
    using lt2 by simp
  have cne: "chain \<noteq> []" using len by auto
  have le: "?n \<le> length (inscriptionTxCtxDataList st)" using Suc.prems(1) by simp
  note step = loop_step [OF lt2 lt1 le bd [unfolded b args [symmetric]] cne, unfolded next_start]
  have run': "buildChains_loop E net us rov rfr ca mcv cfr ?n (min ?n (24 * Suc k0)) (Suc k0) ?s2 = (r, st')"
    using Suc.prems(5) unfolding m step .
  have d: "d = K - Suc k0" using Suc.hyps(2) by linarith
  have c2: "inscriptionTxCtxDataList ?s2 = ctxs" using s1 by simp
  have l2: "length (txChains ?s2) = Suc k0" using s1 Suc.prems(2) by simp
  have l3: "Suc k0 \<le> K" using lt by simp
  have ok2: "\<forall>k. Suc k0 \<le> k \<and> k < K \<longrightarrow>
               isOk (fst (buildSingleUtxoChain E net (argsOfChain us ctxs rov rfr ca mcv cfr k) st0))"
    using Suc.prems(4) by simp
  have n2: "network st0 = network ?s2" using s1(3) Suc.prems(6) by simp
  note IH = Suc.hyps(1) [OF d c2 l2 l3 ok2 run' n2]
  note ih1 = IH [THEN conjunct1]
  note ih2 = IH [THEN conjunct2, THEN conjunct1]
  note ih3 = IH [THEN conjunct2, THEN conjunct2, THEN conjunct1]
  note ih4 = IH [THEN conjunct2, THEN conjunct2, THEN conjunct2, THEN conjunct1]
  note ih5 = IH [THEN conjunct2, THEN conjunct2, THEN conjunct2, THEN conjunct2, THEN conjunct1]
  note ih6 = IH [THEN conjunct2, THEN conjunct2, THEN conjunct2, THEN conjunct2, THEN conjunct2, THEN conjunct1]
  note ih7 = IH [THEN conjunct2, THEN conjunct2, THEN conjunct2, THEN conjunct2, THEN conjunct2, THEN conjunct2]
  have chains2: "txChains ?s2 = txChains st @ [chain]" using s1 by simp
  have tk: "take k0 (txChains st') = txChains st"
  proof -
    have "take k0 (txChains st') = take k0 (take (Suc k0) (txChains st'))" by (simp add: min_def)
    also have "\<dots> = take k0 (txChains st @ [chain])" unfolding ih5 chains2 ..
    also have "\<dots> = txChains st" using Suc.prems(2) by simp
    finally show ?thesis .
  qed
  have at: "txChains st' ! k0 = chain"
  proof -
    have "txChains st' ! k0 = take (Suc k0) (txChains st') ! k0" by simp
    also have "\<dots> = (txChains st @ [chain]) ! k0" unfolding ih5 chains2 ..
    also have "\<dots> = chain" using Suc.prems(2) by (simp add: nth_append)
    finally show ?thesis .
  qed
  have here: "fst (buildSingleUtxoChain E net ?P st0) = Inr (txChains st' ! k0)"
    unfolding fb b at ..
  have all: "\<forall>k. k0 \<le> k \<and> k < K \<longrightarrow>
           fst (buildSingleUtxoChain E net (argsOfChain us ctxs rov rfr ca mcv cfr k) st0)
             = Inr (txChains st' ! k)"
  proof (intro allI impI)
    fix k assume "k0 \<le> k \<and> k < K"
    then consider "k = k0" | "Suc k0 \<le> k \<and> k < K" by linarith
    then show "fst (buildSingleUtxoChain E net (argsOfChain us ctxs rov rfr ca mcv cfr k) st0)
             = Inr (txChains st' ! k)"
    proof cases
      case 1
      then show ?thesis using here by simp
    next
      case 2
      then show ?thesis by (rule ih6 [rule_format])
    qed
  qed
  have p1: "network st' = network st" unfolding ih2 using s1(3) by simp
  have p2: "utxoMap st' = utxoMap st" unfolding ih3 using s1(4) by simp
  show ?case
    by (intro conjI) (rule ih1 p1 p2 ih4 tk all ih7)+
qed

lemma chainCount_ceiling: "int (chainCount n) = \<lceil>rat_of_nat n / 24\<rceil>"
proof -
  have "\<lceil>rat_of_nat n / 24\<rceil> = \<lceil>of_int (int n) / (of_int 24 :: rat)\<rceil>" by simp
  also have "\<dots> = - ((- int n) div 24)" by (simp only: ceiling_divide_eq_div)
  also have "\<dots> = int ((n + 23) div 24)" by linarith
  finally show ?thesis by (simp add: chainCount_def)
qed

lemma slice_nth: "a + j < length xs \<Longrightarrow> j < b - a \<Longrightarrow> slice xs a b ! j = xs ! (a + j)"
  by (simp add: slice_def)

lemma planner_run:
  assumes ctx: "inscriptionTxCtxDataList st = ctxs" and e: "txChains st = []"
    and ne: "ctxs \<noteq> []" and une: "us \<noteq> []"
    and ok: "\<forall>k<min (length us) (chainCount (length ctxs)).
               isOk (fst (buildSingleUtxoChain E net (argsOfChain us ctxs rov rfr ca mcv cfr k) st0))"
    and run: "buildEnhancedInscriptionChains E net us rov rfr ca mcv cfr st = (r, st')"
    and net0: "network st0 = network st"
  shows "inscriptionTxCtxDataList st' = ctxs"
    and "length (txChains st') = min (length us) (chainCount (length ctxs))"
    and "\<forall>k<min (length us) (chainCount (length ctxs)).
           fst (buildSingleUtxoChain E net (argsOfChain us ctxs rov rfr ca mcv cfr k) st0)
             = Inr (txChains st' ! k)"
    and "r = (if chainCount (length ctxs) \<le> length us then Inr ()
            else Inl (UtxoCountInsufficient (length us) (length ctxs)))"
proof -
  have run': "buildChains_loop E net us rov rfr ca mcv cfr (length ctxs) (min (length ctxs) (24 * 0)) 0 st = (r, st')"
    using run ctx ne une by (simp add: buildEnhancedInscriptionChains_def Let_def)
  have l0: "length (txChains st) = 0" using e by simp
  have ok': "\<forall>k. 0 \<le> k \<and> k < min (length us) (chainCount (length ctxs)) \<longrightarrow>
               isOk (fst (buildSingleUtxoChain E net (argsOfChain us ctxs rov rfr ca mcv cfr k) st0))"
    using ok by simp
  note p = planner_loop [OF refl ctx l0 _ ok' run' net0]
  show "inscriptionTxCtxDataList st' = ctxs" using p by simp
  show "length (txChains st') = min (length us) (chainCount (length ctxs))" using p by simp
  show "\<forall>k<min (length us) (chainCount (length ctxs)).
           fst (buildSingleUtxoChain E net (argsOfChain us ctxs rov rfr ca mcv cfr k) st0)
             = Inr (txChains st' ! k)" using p by simp
  show "r = (if chainCount (length ctxs) \<le> length us then Inr ()
            else Inl (UtxoCountInsufficient (length us) (length ctxs)))" using p by simp
qed

lemma chainCount_1: "chainCount (Suc 0) = Suc 0"
  by (simp add: chainCount_def)

lemma signTx_input_outs:
  "signTx_input E net us tx i = Inr tx' \<Longrightarrow> outs tx' = outs tx \<and> length (ins tx') = length (ins tx)"
  by (auto simp: signTx_input_def Let_def split: if_splits sum.splits)

lemma signTx_loop_outs:
  "signTx_loop E net us tx js = Inr tx' \<Longrightarrow> outs tx' = outs tx"
proof (induction js arbitrary: tx)
  case Nil
  then show ?case by simp
next
  case (Cons j js)
  from Cons.prems obtain t where a: "signTx_input E net us tx j = Inr t"
    and b: "signTx_loop E net us t js = Inr tx'"
    by (auto split: sum.splits)
  show ?case using Cons.IH [OF b] signTx_input_outs [OF a] by simp
qed

lemma signTx_outs: "signTx E net tx us = Inr tx' \<Longrightarrow> outs tx' = outs tx"
  unfolding signTx_def by (rule signTx_loop_outs)

text \<open>What the signer looks up for the transaction \<open>txIndex\<close> of chain \<open>chainIndex\<close>.\<close>

lemma signChainTx_reveal:
  assumes "signChainTx E st k u tx t po = Inr (tx', po')" and "t \<noteq> 0"
  shows "\<exists>in0 rest m ci.
      ins tx = in0 # rest \<and> 0 \<le> in_index in0 \<and> in_index in0 < int (length po)
    \<and> find (\<lambda>m. cm_chainIndex m = k \<and> cm_txIndex m = t) (chainContextMapping st) = Some m
    \<and> contextIndex m = Some ci \<and> ci < length (inscriptionTxCtxDataList st)
    \<and> commitTxAddressPkScript (inscriptionTxCtxDataList st ! ci)
         = out_script (po ! nat (in_index in0))
    \<and> tx' = tx\<lparr>ins := in0\<lparr>in_witness :=
           schnorr_sign E
             (hashForWitnessV1 E tx 0 [out_script (po ! nat (in_index in0))]
                [out_value (po ! nat (in_index in0))] SIGHASH_DEFAULT
                (Some (ctx_hash (inscriptionTxCtxDataList st ! ci))))
             (ctx_privateKey (inscriptionTxCtxDataList st ! ci)) (randomBytes E 32)
           # ctx_witness (inscriptionTxCtxDataList st ! ci)\<rparr> # rest\<rparr>
    \<and> po' = outs tx"
  using assms
  by (auto simp: signChainTx_def Let_def split: if_splits list.splits option.splits)

lemma signChainTx_outs:
  "signChainTx E st k u tx t po = Inr (tx', po') \<Longrightarrow> outs tx' = outs tx \<and> po' = outs tx"
  by (auto simp: signChainTx_def Let_def signTx_outs
      split: if_splits list.splits option.splits sum.splits)

lemma signChainTx_cong:
  assumes "network st2 = network st" "chainContextMapping st2 = chainContextMapping st"
    "inscriptionTxCtxDataList st2 = inscriptionTxCtxDataList st"
  shows "signChainTx E st2 k u tx t po = signChainTx E st k u tx t po"
  unfolding signChainTx_def assms ..

lemma signChain_loop_cong:
  assumes "network st2 = network st" "chainContextMapping st2 = chainContextMapping st"
    "inscriptionTxCtxDataList st2 = inscriptionTxCtxDataList st"
  shows "signChain_loop E st2 k u chain po ts = signChain_loop E st k u chain po ts"
  by (induction ts arbitrary: chain po)
    (simp_all add: signChainTx_cong [OF assms] split: sum.splits prod.splits)

lemma signChain_loop_run:
  assumes "signChain_loop E st k u chain po [t0..<n] = (r, chain')"
    and "n = length chain" and "t0 \<le> n" and "po = prevOutsAt chain t0"
  shows "length chain' = n \<and> (\<forall>t<t0. chain' ! t = chain ! t)
    \<and> (r = Inr () \<longrightarrow>
         (\<forall>t. t0 \<le> t \<and> t < n \<longrightarrow>
            signChainTx E st k u (chain ! t) t (prevOutsAt chain t) = Inr (chain' ! t, outs (chain ! t))))
    \<and> (\<forall>e. r = Inl e \<longrightarrow>
         (\<exists>tf e'. e = SignFailed k tf e' \<and> t0 \<le> tf \<and> tf < n
            \<and> signChainTx E st k u (chain ! tf) tf (prevOutsAt chain tf) = Inl e'
            \<and> (\<forall>t. tf \<le> t \<and> t < n \<longrightarrow> chain' ! t = chain ! t)
            \<and> (\<forall>t. t0 \<le> t \<and> t < tf \<longrightarrow>
                 signChainTx E st k u (chain ! t) t (prevOutsAt chain t)
                   = Inr (chain' ! t, outs (chain ! t)))))"
  using assms
proof (induction "n - t0" arbitrary: t0 chain po)
  case 0
  then have "t0 = n" by simp
  with "0.prems" show ?case by auto
next
  case (Suc d)
  then have lt: "t0 < n" by simp
  then have up: "[t0..<n] = t0 # [Suc t0..<n]" by (simp add: upt_conv_Cons)
  let ?po = "prevOutsAt chain t0"
  show ?case
  proof (cases "signChainTx E st k u (chain ! t0) t0 ?po")
    case (Inl e')
    with Suc.prems(1) up Suc.prems(4) have r: "r = Inl (SignFailed k t0 e')" and c: "chain' = chain"
      by simp_all
    show ?thesis unfolding r c using Inl lt Suc.prems(2)
      by (auto intro!: exI [of _ t0])
  next
    case (Inr p)
    obtain tx' po' where p: "p = (tx', po')" by (cases p)
    from signChainTx_outs [OF Inr [unfolded p]] have o: "outs tx' = outs (chain ! t0)"
      and po': "po' = outs (chain ! t0)" by simp_all
    let ?c2 = "chain[t0 := tx']"
    have rec: "signChain_loop E st k u ?c2 po' [Suc t0..<n] = (r, chain')"
      using Suc.prems(1) up Suc.prems(4) Inr p by simp
    have n2: "n = length ?c2" using Suc.prems(2) by simp
    have po2: "po' = prevOutsAt ?c2 (Suc t0)"
      using po' o lt Suc.prems(2) by (simp add: prevOutsAt_def)
    have d: "d = n - Suc t0" using Suc.hyps(2) by simp
    have le: "Suc t0 \<le> n" using lt by simp
    note IH = Suc.hyps(1) [OF d rec n2 le po2]
    have same: "\<And>t. Suc t0 \<le> t \<Longrightarrow> t < n \<Longrightarrow> ?c2 ! t = chain ! t \<and> prevOutsAt ?c2 t = prevOutsAt chain t"
    proof -
      fix t assume t: "Suc t0 \<le> t" "t < n"
      have a: "?c2 ! t = chain ! t" using t by simp
      have "outs (?c2 ! (t - 1)) = outs (chain ! (t - 1))"
        using t o lt Suc.prems(2) by (cases "t - 1 = t0") simp_all
      then show "?c2 ! t = chain ! t \<and> prevOutsAt ?c2 t = prevOutsAt chain t"
        using a t by (simp add: prevOutsAt_def)
    qed
    have at0: "chain' ! t0 = tx'"
      using IH [THEN conjunct2, THEN conjunct1] lt Suc.prems(2) by simp
    have here: "signChainTx E st k u (chain ! t0) t0 (prevOutsAt chain t0) = Inr (chain' ! t0, outs (chain ! t0))"
      using Inr p po' at0 by simp
    have c1: "length chain' = n" using IH by simp
    have c2: "\<forall>t<t0. chain' ! t = chain ! t"
      using IH [THEN conjunct2, THEN conjunct1] by simp
    have c3: "r = Inr () \<longrightarrow>
         (\<forall>t. t0 \<le> t \<and> t < n \<longrightarrow>
            signChainTx E st k u (chain ! t) t (prevOutsAt chain t) = Inr (chain' ! t, outs (chain ! t)))"
    proof (intro impI allI)
      fix t assume r: "r = Inr ()" and t: "t0 \<le> t \<and> t < n"
      show "signChainTx E st k u (chain ! t) t (prevOutsAt chain t) = Inr (chain' ! t, outs (chain ! t))"
      proof (cases "t = t0")
        case True
        then show ?thesis using here by simp
      next
        case False
        then have t': "Suc t0 \<le> t" "t < n" using t by simp_all
        from IH [THEN conjunct2, THEN conjunct2, THEN conjunct1, rule_format, OF r conjI [OF t']]
        show ?thesis using same [OF t'] by simp
      qed
    qed
    have c4: "\<forall>e. r = Inl e \<longrightarrow>
         (\<exists>tf e'. e = SignFailed k tf e' \<and> t0 \<le> tf \<and> tf < n
            \<and> signChainTx E st k u (chain ! tf) tf (prevOutsAt chain tf) = Inl e'
            \<and> (\<forall>t. tf \<le> t \<and> t < n \<longrightarrow> chain' ! t = chain ! t)
            \<and> (\<forall>t. t0 \<le> t \<and> t < tf \<longrightarrow>
                 signChainTx E st k u (chain ! t) t (prevOutsAt chain t)
                   = Inr (chain' ! t, outs (chain ! t))))"
    proof (intro impI allI)
      fix e assume r: "r = Inl e"
      from IH [THEN conjunct2, THEN conjunct2, THEN conjunct2, rule_format, OF r]
      obtain tf e' where f: "e = SignFailed k tf e'" "Suc t0 \<le> tf" "tf < n"
        "signChainTx E st k u (?c2 ! tf) tf (prevOutsAt ?c2 tf) = Inl e'"
        "\<forall>t. tf \<le> t \<and> t < n \<longrightarrow> chain' ! t = ?c2 ! t"
        "\<forall>t. Suc t0 \<le> t \<and> t < tf \<longrightarrow>
                 signChainTx E st k u (?c2 ! t) t (prevOutsAt ?c2 t)
                   = Inr (chain' ! t, outs (?c2 ! t))"
        by auto
      have g1: "signChainTx E st k u (chain ! tf) tf (prevOutsAt chain tf) = Inl e'"
        using f(4) same [OF f(2,3)] by simp
      have g2: "\<forall>t. tf \<le> t \<and> t < n \<longrightarrow> chain' ! t = chain ! t"
      proof (intro allI impI)
        fix t assume t: "tf \<le> t \<and> t < n"
        then have "Suc t0 \<le> t" "t < n" using f(2) by simp_all
        from same [OF this] f(5) t show "chain' ! t = chain ! t" by simp
      qed
      have g3: "\<forall>t. t0 \<le> t \<and> t < tf \<longrightarrow>
                 signChainTx E st k u (chain ! t) t (prevOutsAt chain t)
                   = Inr (chain' ! t, outs (chain ! t))"
      proof (intro allI impI)
        fix t assume t: "t0 \<le> t \<and> t < tf"
        show "signChainTx E st k u (chain ! t) t (prevOutsAt chain t)
                   = Inr (chain' ! t, outs (chain ! t))"
        proof (cases "t = t0")
          case True
          then show ?thesis using here by simp
        next
          case False
          then have t': "Suc t0 \<le> t" "t < n" using t f(3) by simp_all
          have "signChainTx E st k u (?c2 ! t) t (prevOutsAt ?c2 t) = Inr (chain' ! t, outs (?c2 ! t))"
            using f(6) t t'(1) by simp
          then show ?thesis using same [OF t'] by simp
        qed
      qed
      have "t0 \<le> tf" using f(2) by simp
      then show "\<exists>tf e'. e = SignFailed k tf e' \<and> t0 \<le> tf \<and> tf < n
            \<and> signChainTx E st k u (chain ! tf) tf (prevOutsAt chain tf) = Inl e'
            \<and> (\<forall>t. tf \<le> t \<and> t < n \<longrightarrow> chain' ! t = chain ! t)
            \<and> (\<forall>t. t0 \<le> t \<and> t < tf \<longrightarrow>
                 signChainTx E st k u (chain ! t) t (prevOutsAt chain t)
                   = Inr (chain' ! t, outs (chain ! t)))"
        using f(1,3) g1 g2 g3 by (intro exI [of _ tf] exI [of _ e'] conjI)
    qed
    show ?thesis using c1 c2 c3 c4 by (intro conjI)
  qed
qed

lemma chainSigned_cong:
  assumes "network st2 = network st" "chainContextMapping st2 = chainContextMapping st"
    "inscriptionTxCtxDataList st2 = inscriptionTxCtxDataList st"
    "txChains st2 ! k = txChains st ! k"
  shows "chainSigned E us st2 k c = chainSigned E us st k c"
  unfolding chainSigned_def signChain_loop_cong [OF assms(1-3)] assms(4) ..

lemma signAll_loop_run:
  assumes "signAll_loop E us st [k0..<K] = (r, st')"
    and "K = length (txChains st)" and "k0 \<le> K"
  shows "network st' = network st \<and> chainContextMapping st' = chainContextMapping st
    \<and> inscriptionTxCtxDataList st' = inscriptionTxCtxDataList st
    \<and> length (txChains st') = K \<and> (\<forall>k<k0. txChains st' ! k = txChains st ! k)
    \<and> (r = Inr () \<longrightarrow> (\<forall>k. k0 \<le> k \<and> k < K \<longrightarrow> chainSigned E us st k (txChains st' ! k)))
    \<and> (\<forall>e. r = Inl e \<longrightarrow>
         (\<exists>kf. k0 \<le> kf \<and> kf < K \<and> kf < length us \<and> privateKey (us ! kf) \<noteq> []
            \<and> signChain_loop E st kf (us ! kf) (txChains st ! kf) []
                 [0..<length (txChains st ! kf)] = (Inl e, txChains st' ! kf)
            \<and> (\<forall>k. kf < k \<and> k < K \<longrightarrow> txChains st' ! k = txChains st ! k)
            \<and> (\<forall>k. k0 \<le> k \<and> k < kf \<longrightarrow> chainSigned E us st k (txChains st' ! k))))"
  using assms
proof (induction "K - k0" arbitrary: k0 st)
  case 0
  then have "k0 = K" by simp
  with "0.prems" show ?case by auto
next
  case (Suc d)
  then have lt: "k0 < K" by simp
  then have up: "[k0..<K] = k0 # [Suc k0..<K]" by (simp add: upt_conv_Cons)
  have d: "d = K - Suc k0" using Suc.hyps(2) by simp
  have le: "Suc k0 \<le> K" using lt by simp
  let ?skip = "length us \<le> k0 \<or> privateKey (us ! k0) = []"
  show ?case
  proof (cases ?skip)
    case True
    then have rec: "signAll_loop E us st [Suc k0..<K] = (r, st')"
      using Suc.prems(1) up by (cases "length us \<le> k0") (auto simp: Let_def)
    note IH = Suc.hyps(1) [OF d rec Suc.prems(2) le]
    have here: "chainSigned E us st k0 (txChains st' ! k0)"
      using True IH [THEN conjunct2, THEN conjunct2, THEN conjunct2, THEN conjunct2, THEN conjunct1]
      by (simp add: chainSigned_def)
    have c5: "\<forall>k<k0. txChains st' ! k = txChains st ! k"
      using IH [THEN conjunct2, THEN conjunct2, THEN conjunct2, THEN conjunct2, THEN conjunct1] by simp
    have c6: "r = Inr () \<longrightarrow> (\<forall>k. k0 \<le> k \<and> k < K \<longrightarrow> chainSigned E us st k (txChains st' ! k))"
    proof (intro impI allI)
      fix k assume r: "r = Inr ()" and k: "k0 \<le> k \<and> k < K"
      show "chainSigned E us st k (txChains st' ! k)"
      proof (cases "k = k0")
        case True
        then show ?thesis using here by simp
      next
        case False
        then have "Suc k0 \<le> k \<and> k < K" using k by simp
        then show ?thesis
          using IH [THEN conjunct2, THEN conjunct2, THEN conjunct2, THEN conjunct2, THEN conjunct2,
              THEN conjunct1, rule_format, OF r] by simp
      qed
    qed
    have c7: "\<forall>e. r = Inl e \<longrightarrow>
         (\<exists>kf. k0 \<le> kf \<and> kf < K \<and> kf < length us \<and> privateKey (us ! kf) \<noteq> []
            \<and> signChain_loop E st kf (us ! kf) (txChains st ! kf) []
                 [0..<length (txChains st ! kf)] = (Inl e, txChains st' ! kf)
            \<and> (\<forall>k. kf < k \<and> k < K \<longrightarrow> txChains st' ! k = txChains st ! k)
            \<and> (\<forall>k. k0 \<le> k \<and> k < kf \<longrightarrow> chainSigned E us st k (txChains st' ! k)))"
    proof (intro impI allI)
      fix e assume r: "r = Inl e"
      from IH [THEN conjunct2, THEN conjunct2, THEN conjunct2, THEN conjunct2, THEN conjunct2,
              THEN conjunct2, rule_format, OF r]
      obtain kf where f: "Suc k0 \<le> kf" "kf < K" "kf < length us" "privateKey (us ! kf) \<noteq> []"
        "signChain_loop E st kf (us ! kf) (txChains st ! kf) []
                 [0..<length (txChains st ! kf)] = (Inl e, txChains st' ! kf)"
        "\<forall>k. kf < k \<and> k < K \<longrightarrow> txChains st' ! k = txChains st ! k"
        "\<forall>k. Suc k0 \<le> k \<and> k < kf \<longrightarrow> chainSigned E us st k (txChains st' ! k)"
        by auto
      have g: "\<forall>k. k0 \<le> k \<and> k < kf \<longrightarrow> chainSigned E us st k (txChains st' ! k)"
      proof (intro allI impI)
        fix k assume k: "k0 \<le> k \<and> k < kf"
        show "chainSigned E us st k (txChains st' ! k)"
        proof (cases "k = k0")
          case True
          then show ?thesis using here by simp
        next
          case False
          then have "Suc k0 \<le> k \<and> k < kf" using k by simp
          then show ?thesis using f(7) by simp
        qed
      qed
      have "k0 \<le> kf" using f(1) by simp
      then show "\<exists>kf. k0 \<le> kf \<and> kf < K \<and> kf < length us \<and> privateKey (us ! kf) \<noteq> []
            \<and> signChain_loop E st kf (us ! kf) (txChains st ! kf) []
                 [0..<length (txChains st ! kf)] = (Inl e, txChains st' ! kf)
            \<and> (\<forall>k. kf < k \<and> k < K \<longrightarrow> txChains st' ! k = txChains st ! k)
            \<and> (\<forall>k. k0 \<le> k \<and> k < kf \<longrightarrow> chainSigned E us st k (txChains st' ! k))"
        using f(2-6) g by (intro exI [of _ kf] conjI)
    qed
    show ?thesis
      using IH [THEN conjunct1] IH [THEN conjunct2, THEN conjunct1]
        IH [THEN conjunct2, THEN conjunct2, THEN conjunct1]
        IH [THEN conjunct2, THEN conjunct2, THEN conjunct2, THEN conjunct1] c5 c6 c7
      by (intro conjI)
  next
    case False
    then have u: "k0 < length us" "privateKey (us ! k0) \<noteq> []" by simp_all
    let ?c = "txChains st ! k0"
    obtain rc chain' where sc: "signChain_loop E st k0 (us ! k0) ?c [] [0..<length ?c] = (rc, chain')"
      by (cases "signChain_loop E st k0 (us ! k0) ?c [] [0..<length ?c]")
    let ?s2 = "st\<lparr>txChains := (txChains st)[k0 := chain']\<rparr>"
    show ?thesis
    proof (cases rc)
      case (Inl e)
      have r: "r = Inl e" and s: "st' = ?s2"
        using Suc.prems(1) up u sc Inl by (simp_all add: Let_def)
      have at: "txChains st' ! k0 = chain'" using s lt Suc.prems(2) by simp
      have oth: "\<forall>k. k \<noteq> k0 \<longrightarrow> txChains st' ! k = txChains st ! k" using s by simp
      have "\<exists>kf. k0 \<le> kf \<and> kf < K \<and> kf < length us \<and> privateKey (us ! kf) \<noteq> []
            \<and> signChain_loop E st kf (us ! kf) (txChains st ! kf) []
                 [0..<length (txChains st ! kf)] = (Inl e, txChains st' ! kf)
            \<and> (\<forall>k. kf < k \<and> k < K \<longrightarrow> txChains st' ! k = txChains st ! k)
            \<and> (\<forall>k. k0 \<le> k \<and> k < kf \<longrightarrow> chainSigned E us st k (txChains st' ! k))"
        using lt u sc Inl at oth by (intro exI [of _ k0]) auto
      then show ?thesis using r s Suc.prems(2) oth by auto
    next
      case (Inr x)
      have rec: "signAll_loop E us ?s2 [Suc k0..<K] = (r, st')"
        using Suc.prems(1) up u sc Inr by (simp add: Let_def)
      have K2: "K = length (txChains ?s2)" using Suc.prems(2) by simp
      note IH = Suc.hyps(1) [OF d rec K2 le]
      have f2: "network ?s2 = network st" "chainContextMapping ?s2 = chainContextMapping st"
        "inscriptionTxCtxDataList ?s2 = inscriptionTxCtxDataList st" by simp_all
      have nth2: "\<And>k. k \<noteq> k0 \<Longrightarrow> txChains ?s2 ! k = txChains st ! k" by simp
      have at0: "txChains st' ! k0 = chain'"
        using IH [THEN conjunct2, THEN conjunct2, THEN conjunct2, THEN conjunct2, THEN conjunct1]
          lt Suc.prems(2) by simp
      have here: "chainSigned E us st k0 (txChains st' ! k0)"
        using u sc Inr at0 by (simp add: chainSigned_def)
      have c5: "\<forall>k<k0. txChains st' ! k = txChains st ! k"
      proof (intro allI impI)
        fix k assume "k < k0"
        then have "k < Suc k0" "k \<noteq> k0" by simp_all
        with IH [THEN conjunct2, THEN conjunct2, THEN conjunct2, THEN conjunct2, THEN conjunct1]
          nth2 [of k]
        show "txChains st' ! k = txChains st ! k" by simp
      qed
      have conv: "\<And>k c. Suc k0 \<le> k \<Longrightarrow> chainSigned E us ?s2 k c = chainSigned E us st k c"
        by (rule chainSigned_cong [OF f2]) simp
      have c6: "r = Inr () \<longrightarrow> (\<forall>k. k0 \<le> k \<and> k < K \<longrightarrow> chainSigned E us st k (txChains st' ! k))"
      proof (intro impI allI)
        fix k assume r: "r = Inr ()" and k: "k0 \<le> k \<and> k < K"
        show "chainSigned E us st k (txChains st' ! k)"
        proof (cases "k = k0")
          case True
          then show ?thesis using here by simp
        next
          case False
          then have k': "Suc k0 \<le> k \<and> k < K" using k by simp
          then have "chainSigned E us ?s2 k (txChains st' ! k)"
            using IH [THEN conjunct2, THEN conjunct2, THEN conjunct2, THEN conjunct2, THEN conjunct2,
              THEN conjunct1, rule_format, OF r] by simp
          then show ?thesis using conv k' by simp
        qed
      qed
      have c7: "\<forall>e. r = Inl e \<longrightarrow>
         (\<exists>kf. k0 \<le> kf \<and> kf < K \<and> kf < length us \<and> privateKey (us ! kf) \<noteq> []
            \<and> signChain_loop E st kf (us ! kf) (txChains st ! kf) []
                 [0..<length (txChains st ! kf)] = (Inl e, txChains st' ! kf)
            \<and> (\<forall>k. kf < k \<and> k < K \<longrightarrow> txChains st' ! k = txChains st ! k)
            \<and> (\<forall>k. k0 \<le> k \<and> k < kf \<longrightarrow> chainSigned E us st k (txChains st' ! k)))"
      proof (intro impI allI)
        fix e assume r: "r = Inl e"
        from IH [THEN conjunct2, THEN conjunct2, THEN conjunct2, THEN conjunct2, THEN conjunct2,
              THEN conjunct2, rule_format, OF r]
        obtain kf where f: "Suc k0 \<le> kf" "kf < K" "kf < length us" "privateKey (us ! kf) \<noteq> []"
          "signChain_loop E ?s2 kf (us ! kf) (txChains ?s2 ! kf) []
                 [0..<length (txChains ?s2 ! kf)] = (Inl e, txChains st' ! kf)"
          "\<forall>k. kf < k \<and> k < K \<longrightarrow> txChains st' ! k = txChains ?s2 ! k"
          "\<forall>k. Suc k0 \<le> k \<and> k < kf \<longrightarrow> chainSigned E us ?s2 k (txChains st' ! k)"
          by auto
        have kne: "kf \<noteq> k0" using f(1) by simp
        have g5: "signChain_loop E st kf (us ! kf) (txChains st ! kf) []
                 [0..<length (txChains st ! kf)] = (Inl e, txChains st' ! kf)"
          using f(5) unfolding signChain_loop_cong [OF f2] nth2 [OF kne] .
        have g6: "\<forall>k. kf < k \<and> k < K \<longrightarrow> txChains st' ! k = txChains st ! k"
        proof (intro allI impI)
          fix k assume k: "kf < k \<and> k < K"
          then have "k \<noteq> k0" using f(1) by simp
          then show "txChains st' ! k = txChains st ! k" using f(6) k nth2 [of k] by simp
        qed
        have g7: "\<forall>k. k0 \<le> k \<and> k < kf \<longrightarrow> chainSigned E us st k (txChains st' ! k)"
        proof (intro allI impI)
          fix k assume k: "k0 \<le> k \<and> k < kf"
          show "chainSigned E us st k (txChains st' ! k)"
          proof (cases "k = k0")
            case True
            then show ?thesis using here by simp
          next
            case False
            then have k': "Suc k0 \<le> k \<and> k < kf" using k by simp
            then have "chainSigned E us ?s2 k (txChains st' ! k)" using f(7) by simp
            then show ?thesis using conv k' by simp
          qed
        qed
        have "k0 \<le> kf" using f(1) by simp
        then show "\<exists>kf. k0 \<le> kf \<and> kf < K \<and> kf < length us \<and> privateKey (us ! kf) \<noteq> []
            \<and> signChain_loop E st kf (us ! kf) (txChains st ! kf) []
                 [0..<length (txChains st ! kf)] = (Inl e, txChains st' ! kf)
            \<and> (\<forall>k. kf < k \<and> k < K \<longrightarrow> txChains st' ! k = txChains st ! k)
            \<and> (\<forall>k. k0 \<le> k \<and> k < kf \<longrightarrow> chainSigned E us st k (txChains st' ! k))"
          using f(2-4) g5 g6 g7 by (intro exI [of _ kf] conjI)
      qed
      have p: "network st' = network st" "chainContextMapping st' = chainContextMapping st"
        "inscriptionTxCtxDataList st' = inscriptionTxCtxDataList st" "length (txChains st') = K"
        using IH [THEN conjunct1] IH [THEN conjunct2, THEN conjunct1]
          IH [THEN conjunct2, THEN conjunct2, THEN conjunct1]
          IH [THEN conjunct2, THEN conjunct2, THEN conjunct2, THEN conjunct1] by simp_all
      show ?thesis using p c5 c6 c7 by (intro conjI)
    qed
  qed
qed

lemma signAll_run:
  assumes "signAllTransactions E us st = (r, st')"
  shows "network st' = network st \<and> chainContextMapping st' = chainContextMapping st
    \<and> inscriptionTxCtxDataList st' = inscriptionTxCtxDataList st
    \<and> length (txChains st') = length (txChains st)
    \<and> (r = Inr () \<longrightarrow> (\<forall>k. k < length (txChains st) \<longrightarrow> chainSigned E us st k (txChains st' ! k)))
    \<and> (\<forall>e. r = Inl e \<longrightarrow>
         (\<exists>kf. kf < length (txChains st) \<and> kf < length us \<and> privateKey (us ! kf) \<noteq> []
            \<and> signChain_loop E st kf (us ! kf) (txChains st ! kf) []
                 [0..<length (txChains st ! kf)] = (Inl e, txChains st' ! kf)
            \<and> (\<forall>k. kf < k \<and> k < length (txChains st) \<longrightarrow> txChains st' ! k = txChains st ! k)
            \<and> (\<forall>k. k < kf \<longrightarrow> chainSigned E us st k (txChains st' ! k))))"
proof (cases "txChains st = []")
  case True
  with assms have "r = Inr ()" "st' = st" by (simp_all add: signAllTransactions_def)
  with True show ?thesis by simp
next
  case False
  with assms have run: "signAll_loop E us st [0..<length (txChains st)] = (r, st')"
    by (simp add: signAllTransactions_def)
  note R = signAll_loop_run [OF run refl le0]
  have a: "network st' = network st" using R by (rule conjunct1)
  have b: "chainContextMapping st' = chainContextMapping st"
    using R [THEN conjunct2] by (rule conjunct1)
  have c: "inscriptionTxCtxDataList st' = inscriptionTxCtxDataList st"
    using R [THEN conjunct2, THEN conjunct2] by (rule conjunct1)
  have d: "length (txChains st') = length (txChains st)"
    using R [THEN conjunct2, THEN conjunct2, THEN conjunct2] by (rule conjunct1)
  have e: "r = Inr () \<longrightarrow> (\<forall>k. k < length (txChains st) \<longrightarrow> chainSigned E us st k (txChains st' ! k))"
    using R [THEN conjunct2, THEN conjunct2, THEN conjunct2, THEN conjunct2, THEN conjunct2,
        THEN conjunct1] by simp
  have f: "\<forall>e. r = Inl e \<longrightarrow>
         (\<exists>kf. kf < length (txChains st) \<and> kf < length us \<and> privateKey (us ! kf) \<noteq> []
            \<and> signChain_loop E st kf (us ! kf) (txChains st ! kf) []
                 [0..<length (txChains st ! kf)] = (Inl e, txChains st' ! kf)
            \<and> (\<forall>k. kf < k \<and> k < length (txChains st) \<longrightarrow> txChains st' ! k = txChains st ! k)
            \<and> (\<forall>k. k < kf \<longrightarrow> chainSigned E us st k (txChains st' ! k)))"
    using R [THEN conjunct2, THEN conjunct2, THEN conjunct2, THEN conjunct2, THEN conjunct2,
        THEN conjunct2] by simp
  show ?thesis using a b c d e f by (intro conjI)
qed

lemma chain_run:
  assumes "signChain_loop E st k u chain [] [0..<length chain] = (r, chain')"
  shows "length chain' = length chain"
    and "r = Inr () \<Longrightarrow> t < length chain \<Longrightarrow>
           signChainTx E st k u (chain ! t) t (prevOutsAt chain t) = Inr (chain' ! t, outs (chain ! t))"
    and "r = Inl e \<Longrightarrow>
           \<exists>tf e'. e = SignFailed k tf e' \<and> tf < length chain
            \<and> signChainTx E st k u (chain ! tf) tf (prevOutsAt chain tf) = Inl e'
            \<and> (\<forall>t. tf \<le> t \<and> t < length chain \<longrightarrow> chain' ! t = chain ! t)
            \<and> (\<forall>t. t < tf \<longrightarrow>
                 signChainTx E st k u (chain ! t) t (prevOutsAt chain t)
                   = Inr (chain' ! t, outs (chain ! t)))"
proof -
  have po: "[] = prevOutsAt chain 0" by (simp add: prevOutsAt_def)
  note R = signChain_loop_run [OF assms refl le0 po]
  show "length chain' = length chain" using R by (rule conjunct1)
  show "r = Inr () \<Longrightarrow> t < length chain \<Longrightarrow>
           signChainTx E st k u (chain ! t) t (prevOutsAt chain t) = Inr (chain' ! t, outs (chain ! t))"
    using R [THEN conjunct2, THEN conjunct2, THEN conjunct1] by simp
  show "r = Inl e \<Longrightarrow>
           \<exists>tf e'. e = SignFailed k tf e' \<and> tf < length chain
            \<and> signChainTx E st k u (chain ! tf) tf (prevOutsAt chain tf) = Inl e'
            \<and> (\<forall>t. tf \<le> t \<and> t < length chain \<longrightarrow> chain' ! t = chain ! t)
            \<and> (\<forall>t. t < tf \<longrightarrow>
                 signChainTx E st k u (chain ! t) t (prevOutsAt chain t)
                   = Inr (chain' ! t, outs (chain ! t)))"
    using R [THEN conjunct2, THEN conjunct2, THEN conjunct2] by simp
qed

text \<open>A signing that returns has signed every transaction of every chain it did not skip.\<close>

lemma sign_ok:
  assumes run: "signAllTransactions E us st = (Inr (), st')"
    and k: "k < length (txChains st)" "k < length us" "privateKey (us ! k) \<noteq> []"
    and t: "t < length (txChains st ! k)"
  shows "signChainTx E st k (us ! k) (txChains st ! k ! t) t (prevOutsAt (txChains st ! k) t)
           = Inr (txChains st' ! k ! t, outs (txChains st ! k ! t))"
proof -
  have "chainSigned E us st k (txChains st' ! k)"
    using signAll_run [OF run, THEN conjunct2, THEN conjunct2, THEN conjunct2, THEN conjunct2,
        THEN conjunct1] k(1) by simp
  then have c: "signChain_loop E st k (us ! k) (txChains st ! k) []
             [0..<length (txChains st ! k)] = (Inr (), txChains st' ! k)"
    using k(2,3) by (simp add: chainSigned_def)
  show ?thesis by (rule chain_run(2) [OF c refl t])
qed

text \<open>
  A transaction whose signing step throws makes the whole signing throw, at that
  transaction or before it, and is left as it was.
\<close>

lemma sign_fails:
  assumes run: "signAllTransactions E us st = (r, st')"
    and k: "k < length (txChains st)" "k < length us" "privateKey (us ! k) \<noteq> []"
    and t: "t < length (txChains st ! k)"
    and bad: "signChainTx E st k (us ! k) (txChains st ! k ! t) t (prevOutsAt (txChains st ! k) t)
                = Inl e0"
  shows "(\<exists>kf tf e'. r = Inl (SignFailed kf tf e') \<and> (kf < k \<or> kf = k \<and> tf \<le> t)
            \<and> (kf = k \<and> tf = t \<longrightarrow> e' = e0))
       \<and> txChains st' ! k ! t = txChains st ! k ! t"
proof (cases r)
  case (Inr u)
  then have "r = Inr ()" by simp
  from sign_ok [OF run [unfolded this] k t] bad show ?thesis by simp
next
  case (Inl e)
  from signAll_run [OF run, THEN conjunct2, THEN conjunct2, THEN conjunct2, THEN conjunct2,
        THEN conjunct2, rule_format, OF Inl]
  obtain kf where f: "kf < length (txChains st)" "kf < length us" "privateKey (us ! kf) \<noteq> []"
    "signChain_loop E st kf (us ! kf) (txChains st ! kf) []
                 [0..<length (txChains st ! kf)] = (Inl e, txChains st' ! kf)"
    "\<forall>k. kf < k \<and> k < length (txChains st) \<longrightarrow> txChains st' ! k = txChains st ! k"
    "\<forall>k. k < kf \<longrightarrow> chainSigned E us st k (txChains st' ! k)"
    by auto
  from chain_run(3) [OF f(4) refl]
  obtain tf e' where g: "e = SignFailed kf tf e'" "tf < length (txChains st ! kf)"
    "signChainTx E st kf (us ! kf) (txChains st ! kf ! tf) tf (prevOutsAt (txChains st ! kf) tf) = Inl e'"
    "\<forall>t. tf \<le> t \<and> t < length (txChains st ! kf) \<longrightarrow> txChains st' ! kf ! t = txChains st ! kf ! t"
    "\<forall>t. t < tf \<longrightarrow>
        signChainTx E st kf (us ! kf) (txChains st ! kf ! t) t (prevOutsAt (txChains st ! kf) t)
           = Inr (txChains st' ! kf ! t, outs (txChains st ! kf ! t))"
    by auto
  have nlt: "\<not> k < kf"
  proof
    assume "k < kf"
    then have "chainSigned E us st k (txChains st' ! k)" using f(6) by simp
    then have c: "signChain_loop E st k (us ! k) (txChains st ! k) []
             [0..<length (txChains st ! k)] = (Inr (), txChains st' ! k)"
      using k(2,3) by (simp add: chainSigned_def)
    from chain_run(2) [OF c refl t] bad show False by simp
  qed
  show ?thesis
  proof (cases "kf < k")
    case True
    then have "txChains st' ! k = txChains st ! k" using f(5) k(1) by simp
    then show ?thesis using Inl g(1) True by auto
  next
    case False
    then have eq: "kf = k" using nlt by simp
    have le: "tf \<le> t"
    proof (rule ccontr)
      assume "\<not> tf \<le> t"
      then have "t < tf" by simp
      with g(5) bad eq show False by simp
    qed
    have same: "txChains st' ! k ! t = txChains st ! k ! t" using g(4) le t eq by simp
    have "tf = t \<longrightarrow> e' = e0" using g(3) bad eq by auto
    then show ?thesis using Inl g(1) eq le same by auto
  qed
qed

lemma mapM_nth:
  "mapM f xs = Inr ys \<Longrightarrow> length ys = length xs \<and> (\<forall>i<length xs. f (xs ! i) = Inr (ys ! i))"
proof (induction xs arbitrary: ys)
  case Nil
  then show ?case by simp
next
  case (Cons x xs)
  from Cons.prems obtain y zs where a: "f x = Inr y" and b: "mapM f xs = Inr zs"
    and c: "ys = y # zs" by (auto split: sum.splits)
  from Cons.IH [OF b] have l: "length zs = length xs"
    and n: "\<forall>i<length xs. f (xs ! i) = Inr (zs ! i)" by simp_all
  show ?case
  proof (intro conjI allI impI)
    show "length ys = length (x # xs)" using c l by simp
  next
    fix i assume "i < length (x # xs)"
    then show "f ((x # xs) ! i) = Inr (ys ! i)" using a n c by (cases i) simp_all
  qed
qed

lemma createInscriptionTxCtxData_ok:
  assumes "createInscriptionTxCtxData E net d wif = Inr ctx"
  shows "\<exists>priv pub pay rs.
       privateKeyFromWIF E wif net = Inr priv \<and> wif2Public E wif net = Inr pub
     \<and> p2tr E (drop 1 pub) (script_compile E (inscriptionBuilder (drop 1 pub) d))
          (script_compile E (inscriptionBuilder (drop 1 pub) d)) 0xc0 net = Inr pay
     \<and> toOutputScript E (revealAddr d) net = Inr rs
     \<and> ctx = \<lparr>ctx_privateKey = priv,
              inscriptionScript = script_compile E (inscriptionBuilder (drop 1 pub) d),
              commitTxAddress = p2tr_address pay,
              commitTxAddressPkScript = p2tr_output pay,
              ctx_witness = p2tr_witness pay,
              ctx_hash = p2tr_hash pay,
              revealTxPrevOutput = \<lparr>pkScript = [], txout_value = 0\<rparr>,
              revealPkScript = rs\<rparr>"
  using assms
  by (auto simp: createInscriptionTxCtxData_def Let_def split: sum.splits)

lemma signTx_single:
  assumes "signTx E net tx [u] = Inr tx'" and "ins tx \<noteq> []"
  shows "signTx_input E net [u] tx 0 = Inr tx' \<and> length (ins tx) = 1"
proof -
  obtain in0 rest where i: "ins tx = in0 # rest" using assms(2) by (cases "ins tx") auto
  have up: "[0..<length (ins tx)] = 0 # [1..<Suc (length rest)]"
    unfolding i by (simp add: upt_conv_Cons del: upt_Suc)
  from assms(1) obtain tx1 where a: "signTx_input E net [u] tx 0 = Inr tx1"
    and b: "signTx_loop E net [u] tx1 [1..<Suc (length rest)] = Inr tx'"
    unfolding signTx_def up by (auto split: sum.splits)
  have r: "rest = []"
  proof (rule ccontr)
    assume "rest \<noteq> []"
    then have "[1..<Suc (length rest)] = 1 # [Suc 1..<Suc (length rest)]"
      by (cases rest) (simp_all add: upt_conv_Cons del: upt_Suc)
    with b show False by (simp add: signTx_input_def)
  qed
  with a b i show ?thesis by simp
qed

text \<open>The key-path branch of \<open>signTx\<close>, for a funding output at a P2TR address.\<close>

lemma signTx_taproot:
  assumes "signTx E net tx [u] = Inr tx'" and "ins tx \<noteq> []"
    and "getAddressType E (address u) net = Inr ''segwit_taproot''"
  shows "\<exists>p s. privateKeyFromWIF E (privateKey u) net = Inr p
      \<and> toOutputScript E (address u) net = Inr s
      \<and> ins tx' = [(hd (ins tx))\<lparr>in_witness :=
           [schnorr_sign E (hashForWitnessV1 E tx 0 [s] [amount u] SIGHASH_DEFAULT None)
              (taprootTweakPrivKey E p) (randomBytes E 32)]\<rparr>]"
proof -
  from signTx_single [OF assms(1,2)] have a: "signTx_input E net [u] tx 0 = Inr tx'"
    and l: "length (ins tx) = 1" by simp_all
  from l obtain in0 where i: "ins tx = [in0]" by (cases "ins tx") auto
  show ?thesis using a assms(3) i
    by (auto simp: signTx_input_def Let_def split: sum.splits)
qed

lemma sample_fee: "feeFor 110 1 = 110" "feeFor 120 1 = 120"
  by code_simp+

lemma double_fee_examples:
  "feeFor 180 (11 / 10) = 199" "feeFor 120 (11 / 10) = 132" "feeFor 141 (5 / 2) = 353"
  by code_simp+

lemma sample_signTx:
  "signTx sample_ext Testnet (sample_commit c) [sample_utxo v] =
     Inr ((sample_commit c)\<lparr>ins := [\<lparr>in_hash = [2], in_index = 0, in_sequence = 4294967293,
        in_script = [], in_witness = [2 # replicate 63 1]\<rparr>]\<rparr>)"
  by (simp add: signTx_def signTx_input_def sample_ext_def sample_commit_def sample_utxo_def Let_def)

lemma sample_signTx_legacy:
  "signTx sample_ext Testnet (sample_commit c) [sample_legacy_utxo v] =
     Inr ((sample_commit c)\<lparr>ins := [\<lparr>in_hash = [2], in_index = 0, in_sequence = 4294967293,
        in_script = replicate 64 2 @ [1, 2, 1], in_witness = []\<rparr>]\<rparr>)"
  by (simp add: signTx_def signTx_input_def sample_ext_def sample_commit_def sample_utxo_def
      sample_legacy_utxo_def Let_def SIGHASH_ALL_def)

lemma sample_commitTemplate:
  "0 < n \<Longrightarrow> u = sample_utxo v \<or> u = sample_legacy_utxo v \<Longrightarrow>
   commitTemplate sample_ext (sample_chain_args k n u) c = sample_commit c"
  by (auto simp: commitTemplate_def sample_ext_def sample_chain_args_def sample_utxo_def
      sample_legacy_utxo_def sample_ctx_def sample_commit_def DEFAULT_TX_VERSION_def
      DEFAULT_SEQUENCE_NUM_def)

lemma sample_commitEstimate:
  assumes "network st = Testnet" and "0 < n" and "u = sample_utxo v \<or> u = sample_legacy_utxo v"
  shows "commitEstimate sample_ext st (sample_chain_args k n u) = Inr (110, Num (v - 110))"
proof -
  have a: "a_utxo (sample_chain_args k n u) = u" "a_commitFeeRate (sample_chain_args k n u) = 1"
    "a_minChangeValue (sample_chain_args k n u) = 546" by (simp_all add: sample_chain_args_def)
  have v: "amount u = v" using assms(3) by (auto simp: sample_utxo_def sample_legacy_utxo_def)
  have s: "\<exists>tx. signTx sample_ext Testnet (sample_commit 0) [u] = Inr tx \<and> length (outs tx) = 1"
  proof -
    have l: "length (outs (sample_commit 0)) = 1" by (simp add: sample_commit_def)
    from assms(3) show ?thesis
      by (elim disjE) (simp_all add: sample_signTx sample_signTx_legacy l)
  qed
  then obtain tx where tx: "signTx sample_ext Testnet (sample_commit 0) [u] = Inr tx"
    "length (outs tx) = 1" by blast
  have cv: "countAdjustedVsize sample_ext tx [address u] Testnet = Inr 110"
    using tx(2) by (simp add: sample_ext_def)
  show ?thesis
    unfolding commitEstimate_def sample_commitTemplate [OF assms(2,3)] a
    by (simp add: estimateFeeAndOutput_def simulateSign_def assms(1) tx(1) cv sample_fee v Let_def)
qed

lemma sample_revealStep:
  assumes nw: "network st = Testnet" and i: "i < n"
  shows "revealStep sample_ext Testnet (sample_chain_args k n u) i L st =
   (let pv = prevOutputValue L;
        tx = sample_reveal_of (getHash sample_ext (prevTx L)) (prevOutputIndex L);
        cs = (if Suc i = n then [6] else [4])
    in if 546 \<le> pv - 666 then
         (Inr \<lparr>txChain = txChain L @ [tx [\<lparr>out_script = cs, out_value = pv - 666\<rparr>]],
               prevTx = tx [\<lparr>out_script = cs, out_value = pv - 666\<rparr>],
               prevOutputValue = pv - 666, prevOutputIndex = 1\<rparr>,
          recordTx k (length (txChain L)) 120 (Some (24 * k + i)) st)
       else if 656 \<le> pv then
         (if Suc i = n then
            (Inr \<lparr>txChain = txChain L @ [tx []], prevTx = tx [],
                  prevOutputValue = 0, prevOutputIndex = - 1\<rparr>,
             recordTx k (length (txChain L)) 110 (Some (24 * k + i)) st)
          else (Inl (NonFinalNeedsChange k i), st))
       else (Inl (RevealInsufficient k i), st))"
proof (cases "Suc i = n")
  case True
  then have l: "(int i = int n - 1) = True" by auto
  show ?thesis
    using True i
    by (simp add: revealStep_def estimateFeeAndOutput_def simulateSign_def sample_ext_def nw
      sample_reveal_of_def sample_chain_args_def sample_ctx_def l
      sample_fee Let_def splice1_def addInput_def addOutput_def new_Transaction_def
      DEFAULT_TX_VERSION_def DEFAULT_SEQUENCE_NUM_def)
next
  case False
  then have l: "(int i = int n - 1) = False" by auto
  have lt: "Suc i < n" using False i by simp
  show ?thesis
    using False i lt
    by (simp add: revealStep_def estimateFeeAndOutput_def simulateSign_def sample_ext_def nw
      sample_reveal_of_def sample_chain_args_def sample_ctx_def l
      sample_fee Let_def splice1_def addInput_def addOutput_def new_Transaction_def
      DEFAULT_TX_VERSION_def DEFAULT_SEQUENCE_NUM_def)
qed

lemma sample_revealLoop_ok:
  assumes "network st = Testnet" and "i0 \<le> n"
    and "546 + 666 * int (n - i0) \<le> prevOutputValue L"
  shows "\<exists>L' st'. revealLoop sample_ext Testnet (sample_chain_args k n u) [i0..<n] L st = (Inr L', st')"
  using assms
proof (induction "n - i0" arbitrary: i0 L st)
  case 0
  then show ?case by simp
next
  case (Suc d)
  then have lt: "i0 < n" by simp
  then have up: "[i0..<n] = i0 # [Suc i0..<n]" by (simp add: upt_conv_Cons)
  have "int (n - i0) = 1 + int (n - Suc i0)" using lt by simp
  then have pv: "546 \<le> prevOutputValue L - 666"
    and pv': "546 + 666 * int (n - Suc i0) \<le> prevOutputValue L - 666"
    using Suc.prems(3) by simp_all
  let ?tx = "sample_reveal_of (getHash sample_ext (prevTx L)) (prevOutputIndex L)
      [\<lparr>out_script = (if Suc i0 = n then [6] else [4]), out_value = prevOutputValue L - 666\<rparr>]"
  let ?L1 = "\<lparr>txChain = txChain L @ [?tx], prevTx = ?tx,
               prevOutputValue = prevOutputValue L - 666, prevOutputIndex = 1\<rparr>"
  let ?s1 = "recordTx k (length (txChain L)) 120 (Some (24 * k + i0)) st"
  have step: "revealStep sample_ext Testnet (sample_chain_args k n u) i0 L st = (Inr ?L1, ?s1)"
    unfolding sample_revealStep [OF Suc.prems(1) lt] Let_def using pv by simp
  have n1: "network ?s1 = Testnet" using Suc.prems(1) by (simp add: network_recordTx)
  have d: "d = n - Suc i0" using Suc.hyps(2) by simp
  have le: "Suc i0 \<le> n" using lt by simp
  have p1: "546 + 666 * int (n - Suc i0) \<le> prevOutputValue ?L1" using pv' by simp
  from Suc.hyps(1) [OF d n1 le p1]
  obtain L' st' where "revealLoop sample_ext Testnet (sample_chain_args k n u) [Suc i0..<n] ?L1 ?s1
      = (Inr L', st')" by blast
  then show ?case unfolding up by (simp add: step)
qed

lemma sample_args_ne: "0 < n \<Longrightarrow> a_inscriptions (sample_chain_args k n u) \<noteq> []"
  by (simp add: sample_chain_args_def)

lemma sample_args_simps:
  "a_inscriptions (sample_chain_args k n u) = replicate n sample_ctx"
  "a_minChangeValue (sample_chain_args k n u) = 546"
  "a_revealOutValue (sample_chain_args k n u) = 546" "a_chainIndex (sample_chain_args k n u) = k"
  "a_finalChangeAddress (sample_chain_args k n u) = ''tb1ccc''"
  "a_revealFeeRate (sample_chain_args k n u) = 1" "a_commitFeeRate (sample_chain_args k n u) = 1"
  "a_utxo (sample_chain_args k n u) = u" "a_inscriptionCtxStartIndex (sample_chain_args k n u) = 24 * k"
  by (simp_all add: sample_chain_args_def)

text \<open>A funding output that covers the fees of a chain of \<open>n\<close> inscriptions.\<close>

lemma sample_build_ok:
  assumes nw: "network st = Testnet" and n: "0 < n"
    and u: "u = sample_utxo v \<or> u = sample_legacy_utxo v"
    and v: "656 + 666 * int n \<le> v"
  shows "isOk (fst (buildSingleUtxoChain sample_ext Testnet (sample_chain_args k n u) st))"
proof -
  let ?P = "sample_chain_args k n u"
  let ?L = "\<lparr>txChain = [sample_commit (v - 110)], prevTx = sample_commit (v - 110),
             prevOutputValue = v - 110, prevOutputIndex = 0\<rparr>"
  have n1: "network (recordTx k 0 110 None st) = Testnet" using nw by (simp add: network_recordTx)
  have p: "546 + 666 * int (n - 0) \<le> prevOutputValue ?L" using v by simp
  from sample_revealLoop_ok [OF n1 le0 p, of k u]
  obtain L' st' where l: "revealLoop sample_ext Testnet ?P [0..<n] ?L (recordTx k 0 110 None st)
      = (Inr L', st')" by blast
  have c: "\<not> v - 110 < 0" using v by simp
  show ?thesis
    unfolding build_unfold [OF sample_args_ne [OF n]] sample_commitEstimate [OF nw n u]
      sample_commitTemplate [OF n u]
    using c l by (simp add: sample_args_simps isOk_def)
qed

lemma sample_build_1:
  assumes nw: "network st = Testnet" and u: "u = sample_utxo v \<or> u = sample_legacy_utxo v"
  shows "buildSingleUtxoChain sample_ext Testnet (sample_chain_args k (Suc 0) u) st =
   (if v < 110 then (Inl (CommitInsufficient k), st)
    else if 546 \<le> v - 776 then
      (Inr [sample_commit (v - 110), sample_reveal_of [1] 0 [\<lparr>out_script = [6], out_value = v - 776\<rparr>]],
       recordTx k (Suc 0) 120 (Some (24 * k)) (recordTx k 0 110 None st))
    else if 766 \<le> v then
      (Inr [sample_commit (v - 110), sample_reveal_of [1] 0 []],
       recordTx k (Suc 0) 110 (Some (24 * k)) (recordTx k 0 110 None st))
    else (Inl (RevealInsufficient k 0), recordTx k 0 110 None st))"
proof -
  have n1: "network (recordTx k 0 110 None st) = Testnet" using nw by (simp add: network_recordTx)
  have h: "getHash sample_ext (sample_commit c) = [1]" for c
    by (simp add: sample_ext_def sample_commit_def)
  have one: "0 < Suc 0" by simp
  show ?thesis
    unfolding build_unfold [OF sample_args_ne [OF one]]
      sample_commitEstimate [OF nw one u] sample_commitTemplate [OF one u]
    by (simp add: sample_args_simps sample_revealStep [OF n1] h Let_def)
qed

lemma sample_build_2:
  assumes nw: "network st = Testnet" and u: "u = sample_utxo v \<or> u = sample_legacy_utxo v"
    and v: "110 \<le> v"
  shows "buildSingleUtxoChain sample_ext Testnet (sample_chain_args k 2 u) st =
   (if 1322 \<le> v then
      (if 1988 \<le> v then
         (Inr [sample_commit (v - 110),
               sample_reveal_of [1] 0 [\<lparr>out_script = [4], out_value = v - 776\<rparr>],
               sample_reveal_of [2] 1 [\<lparr>out_script = [6], out_value = v - 1442\<rparr>]],
          recordTx k 2 120 (Some (24 * k + 1)) (recordTx k (Suc 0) 120 (Some (24 * k))
            (recordTx k 0 110 None st)))
       else if 1432 \<le> v then
         (Inr [sample_commit (v - 110),
               sample_reveal_of [1] 0 [\<lparr>out_script = [4], out_value = v - 776\<rparr>],
               sample_reveal_of [2] 1 []],
          recordTx k 2 110 (Some (24 * k + 1)) (recordTx k (Suc 0) 120 (Some (24 * k))
            (recordTx k 0 110 None st)))
       else (Inl (RevealInsufficient k 1),
             recordTx k (Suc 0) 120 (Some (24 * k)) (recordTx k 0 110 None st)))
    else if 766 \<le> v then (Inl (NonFinalNeedsChange k 0), recordTx k 0 110 None st)
    else (Inl (RevealInsufficient k 0), recordTx k 0 110 None st))"
proof -
  have n1: "network (recordTx k 0 110 None st) = Testnet" using nw by (simp add: network_recordTx)
  have n2: "network (recordTx k (Suc 0) 120 (Some (24 * k)) (recordTx k 0 110 None st)) = Testnet"
    using nw by (simp add: network_recordTx)
  have h: "getHash sample_ext (sample_commit c) = [1]" for c
    by (simp add: sample_ext_def sample_commit_def)
  have h2: "getHash sample_ext (sample_reveal_of a b [c]) = [2]" for a b c
    by (simp add: sample_ext_def sample_reveal_of_def)
  have l: "[0..<length (replicate 2 sample_ctx)] = [0, 1]" by (simp add: upt_conv_Cons)
  have two: "0 < (2::nat)" by simp
  show ?thesis
    unfolding build_unfold [OF sample_args_ne [OF two]]
      sample_commitEstimate [OF nw two u] sample_commitTemplate [OF two u] sample_args_simps l
    using v
    by (simp add: sample_revealStep [OF n1] sample_revealStep [OF n2] h h2 Let_def numeral_2_eq_2)
qed

lemma sample_fee_11_10: "feeFor 110 (11 / 10) = 122" "feeFor 120 (11 / 10) = 132"
  "feeFor 110 2 = 220" "toDouble 2 = 2" "toDouble 220 = 220"
  by code_simp+

lemma sample_st_network: "network (sample_st ctxs) = Testnet"
  by (simp add: sample_st_def)

text \<open>What the answer \<open>-1\<close> of the estimator means when the minimum change is not negative.\<close>

lemma estimate_drop_detail:
  assumes "estimateFeeAndOutput E st tx inp r t f mc False ictx = Inr (f0, Num (- 1))"
    and "0 \<le> mc" and "1 < length (outs tx)"
  shows "\<exists>txS vsize txS' vsize'.
       simulateSign E (network st) tx inp False ictx = Inr txS
     \<and> countAdjustedVsize E txS (map address inp) (network st) = Inr vsize
     \<and> t - f - feeFor vsize r < mc
     \<and> simulateSign E (network st) (tx\<lparr>outs := splice1 1 (outs tx)\<rparr>) inp False ictx = Inr txS'
     \<and> countAdjustedVsize E txS' (map address inp) (network st) = Inr vsize'
     \<and> f0 = feeFor vsize' r \<and> f + f0 \<le> t"
  using assms
  by (auto simp: estimateFeeAndOutput_def Let_def split: sum.splits if_splits)

lemma estimate_single_output:
  assumes "estimateFeeAndOutput E st tx inp r t f mc False ictx = Inr (f1, x)"
    and "length (outs tx) \<le> 1"
  shows "\<exists>txS vsize. simulateSign E (network st) tx inp False ictx = Inr txS
     \<and> countAdjustedVsize E txS (map address inp) (network st) = Inr vsize
     \<and> f1 = feeFor vsize r \<and> x = Num (t - f - f1)"
  using assms
  by (auto simp: estimateFeeAndOutput_def Let_def split: sum.splits if_splits)

lemma sample_build_1476:
  "buildSingleUtxoChain sample_ext Testnet (sample_chain_args 0 2 (sample_utxo 1476))
       (sample_st ctxs) =
     (Inr [sample_commit 1366,
           sample_reveal_of [1] 0 [\<lparr>out_script = [4], out_value = 700\<rparr>],
           sample_reveal_of [2] 1 []],
      recordTx 0 2 110 (Some 1) (recordTx 0 (Suc 0) 120 (Some 0)
        (recordTx 0 0 110 None (sample_st ctxs))))"
  using sample_build_2 [OF sample_st_network [of ctxs],
      where u = "sample_utxo 1476" and v = 1476 and k = 0]
  by simp

lemma build_loop_error:
  assumes "a_inscriptions P \<noteq> []" and "commitEstimate E st P = Inr (f1, Num c)" and "0 \<le> c"
    and "revealLoop E net P [0..<length (a_inscriptions P)]
           \<lparr>txChain = [commitTemplate E P c], prevTx = commitTemplate E P c,
            prevOutputValue = c, prevOutputIndex = 0\<rparr>
           (recordTx (a_chainIndex P) 0 f1 None st) = (Inl e, s')"
  shows "buildSingleUtxoChain E net P st = (Inl e, s')"
  using assms by (simp add: build_unfold)

lemma sample_revealEstimate:
  assumes "network s = Testnet" and "ins tx \<noteq> []"
  shows "outs tx = [a, b] \<Longrightarrow>
     revealEstimate sample_ext s (sample_chain_args k n u) i tx pv mc =
       Inr (if mc \<le> pv - 666 then (120, Num (pv - 666))
            else if 656 \<le> pv then (110, Num (- 1)) else (120, NegInfinity))"
    and "outs tx = [a] \<Longrightarrow>
     revealEstimate sample_ext s (sample_chain_args k n u) i tx pv mc = Inr (110, Num (pv - 656))"
  using assms
  by (cases "ins tx";
      simp add: revealEstimate_def estimateFeeAndOutput_def simulateSign_def sample_ext_def
        sample_args_simps sample_fee Let_def splice1_def)+

lemma sample_revealTemplate:
  "ins (revealTemplate E P L j cs) \<noteq> []"
  "outs (revealTemplate E P L j cs) = [dustOutput P j, \<lparr>out_script = cs, out_value = 0\<rparr>]"
  by (simp_all add: revealTemplate_def)

lemma sample_argsOfChain:
  assumes "24 * k < n"
  shows "argsOfChain us (replicate n sample_ctx) 546 1 ''tb1ccc'' 546 1 k
     = sample_chain_args k (inscriptionsInChain n k) (us ! k)"
proof -
  have "slice (replicate n sample_ctx) (24 * k) (24 * k + inscriptionsInChain n k)
      = replicate (inscriptionsInChain n k) sample_ctx"
    using assms by (simp add: slice_def inscriptionsInChain_def min_def)
  then show ?thesis by (simp add: argsOfChain_def sample_chain_args_def)
qed

lemma chainCount_25: "chainCount 25 = 2"
  by (simp add: chainCount_def)

lemma sample_bodyChunks: "bodyChunks [1, 2, 3] 0 = [[1, 2, 3]]"
  by (simp add: bodyChunks.simps [of _ 0] bodyChunks.simps [of _ 520] maxChunkSize_def slice_def)

lemma sample_contexts:
  "mapM (\<lambda>d. createInscriptionTxCtxData sample_ext Testnet d ''K'') [sample_data] = Inr [sample_ctx]"
  by (simp add: createInscriptionTxCtxData_def sample_ext_def sample_data_def sample_ctx_def
      inscriptionBuilder_def sample_bodyChunks Let_def)

lemma sample_built_simps:
  "network (sample_built u v) = Testnet" "inscriptionTxCtxDataList (sample_built u v) = [sample_ctx]"
  "txChains (sample_built u v) = [[sample_commit (v - 110),
                     sample_reveal_of [1] 0 [\<lparr>out_script = [6], out_value = v - 776\<rparr>]]]"
  "chainContextMapping (sample_built u v) =
     [\<lparr>cm_chainIndex = 0, cm_txIndex = 0, contextIndex = None\<rparr>,
      \<lparr>cm_chainIndex = 0, cm_txIndex = Suc 0, contextIndex = Some 0\<rparr>]"
  by (simp_all add: sample_built_def recordTx_def sample_st_def new_ChainInscriptionTool_def)

lemma sample_planner:
  assumes u: "u = sample_utxo v \<or> u = sample_legacy_utxo v" and v: "1322 \<le> v"
  shows "buildEnhancedInscriptionChains sample_ext Testnet [u] 546 1 ''tb1ccc'' 546 1
           (new_ChainInscriptionTool\<lparr>network := Testnet, inscriptionTxCtxDataList := [sample_ctx],
              utxoMap := initUtxoMap [u]\<rparr>) = (Inr (), sample_built u v)"
proof -
  let ?t = "new_ChainInscriptionTool\<lparr>network := Testnet, inscriptionTxCtxDataList := [sample_ctx],
              utxoMap := initUtxoMap [u]\<rparr>"
  have nw: "network ?t = Testnet" by simp
  have ctx: "inscriptionTxCtxDataList ?t = [sample_ctx]" "txChains ?t = []"
    by (simp_all add: new_ChainInscriptionTool_def)
  let ?chain = "[sample_commit (v - 110),
                 sample_reveal_of [1] 0 [\<lparr>out_script = [6], out_value = v - 776\<rparr>]]"
  let ?s1 = "recordTx 0 (Suc 0) 120 (Some 0) (recordTx 0 0 110 None ?t)"
  have args: "\<lparr>a_utxo = [u] ! 0,
        a_inscriptions = slice (inscriptionTxCtxDataList ?t) 0 (0 + min (Suc 0 - 0) 24),
        a_revealOutValue = 546, a_revealFeeRate = 1, a_finalChangeAddress = ''tb1ccc'',
        a_minChangeValue = 546, a_commitFeeRate = 1, a_inscriptionCtxStartIndex = 0,
        a_chainIndex = length (txChains ?t)\<rparr> = sample_chain_args 0 (Suc 0) u"
    by (simp add: sample_chain_args_def ctx slice_def)
  have b: "buildSingleUtxoChain sample_ext Testnet (sample_chain_args 0 (Suc 0) u) ?t = (Inr ?chain, ?s1)"
    using sample_build_1 [OF nw u, of 0] v by simp
  have step: "buildChains_loop sample_ext Testnet [u] 546 1 ''tb1ccc'' 546 1 (Suc 0) 0 0 ?t
      = buildChains_loop sample_ext Testnet [u] 546 1 ''tb1ccc'' 546 1 (Suc 0)
          (0 + min (Suc 0 - 0) 24) (Suc 0)
          (?s1\<lparr>txChains := txChains ?s1 @ [?chain]\<rparr>)"
    by (rule loop_step [OF _ _ _ b [folded args]]) (simp_all add: ctx)
  have fin: "?s1\<lparr>txChains := txChains ?s1 @ [?chain]\<rparr> = sample_built u v"
    by (simp add: sample_built_def recordTx_def sample_st_def new_ChainInscriptionTool_def)
  show ?thesis
    unfolding buildEnhancedInscriptionChains_def Let_def ctx
    by (simp add: step fin loop_exit)
qed

lemma sample_signChainTx_1:
  "signChainTx sample_ext (sample_built u v) 0 u
      (sample_reveal_of [1] 0 [\<lparr>out_script = [6], out_value = v - 776\<rparr>]) (Suc 0)
      (outs (sample_commit (v - 110))) =
     Inr (sample_signed l v ! 1, outs (sample_reveal_of [1] 0 [\<lparr>out_script = [6], out_value = v - 776\<rparr>]))"
  by (simp add: signChainTx_def sample_built_simps sample_signed_def sample_reveal_of_def
      sample_commit_def sample_ctx_def sample_ext_def Let_def SIGHASH_DEFAULT_def)

lemma sample_sign:
  assumes "u = sample_utxo v \<and> \<not> l \<or> u = sample_legacy_utxo v \<and> l"
  shows "signAllTransactions sample_ext [u] (sample_built u v) =
     (Inr (), (sample_built u v)\<lparr>txChains := [sample_signed l v]\<rparr>)"
proof -
  have k: "privateKey u \<noteq> []" using assms by (auto simp: sample_utxo_def sample_legacy_utxo_def)
  have s0: "signChainTx sample_ext (sample_built u v) 0 u (sample_commit (v - 110)) 0 [] =
     Inr (sample_signed l v ! 0, outs (sample_commit (v - 110)))"
    using assms
    by (auto simp: signChainTx_def sample_built_simps sample_signTx sample_signTx_legacy
        sample_signed_def)
  have c: "signChain_loop sample_ext (sample_built u v) 0 u
      [sample_commit (v - 110), sample_reveal_of [1] 0 [\<lparr>out_script = [6], out_value = v - 776\<rparr>]]
      [] [0, Suc 0] = (Inr (), sample_signed l v)"
    by (simp add: s0 sample_signChainTx_1 [of u v l]) (simp add: sample_signed_def)
  have up: "[0..<length [sample_commit (v - 110),
       sample_reveal_of [1] 0 [\<lparr>out_script = [6], out_value = v - 776\<rparr>]]] = [0, Suc 0]"
    by (simp add: upt_conv_Cons)
  show ?thesis
    unfolding signAllTransactions_def
    by (simp add: sample_built_simps k up c Let_def del: signChain_loop.simps)
qed

lemma sample_newTool:
  assumes "u = sample_utxo v \<and> \<not> l \<or> u = sample_legacy_utxo v \<and> l" and "1322 \<le> v"
  shows "newChainInscriptionTool sample_ext Testnet (sample_request_of u)
     = Inr ((sample_built u v)\<lparr>txChains := [sample_signed l v]\<rparr>)"
proof -
  have u: "u = sample_utxo v \<or> u = sample_legacy_utxo v" using assms(1) by auto
  have k: "privateKey u = ''K''" using u by (auto simp: sample_utxo_def sample_legacy_utxo_def)
  let ?q = "sample_request_of u"
  have r: "req_commitTxPrevOutputList ?q = [u]" "req_inscriptionDataList ?q = [sample_data]"
    "req_revealFeeRate ?q = 1" "req_commitFeeRate ?q = 1" "req_changeAddress ?q = ''tb1ccc''"
    "orDefault (req_revealOutValue ?q) DEFAULT_REVEAL_OUT_VALUE = 546"
    "orDefaultOpt (req_minChangeValue ?q) DEFAULT_MIN_CHANGE_VALUE = 546"
    by (simp_all add: sample_request_of_def sample_request_def orDefault_def orDefaultOpt_def)
  have fm: "firstMissingKey [u] 0 = None" using k by simp
  have k0: "privateKey ([u] ! 0) = ''K''" using k by simp
  show ?thesis
    unfolding newChainInscriptionTool_def Let_def r fm k0 sample_contexts
    by (simp add: sample_planner [OF u assms(2)] sample_sign [OF assms(1)])
qed

text \<open>
  In the chain as \<open>buildSingleUtxoChain\<close> returns it, before any signature, the commit has a
  single output, and the reveal of inscription \<open>i\<close> (transaction \<open>i + 1\<close>) has exactly one
  input, which names the hash of the transaction before it and its output 0 (after the
  commit) or 1 (after a reveal). Its first output is the reveal dust to the recipient.
  Its change output, when it has one, is the second output, with the script of the next
  inscription's commit address, or of the final change address for the final reveal.
\<close>

lemma unsigned_chain_linkage:
  assumes "buildSingleUtxoChain E net P st = (Inr chain, st')"
    and "a_inscriptions P \<noteq> []" and "i < length (a_inscriptions P)"
  shows "length (outs (chain ! 0)) = 1
    \<and> ins (chain ! Suc i) =
         [\<lparr>in_hash = getHash E (chain ! i), in_index = (if i = 0 then 0 else 1),
           in_sequence = DEFAULT_SEQUENCE_NUM, in_script = [], in_witness = []\<rparr>]
    \<and> hd (outs (chain ! Suc i)) =
         \<lparr>out_script = revealPkScript (a_inscriptions P ! i), out_value = a_revealOutValue P\<rparr>
    \<and> (Suc i < length (a_inscriptions P) \<longrightarrow>
          length (outs (chain ! Suc i)) = 2
        \<and> toOutputScript E (commitTxAddress (a_inscriptions P ! Suc i)) net
            = Inr (out_script (outs (chain ! Suc i) ! 1)))
    \<and> (Suc i = length (a_inscriptions P) \<longrightarrow>
          length (outs (chain ! Suc i)) = 1
        \<or> length (outs (chain ! Suc i)) = 2
          \<and> toOutputScript E (a_finalChangeAddress P) net
              = Inr (out_script (outs (chain ! Suc i) ! 1)))"
proof -
  from build_reveal(2) [OF assms] have c0: "length (outs (chain ! 0)) = 1"
    by (auto simp: commitTemplate_def)
  note r = build_reveal(3) [OF assms]
  have i1: "ins (chain ! Suc i) =
         [\<lparr>in_hash = getHash E (chain ! i), in_index = (if i = 0 then 0 else 1),
           in_sequence = DEFAULT_SEQUENCE_NUM, in_script = [], in_witness = []\<rparr>]"
    using r by (simp add: revealOk_def spendInput_def)
  have o: "(case outs (chain ! Suc i) of
         [d] \<Rightarrow> d = dustOutput P i \<and> Suc i = length (a_inscriptions P)
       | [d, c] \<Rightarrow> d = dustOutput P i
            \<and> toOutputScript E (changeAddressOf P i) net = Inr (out_script c)
            \<and> a_minChangeValue P \<le> out_value c
       | _ \<Rightarrow> False)"
    using r by (simp add: revealOk_def)
  have h: "hd (outs (chain ! Suc i)) =
         \<lparr>out_script = revealPkScript (a_inscriptions P ! i), out_value = a_revealOutValue P\<rparr>"
    using o by (auto simp: dustOutput_def split: list.splits)
  have nf: "Suc i < length (a_inscriptions P) \<Longrightarrow>
          length (outs (chain ! Suc i)) = 2
        \<and> toOutputScript E (commitTxAddress (a_inscriptions P ! Suc i)) net
            = Inr (out_script (outs (chain ! Suc i) ! 1))"
    using o by (auto simp: changeAddressOf_def split: list.splits)
  have f: "Suc i = length (a_inscriptions P) \<Longrightarrow>
          length (outs (chain ! Suc i)) = 1
        \<or> length (outs (chain ! Suc i)) = 2
          \<and> toOutputScript E (a_finalChangeAddress P) net
              = Inr (out_script (outs (chain ! Suc i) ! 1))"
    using o by (auto simp: changeAddressOf_def split: list.splits)
  show ?thesis using c0 i1 h nf f by auto
qed


section \<open>The claims\<close>

text \<open>
  Claim C10. A request whose \<open>revealOutValue\<close> is 0 gives the result of the same
  request with 546, and so does a \<open>minChangeValue\<close> of 0; every packaged
  \<open>LastTxInfo\<close> of such a request reports 546.
\<close>

theorem C10_zero_is_default:
  "inscribeChain E net (request\<lparr>req_revealOutValue := 0\<rparr>)
     = inscribeChain E net (request\<lparr>req_revealOutValue := 546\<rparr>)
   \<and> inscribeChain E net (request\<lparr>req_minChangeValue := Some 0\<rparr>)
     = inscribeChain E net (request\<lparr>req_minChangeValue := Some 546\<rparr>)
   \<and> map lt_revealOutValue (lastTxDetails (inscribeChain E net (request\<lparr>req_revealOutValue := 0\<rparr>)))
     = replicate (length (lastTxDetails (inscribeChain E net (request\<lparr>req_revealOutValue := 0\<rparr>)))) 546
   \<and> map lt_minChangeValue (lastTxDetails (inscribeChain E net (request\<lparr>req_minChangeValue := Some 0\<rparr>)))
     = replicate (length (lastTxDetails (inscribeChain E net (request\<lparr>req_minChangeValue := Some 0\<rparr>)))) 546"
proof (intro conjI)
  show "inscribeChain E net (request\<lparr>req_revealOutValue := 0\<rparr>)
     = inscribeChain E net (request\<lparr>req_revealOutValue := 546\<rparr>)"
    by (rule inscribeChain_request) (simp_all add: orDefault_def DEFAULT_REVEAL_OUT_VALUE_def)
  show "inscribeChain E net (request\<lparr>req_minChangeValue := Some 0\<rparr>)
     = inscribeChain E net (request\<lparr>req_minChangeValue := Some 546\<rparr>)"
    by (rule inscribeChain_request)
      (simp_all add: orDefault_def orDefaultOpt_def DEFAULT_MIN_CHANGE_VALUE_def)
  show "map lt_revealOutValue (lastTxDetails (inscribeChain E net (request\<lparr>req_revealOutValue := 0\<rparr>)))
     = replicate (length (lastTxDetails (inscribeChain E net (request\<lparr>req_revealOutValue := 0\<rparr>)))) 546"
    by (rule map_const_replicate)
      (use inscribeChain_details [of _ E net "request\<lparr>req_revealOutValue := 0\<rparr>"] in
        \<open>simp add: orDefault_def DEFAULT_REVEAL_OUT_VALUE_def\<close>)
  show "map lt_minChangeValue (lastTxDetails (inscribeChain E net (request\<lparr>req_minChangeValue := Some 0\<rparr>)))
     = replicate (length (lastTxDetails (inscribeChain E net (request\<lparr>req_minChangeValue := Some 0\<rparr>)))) 546"
    by (rule map_const_replicate)
      (use inscribeChain_details [of _ E net "request\<lparr>req_minChangeValue := Some 0\<rparr>"] in
        \<open>simp add: orDefault_def orDefaultOpt_def DEFAULT_MIN_CHANGE_VALUE_def\<close>)
qed

text \<open>
  Claim C7. When \<open>newChainInscriptionTool\<close> (validation, context creation, build,
  signing) or the packaging throws \<open>e\<close>, \<open>inscribeChain\<close> returns \<open>success = false\<close>,
  empty \<open>txChains\<close>, \<open>txChainTxIds\<close> and \<open>lastTxDetails\<close>, a total fee of 0 and a
  non-empty error message. An empty funding list, an empty inscription list and a missing
  private key throw in the validation; an exception of the build or of the signing is the
  exception of \<open>newChainInscriptionTool\<close>.
\<close>

theorem C7_failure_envelope:
  "(newChainInscriptionTool E net request = Inl e
      \<or> (\<exists>tool. newChainInscriptionTool E net request = Inr tool
            \<and> package_loop E request tool [0..<length (txChains tool)]
                 \<lparr>txChainsHex = [], txChainTxIds = [], pk_lastTxDetails = []\<rparr> = Inl e)
     \<longrightarrow> inscribeChain E net request =
           \<lparr>success = False, r_txChains = [], r_txChainTxIds = [], lastTxDetails = [],
            r_totalEstimatedFee = 0,
            r_error = Some (if message e = [] then ''unknown error'' else message e)\<rparr>
         \<and> (if message e = [] then ''unknown error'' else message e) \<noteq> [])
   \<and> (req_commitTxPrevOutputList request = []
        \<longrightarrow> newChainInscriptionTool E net request = Inl EmptyPrevOutputList)
   \<and> (req_commitTxPrevOutputList request \<noteq> [] \<and> req_inscriptionDataList request = []
        \<longrightarrow> newChainInscriptionTool E net request = Inl EmptyInscriptionDataList)
   \<and> (req_commitTxPrevOutputList request \<noteq> [] \<and> req_inscriptionDataList request \<noteq> []
        \<and> firstMissingKey (req_commitTxPrevOutputList request) 0 = Some i
        \<longrightarrow> newChainInscriptionTool E net request = Inl (MissingPrivateKey i))
   \<and> (req_commitTxPrevOutputList request \<noteq> [] \<and> req_inscriptionDataList request \<noteq> []
        \<and> firstMissingKey (req_commitTxPrevOutputList request) 0 = None
        \<and> mapM (\<lambda>d. createInscriptionTxCtxData E net d
                      (privateKey (req_commitTxPrevOutputList request ! 0)))
             (req_inscriptionDataList request) = Inr ctxs
        \<and> buildEnhancedInscriptionChains E net (req_commitTxPrevOutputList request)
             (orDefault (req_revealOutValue request) DEFAULT_REVEAL_OUT_VALUE)
             (req_revealFeeRate request) (req_changeAddress request)
             (orDefaultOpt (req_minChangeValue request) DEFAULT_MIN_CHANGE_VALUE)
             (req_commitFeeRate request)
             (new_ChainInscriptionTool\<lparr>network := net, inscriptionTxCtxDataList := ctxs,
                utxoMap := initUtxoMap (req_commitTxPrevOutputList request)\<rparr>) = (built, tool2)
        \<longrightarrow> (built = Inl e \<longrightarrow> newChainInscriptionTool E net request = Inl e)
          \<and> (built = Inr () \<and> fst (signAllTransactions E (req_commitTxPrevOutputList request) tool2) = Inl e
               \<longrightarrow> newChainInscriptionTool E net request = Inl e))"
proof (intro conjI impI)
  assume "newChainInscriptionTool E net request = Inl e
      \<or> (\<exists>tool. newChainInscriptionTool E net request = Inr tool
            \<and> package_loop E request tool [0..<length (txChains tool)]
                 \<lparr>txChainsHex = [], txChainTxIds = [], pk_lastTxDetails = []\<rparr> = Inl e)"
  then show "inscribeChain E net request =
           \<lparr>success = False, r_txChains = [], r_txChainTxIds = [], lastTxDetails = [],
            r_totalEstimatedFee = 0,
            r_error = Some (if message e = [] then ''unknown error'' else message e)\<rparr>"
    by (auto simp: inscribeChain_def failureResult_def)
next
  show "(if message e = [] then ''unknown error'' else message e) \<noteq> []" by simp
next
  assume "req_commitTxPrevOutputList request = []"
  then show "newChainInscriptionTool E net request = Inl EmptyPrevOutputList"
    by (simp add: newChainInscriptionTool_def)
next
  assume "req_commitTxPrevOutputList request \<noteq> [] \<and> req_inscriptionDataList request = []"
  then show "newChainInscriptionTool E net request = Inl EmptyInscriptionDataList"
    by (simp add: newChainInscriptionTool_def)
next
  assume "req_commitTxPrevOutputList request \<noteq> [] \<and> req_inscriptionDataList request \<noteq> []
        \<and> firstMissingKey (req_commitTxPrevOutputList request) 0 = Some i"
  then show "newChainInscriptionTool E net request = Inl (MissingPrivateKey i)"
    by (simp add: newChainInscriptionTool_def)
next
  assume a: "req_commitTxPrevOutputList request \<noteq> [] \<and> req_inscriptionDataList request \<noteq> []
        \<and> firstMissingKey (req_commitTxPrevOutputList request) 0 = None
        \<and> mapM (\<lambda>d. createInscriptionTxCtxData E net d
                      (privateKey (req_commitTxPrevOutputList request ! 0)))
             (req_inscriptionDataList request) = Inr ctxs
        \<and> buildEnhancedInscriptionChains E net (req_commitTxPrevOutputList request)
             (orDefault (req_revealOutValue request) DEFAULT_REVEAL_OUT_VALUE)
             (req_revealFeeRate request) (req_changeAddress request)
             (orDefaultOpt (req_minChangeValue request) DEFAULT_MIN_CHANGE_VALUE)
             (req_commitFeeRate request)
             (new_ChainInscriptionTool\<lparr>network := net, inscriptionTxCtxDataList := ctxs,
                utxoMap := initUtxoMap (req_commitTxPrevOutputList request)\<rparr>) = (built, tool2)"
  {
    assume "built = Inl e"
    with a show "newChainInscriptionTool E net request = Inl e"
      by (simp add: newChainInscriptionTool_def Let_def)
  next
    assume "built = Inr () \<and> fst (signAllTransactions E (req_commitTxPrevOutputList request) tool2) = Inl e"
    with a show "newChainInscriptionTool E net request = Inl e"
      by (cases "signAllTransactions E (req_commitTxPrevOutputList request) tool2")
        (simp add: newChainInscriptionTool_def Let_def)
  }
qed

text \<open>
  Claim C7 on a request without funding outputs.
\<close>

theorem C7_failure_envelope_witness:
  "inscribeChain sample_ext Testnet ((sample_request 1000)\<lparr>req_commitTxPrevOutputList := []\<rparr>)
     = \<lparr>success = False, r_txChains = [], r_txChainTxIds = [], lastTxDetails = [],
        r_totalEstimatedFee = 0,
        r_error = Some ''input error: commitTxPrevOutputList must not be empty''\<rparr>"
proof -
  let ?q = "(sample_request 1000)\<lparr>req_commitTxPrevOutputList := []\<rparr>"
  note t = C7_failure_envelope [of sample_ext Testnet ?q EmptyPrevOutputList]
  have h: "req_commitTxPrevOutputList ?q = []" by simp
  have n: "newChainInscriptionTool sample_ext Testnet ?q = Inl EmptyPrevOutputList"
    using t [THEN conjunct2, THEN conjunct1] h by simp
  show ?thesis using t [THEN conjunct1] n by simp
qed

text \<open>
  Claim C2. Let \<open>vsize\<close> be the adjusted virtual size of the candidate with its
  plausible witness, \<open>fee = Math.max(Math.ceil(vsize * feeRate), vsize)\<close>, which is
  \<open>feeFor vsize feeRate\<close>, and \<open>change = total_input - fixed_output - fee\<close>. The product is
  a product of doubles: the fee is at least \<open>vsize\<close>, and it is the exact
  \<open>max (ceil (vsize * feeRate)) vsize\<close> whenever the rate and the product are doubles, as
  they are for an integer rate. A commit (no change slot) returns \<open>(fee, change)\<close> from
  the first pass, and \<open>buildSingleUtxoChain\<close> fails with the commit error exactly when
  that change is negative. A reveal with a change output and \<open>change \<ge> min_change\<close>
  returns \<open>(fee, change)\<close>; with \<open>change < min_change\<close> the fee \<open>fee'\<close> is computed again,
  in the same way, on the candidate without its output 1, and the result is \<open>(fee', -1)\<close>
  when \<open>total_input - fixed_output - fee' \<ge> 0\<close> and \<open>(fee, -Infinity)\<close> otherwise. A
  reveal that has no output 1 returns the first pass. Sizes and signatures are computed
  for the network of the tool.
\<close>

theorem C2_estimateFeeAndOutput:
  assumes "simulateSign E (network st) tx inputs isCommitTx ictx = Inr txS"
    and "countAdjustedVsize E txS (map address inputs) (network st) = Inr vsize"
    and "fee = feeFor vsize feeRate"
    and "change = totalIn - fixedOut - fee"
    and "r = estimateFeeAndOutput E st tx inputs feeRate totalIn fixedOut mc isCommitTx ictx"
  shows "fee = max \<lceil>toDouble (of_int vsize * toDouble feeRate)\<rceil> vsize
    \<and> vsize \<le> fee
    \<and> (toDouble feeRate = feeRate \<and> toDouble (of_int vsize * feeRate) = of_int vsize * feeRate
         \<longrightarrow> fee = max \<lceil>of_int vsize * feeRate\<rceil> vsize)
    \<and> (isCommitTx \<longrightarrow> r = Inr (fee, Num change))
    \<and> (\<not> isCommitTx \<and> 1 < length (outs tx) \<and> mc \<le> change \<longrightarrow> r = Inr (fee, Num change))
    \<and> (\<not> isCommitTx \<and> 1 < length (outs tx) \<and> change < mc \<longrightarrow>
         (\<forall>txS' vsize'.
            simulateSign E (network st) (tx\<lparr>outs := take 1 (outs tx) @ drop 2 (outs tx)\<rparr>) inputs
               isCommitTx ictx = Inr txS'
            \<and> countAdjustedVsize E txS' (map address inputs) (network st) = Inr vsize' \<longrightarrow>
            r = (if 0 \<le> totalIn - fixedOut - feeFor vsize' feeRate
                 then Inr (feeFor vsize' feeRate, Num (- 1))
                 else Inr (fee, NegInfinity))))
    \<and> (\<not> isCommitTx \<and> length (outs tx) \<le> 1 \<longrightarrow> r = Inr (fee, Num change))
    \<and> (\<forall>P f c s net. a_inscriptions P \<noteq> [] \<and> commitEstimate E s P = Inr (f, Num c) \<longrightarrow>
          (fst (buildSingleUtxoChain E net P s) = Inl (CommitInsufficient (a_chainIndex P))
             \<longleftrightarrow> c < 0))"
proof (intro conjI impI allI)
  show "fee = max \<lceil>toDouble (of_int vsize * toDouble feeRate)\<rceil> vsize"
    using assms(3) by (simp add: feeFor_def)
  show "vsize \<le> fee" using assms(3) by (simp add: feeFor_def)
next
  assume "toDouble feeRate = feeRate \<and> toDouble (of_int vsize * feeRate) = of_int vsize * feeRate"
  then show "fee = max \<lceil>of_int vsize * feeRate\<rceil> vsize"
    using assms(3) by (simp add: feeFor_def)
next
  assume "isCommitTx"
  then show "r = Inr (fee, Num change)"
    using estimate_first_pass [OF assms(1,2), of mc totalIn fixedOut feeRate] assms(3-5) by simp
next
  assume "\<not> isCommitTx \<and> 1 < length (outs tx) \<and> mc \<le> change"
  then show "r = Inr (fee, Num change)"
    using estimate_first_pass [OF assms(1,2), of mc totalIn fixedOut feeRate] assms(3-5) by simp
next
  assume "\<not> isCommitTx \<and> length (outs tx) \<le> 1"
  then show "r = Inr (fee, Num change)"
    using estimate_first_pass [OF assms(1,2), of mc totalIn fixedOut feeRate] assms(3-5) by simp
next
  fix txS' vsize'
  assume a: "\<not> isCommitTx \<and> 1 < length (outs tx) \<and> change < mc"
    and b: "simulateSign E (network st) (tx\<lparr>outs := take 1 (outs tx) @ drop 2 (outs tx)\<rparr>) inputs
               isCommitTx ictx = Inr txS'
            \<and> countAdjustedVsize E txS' (map address inputs) (network st) = Inr vsize'"
  from a have nc: "isCommitTx = False" by simp
  show "r = (if 0 \<le> totalIn - fixedOut - feeFor vsize' feeRate
                 then Inr (feeFor vsize' feeRate, Num (- 1))
                 else Inr (fee, NegInfinity))"
    using estimate_second_pass [OF assms(1) [unfolded nc] assms(2) _ _ b [unfolded nc, THEN conjunct1]
        b [THEN conjunct2], of totalIn fixedOut feeRate mc] a assms(3-5) nc
    by simp
next
  fix P f c s net
  assume "a_inscriptions P \<noteq> [] \<and> commitEstimate E s P = Inr (f, Num c)"
  then show "fst (buildSingleUtxoChain E net P s) = Inl (CommitInsufficient (a_chainIndex P))
             \<longleftrightarrow> c < 0"
    using build_commit_fails_iff [of P E s f c net] by simp
qed

text \<open>
  Claim C2 on the concrete environment at the fee rate 1.1: a commit of 1000 sat, and
  reveals with 2000, 890 and 600 sat of input (change kept, change dropped, insufficient).
  The fees 122 and 132 are those of the double products \<open>110 * 1.1 = 121.00000000000001\<close>
  and \<open>120 * 1.1 = 132\<close>. At the rate 2 the fee of the commit is the exact \<open>220\<close>. A
  funding output of 100 sat does not cover the commit fee of 110.
\<close>

theorem C2_estimateFeeAndOutput_witness:
  "estimateFeeAndOutput sample_ext (sample_st [sample_ctx]) (sample_commit 0) [sample_utxo 1000]
       (11 / 10) 1000 0 546 True None = Inr (122, Num 878)
   \<and> estimateFeeAndOutput sample_ext (sample_st [sample_ctx])
       (sample_reveal_of [1] 0 [\<lparr>out_script = [6], out_value = 0\<rparr>])
       [] (11 / 10) 2000 546 546 False (Some sample_ctx) = Inr (132, Num 1322)
   \<and> estimateFeeAndOutput sample_ext (sample_st [sample_ctx])
       (sample_reveal_of [1] 0 [\<lparr>out_script = [6], out_value = 0\<rparr>])
       [] (11 / 10) 890 546 546 False (Some sample_ctx) = Inr (122, Num (- 1))
   \<and> estimateFeeAndOutput sample_ext (sample_st [sample_ctx])
       (sample_reveal_of [1] 0 [\<lparr>out_script = [6], out_value = 0\<rparr>])
       [] (11 / 10) 600 546 546 False (Some sample_ctx) = Inr (132, NegInfinity)
   \<and> feeFor 110 2 = max \<lceil>of_int 110 * (2 :: rat)\<rceil> 110
   \<and> fst (buildSingleUtxoChain sample_ext Testnet (sample_chain_args 0 (Suc 0) (sample_utxo 100))
            (sample_st [sample_ctx])) = Inl (CommitInsufficient 0)"
proof -
  let ?st = "sample_st [sample_ctx]"
  let ?r = "sample_reveal_of [1] 0 [\<lparr>out_script = [6], out_value = 0\<rparr>]"
  let ?w = "\<lambda>tx. tx\<lparr>ins := [\<lparr>in_hash = [1], in_index = 0, in_sequence = 4294967293,
        in_script = [], in_witness = replicate 64 0 # ctx_witness sample_ctx\<rparr>]\<rparr>"
  let ?c = "(sample_commit 0)\<lparr>ins := [\<lparr>in_hash = [2], in_index = 0, in_sequence = 4294967293,
        in_script = [], in_witness = [2 # replicate 63 1]\<rparr>]\<rparr>"
  have s1: "simulateSign sample_ext (network ?st) (sample_commit 0) [sample_utxo 1000] True None
      = Inr ?c"
    by (simp add: simulateSign_def sample_signTx sample_st_network)
  have v1: "countAdjustedVsize sample_ext ?c (map address [sample_utxo 1000]) (network ?st) = Inr 110"
    by (simp add: sample_ext_def sample_commit_def sample_st_network)
  have s2: "simulateSign sample_ext (network ?st) ?r [] False (Some sample_ctx) = Inr (?w ?r)"
    by (simp add: simulateSign_def sample_reveal_of_def)
  have v2: "countAdjustedVsize sample_ext (?w ?r) (map address []) (network ?st) = Inr 120"
    by (simp add: sample_ext_def sample_reveal_of_def sample_st_network)
  have s3: "simulateSign sample_ext (network ?st) (?r\<lparr>outs := take 1 (outs ?r) @ drop 2 (outs ?r)\<rparr>) []
        False (Some sample_ctx) = Inr (?w (sample_reveal_of [1] 0 []))"
    by (simp add: simulateSign_def sample_reveal_of_def)
  have v3: "countAdjustedVsize sample_ext (?w (sample_reveal_of [1] 0 [])) (map address [])
        (network ?st) = Inr 110"
    by (simp add: sample_ext_def sample_reveal_of_def sample_st_network)
  have l: "length (outs ?r) = 2" by (simp add: sample_reveal_of_def)
  note f = sample_fee_11_10
  have a: "estimateFeeAndOutput sample_ext ?st (sample_commit 0) [sample_utxo 1000]
       (11 / 10) 1000 0 546 True None = Inr (122, Num 878)"
    using C2_estimateFeeAndOutput [OF s1 v1 refl refl refl, of "11 / 10" 1000 0 546,
        THEN conjunct2, THEN conjunct2, THEN conjunct2, THEN conjunct1]
    by (simp add: f)
  have b: "estimateFeeAndOutput sample_ext ?st ?r [] (11 / 10) 2000 546 546 False (Some sample_ctx)
     = Inr (132, Num 1322)"
    using C2_estimateFeeAndOutput [OF s2 v2 refl refl refl, of "11 / 10" 2000 546 546,
        THEN conjunct2, THEN conjunct2, THEN conjunct2, THEN conjunct2, THEN conjunct1] l
    by (simp add: f)
  have c: "estimateFeeAndOutput sample_ext ?st ?r [] (11 / 10) 890 546 546 False (Some sample_ctx)
     = Inr (122, Num (- 1))"
    using C2_estimateFeeAndOutput [OF s2 v2 refl refl refl, of "11 / 10" 890 546 546,
        THEN conjunct2, THEN conjunct2, THEN conjunct2, THEN conjunct2, THEN conjunct2,
        THEN conjunct1, rule_format, OF _ conjI [OF s3 v3]] l
    by (simp add: f)
  have d: "estimateFeeAndOutput sample_ext ?st ?r [] (11 / 10) 600 546 546 False (Some sample_ctx)
     = Inr (132, NegInfinity)"
    using C2_estimateFeeAndOutput [OF s2 v2 refl refl refl, of "11 / 10" 600 546 546,
        THEN conjunct2, THEN conjunct2, THEN conjunct2, THEN conjunct2, THEN conjunct2,
        THEN conjunct1, rule_format, OF _ conjI [OF s3 v3]] l
    by (simp add: f)
  have e: "feeFor 110 2 = max \<lceil>of_int 110 * (2 :: rat)\<rceil> 110"
    using C2_estimateFeeAndOutput [OF s1 v1 refl refl refl, of 2 1000 0 546,
        THEN conjunct2, THEN conjunct2, THEN conjunct1]
    by (simp add: f)
  have ne: "a_inscriptions (sample_chain_args 0 (Suc 0) (sample_utxo 100)) \<noteq> []"
    by (simp add: sample_args_simps)
  have ce: "commitEstimate sample_ext ?st (sample_chain_args 0 (Suc 0) (sample_utxo 100))
      = Inr (110, Num (- 10))"
    using sample_commitEstimate [OF sample_st_network, of "Suc 0" "sample_utxo 100" 100 "[sample_ctx]" 0]
    by simp
  have g: "fst (buildSingleUtxoChain sample_ext Testnet (sample_chain_args 0 (Suc 0) (sample_utxo 100))
            ?st) = Inl (CommitInsufficient 0)"
    using C2_estimateFeeAndOutput [OF s1 v1 refl refl refl, of "11 / 10" 1000 0 546,
        THEN conjunct2, THEN conjunct2, THEN conjunct2, THEN conjunct2, THEN conjunct2,
        THEN conjunct2, THEN conjunct2, rule_format, OF conjI [OF ne ce], of Testnet]
    by (simp add: sample_args_simps)
  show ?thesis using a b c d e g by (intro conjI)
qed

text \<open>
  Claim C9, as amended. In a chain that \<open>buildSingleUtxoChain\<close> returns, with a minimum
  change that is not negative, let the final reveal have the dust output only. The last
  entry of the fee ledger is the entry of this reveal, and its fee is the fee estimated
  again for the reveal as it is, without change output: \<open>feeFor\<close> of its virtual size.
  The value \<open>pv\<close> of the output that the reveal spends is at least the dust plus this fee,
  and less than the dust plus the minimum change plus the fee of the candidate that
  still had the change output. The surplus \<open>pv - dust - fee\<close> is in neither the
  transaction nor the ledger.
\<close>

theorem C9_dropped_change_input_covers_fee:
  assumes "buildSingleUtxoChain E net P st = (Inr chain, st')"
    and "a_inscriptions P \<noteq> []" and "0 \<le> a_minChangeValue P"
    and "length (outs (last chain)) = 1"
  shows "\<exists>pv cs txS1 vsize1 txS2 vsize2.
     (let n = length (a_inscriptions P); final = last chain; prev = chain ! (n - 1);
          entry = last (txFees st');
          cand = final\<lparr>outs := outs final @ [\<lparr>out_script = cs, out_value = 0\<rparr>]\<rparr>;
          inputs = revealInputs P pv; ictx = Some (a_inscriptions P ! (n - 1));
          rate = a_revealFeeRate P
      in length chain = Suc n
       \<and> tf_chainIndex entry = a_chainIndex P \<and> tf_txIndex entry = n
       \<and> ins final = [\<lparr>in_hash = getHash E prev, in_index = (if n = 1 then 0 else 1),
                        in_sequence = DEFAULT_SEQUENCE_NUM, in_script = [], in_witness = []\<rparr>]
       \<and> pv = out_value (outs prev ! (if n = 1 then 0 else 1))
       \<and> outs final = [dustOutput P (n - 1)]
       \<and> toOutputScript E (a_finalChangeAddress P) net = Inr cs
       \<and> simulateSign E (network st) final inputs False ictx = Inr txS1
       \<and> countAdjustedVsize E txS1 (map address inputs) (network st) = Inr vsize1
       \<and> tf_fee entry = feeFor vsize1 rate
       \<and> a_revealOutValue P + tf_fee entry \<le> pv
       \<and> simulateSign E (network st) cand inputs False ictx = Inr txS2
       \<and> countAdjustedVsize E txS2 (map address inputs) (network st) = Inr vsize2
       \<and> pv - a_revealOutValue P - feeFor vsize2 rate < a_minChangeValue P)"
proof -
  let ?n = "length (a_inscriptions P)"
  let ?i = "?n - 1"
  let ?tx = "chain ! ?n"
  let ?pv = "out_value (outs (chain ! ?i) ! (if ?n = 1 then 0 else 1))"
  let ?f = "tf_fee (last (txFees st'))"
  let ?inp = "revealInputs P ?pv"
  let ?ictx = "Some (a_inscriptions P ! ?i)"
  have len: "length chain = Suc ?n" using build_ok [OF assms(1,2)] by auto
  have pos: "0 < ?n" using assms(2) by simp
  have cne: "chain \<noteq> []" using len by auto
  have lst: "last chain = ?tx" using len by (simp add: last_conv_nth [OF cne])
  have sn: "Suc ?i = ?n" using pos by simp
  have i0: "(?i = 0) = (?n = 1)" using pos by (cases "a_inscriptions P") auto
  note lf = build_last_fee [OF assms(1,2)]
  have "?i < ?n" using pos by simp
  from build_reveal(3) [OF assms(1,2) this]
  have r: "revealOk E net P ?i (chain ! ?i) ?tx" using sn by simp
  from assms(4) obtain o1 where o1: "outs ?tx = [o1]"
    unfolding lst by (cases "outs ?tx") auto
  have du: "o1 = dustOutput P ?i" using r o1 by (simp add: revealOk_def)
  have i1: "ins ?tx = [\<lparr>in_hash = getHash E (chain ! ?i), in_index = (if ?n = 1 then 0 else 1),
           in_sequence = DEFAULT_SEQUENCE_NUM, in_script = [], in_witness = []\<rparr>]"
    using r i0 by (simp add: revealOk_def spendInput_def)
  have ca: "changeAddressOf P ?i = a_finalChangeAddress P" using sn by (simp add: changeAddressOf_def)
  have fo: "feeOk E st net P ?i (chain ! ?i) ?tx ?f" using lf by simp
  from fo obtain x cs f0 where
    e1: "revealEstimate E st P ?i ?tx ?pv 0 = Inr (?f, x)"
    and cs: "toOutputScript E (a_finalChangeAddress P) net = Inr cs"
    and e2: "revealEstimate E st P ?i (?tx\<lparr>outs := [o1, \<lparr>out_script = cs, out_value = 0\<rparr>]\<rparr>)
               ?pv (a_minChangeValue P) = Inr (f0, Num (- 1))"
    unfolding feeOk_def Let_def o1 ca i0 by (auto split: sum.splits)
  have l1: "length (outs ?tx) \<le> 1" using o1 by simp
  from estimate_single_output [OF e1 [unfolded revealEstimate_def] l1]
  obtain txS1 vsize1 where s1: "simulateSign E (network st) ?tx ?inp False ?ictx = Inr txS1"
    and v1: "countAdjustedVsize E txS1 (map address ?inp) (network st) = Inr vsize1"
    and f1: "?f = feeFor vsize1 (a_revealFeeRate P)" by blast
  let ?cand = "?tx\<lparr>outs := [o1, \<lparr>out_script = cs, out_value = 0\<rparr>]\<rparr>"
  have l2: "1 < length (outs ?cand)" by simp
  have sp: "?cand\<lparr>outs := splice1 1 (outs ?cand)\<rparr> = ?tx" using o1 by (simp add: splice1_def)
  from estimate_drop_detail [OF e2 [unfolded revealEstimate_def] assms(3) l2, unfolded sp]
  obtain txS2 vsize2 txS' vsize' where
    s2: "simulateSign E (network st) ?cand ?inp False ?ictx = Inr txS2"
    and v2: "countAdjustedVsize E txS2 (map address ?inp) (network st) = Inr vsize2"
    and lt: "?pv - a_revealOutValue P - feeFor vsize2 (a_revealFeeRate P) < a_minChangeValue P"
    and s3: "simulateSign E (network st) ?tx ?inp False ?ictx = Inr txS'"
    and v3: "countAdjustedVsize E txS' (map address ?inp) (network st) = Inr vsize'"
    and f3: "f0 = feeFor vsize' (a_revealFeeRate P)" "a_revealOutValue P + f0 \<le> ?pv"
    by blast
  have "txS' = txS1" using s1 s3 by simp
  then have "vsize' = vsize1" using v1 v3 by simp
  then have cover: "a_revealOutValue P + ?f \<le> ?pv" using f1 f3 by simp
  have cand: "?tx\<lparr>outs := outs ?tx @ [\<lparr>out_script = cs, out_value = 0\<rparr>]\<rparr> = ?cand"
    using o1 by simp
  have c1: "tf_chainIndex (last (txFees st')) = a_chainIndex P" using lf by simp
  have c2: "tf_txIndex (last (txFees st')) = ?n" using lf by simp
  have o2: "outs ?tx = [dustOutput P ?i]" using o1 du by simp
  show ?thesis
    apply (rule exI [of _ ?pv], rule exI [of _ cs], rule exI [of _ txS1], rule exI [of _ vsize1],
        rule exI [of _ txS2], rule exI [of _ vsize2])
    unfolding Let_def lst cand
    using len c1 c2 i1 o2 cs s1 v1 f1 cover s2 v2 lt
    by (intro conjI refl)
qed

text \<open>
  Claim C9 as the spec states it fails: with 1000 sat of funding the final reveal spends
  890 sat, pays the dust of 546 sat and has no change output, and the ledger holds the fee
  110 for it; 890 is not 546 + 110.
\<close>

theorem C9_counterexample:
  "buildSingleUtxoChain sample_ext Testnet (sample_chain_args 0 (Suc 0) (sample_utxo 1000))
       (sample_st [sample_ctx]) =
     (Inr [sample_commit 890, sample_reveal_of [1] 0 []],
      recordTx 0 (Suc 0) 110 (Some 0) (recordTx 0 0 110 None (sample_st [sample_ctx])))
   \<and> outs (sample_reveal_of [1] 0 []) = [\<lparr>out_script = [5], out_value = 546\<rparr>]
   \<and> nat (in_index (hd (ins (sample_reveal_of [1] 0 [])))) = 0
   \<and> out_value (outs (sample_commit 890) ! 0) = 890
   \<and> txFees (recordTx 0 (Suc 0) 110 (Some 0) (recordTx 0 0 110 None (sample_st [sample_ctx])))
       = [\<lparr>tf_chainIndex = 0, tf_txIndex = 0, tf_fee = 110\<rparr>,
          \<lparr>tf_chainIndex = 0, tf_txIndex = Suc 0, tf_fee = 110\<rparr>]
   \<and> out_value (outs (sample_commit 890) ! 0) \<noteq> 546 + 110"
proof -
  have b: "buildSingleUtxoChain sample_ext Testnet (sample_chain_args 0 (Suc 0) (sample_utxo 1000))
       (sample_st [sample_ctx]) =
     (Inr [sample_commit 890, sample_reveal_of [1] 0 []],
      recordTx 0 (Suc 0) 110 (Some 0) (recordTx 0 0 110 None (sample_st [sample_ctx])))"
    using sample_build_1 [OF sample_st_network [of "[sample_ctx]"],
        where u = "sample_utxo 1000" and v = 1000 and k = 0]
    by simp
  have "outs (sample_reveal_of [1] 0 []) = [\<lparr>out_script = [5], out_value = 546\<rparr>]
   \<and> nat (in_index (hd (ins (sample_reveal_of [1] 0 [])))) = 0
   \<and> out_value (outs (sample_commit 890) ! 0) = 890
   \<and> txFees (recordTx 0 (Suc 0) 110 (Some 0) (recordTx 0 0 110 None (sample_st [sample_ctx])))
       = [\<lparr>tf_chainIndex = 0, tf_txIndex = 0, tf_fee = 110\<rparr>,
          \<lparr>tf_chainIndex = 0, tf_txIndex = Suc 0, tf_fee = 110\<rparr>]
   \<and> out_value (outs (sample_commit 890) ! 0) \<noteq> 546 + 110"
    by (simp add: sample_reveal_of_def sample_commit_def recordTx_def sample_st_def
        new_ChainInscriptionTool_def)
  with b show ?thesis by (rule conjI)
qed

text \<open>
  Claim C9 as amended, on a chain of two inscriptions funded with 1476 sat: the first
  reveal keeps a change of 700 sat, the final reveal spends it, pays the dust of 546 sat
  and drops its change; the ledger holds the fee 110 for it, and
  \<open>546 + 110 \<le> 700 < 546 + 546 + 120\<close>.
\<close>

theorem C9_dropped_change_input_covers_fee_witness:
  "buildSingleUtxoChain sample_ext Testnet (sample_chain_args 0 2 (sample_utxo 1476))
       (sample_st [sample_ctx, sample_ctx]) =
     (Inr [sample_commit 1366,
           sample_reveal_of [1] 0 [\<lparr>out_script = [4], out_value = 700\<rparr>],
           sample_reveal_of [2] 1 []],
      recordTx 0 2 110 (Some 1) (recordTx 0 (Suc 0) 120 (Some 0)
        (recordTx 0 0 110 None (sample_st [sample_ctx, sample_ctx]))))
   \<and> tf_txIndex (last (txFees (recordTx 0 2 110 (Some 1) (recordTx 0 (Suc 0) 120 (Some 0)
        (recordTx 0 0 110 None (sample_st [sample_ctx, sample_ctx])))))) = 2
   \<and> tf_fee (last (txFees (recordTx 0 2 110 (Some 1) (recordTx 0 (Suc 0) 120 (Some 0)
        (recordTx 0 0 110 None (sample_st [sample_ctx, sample_ctx])))))) = feeFor 110 1
   \<and> (546 :: int) + 110 \<le> 700 \<and> (700 :: int) - 546 - feeFor 120 1 < 546"
proof -
  let ?P = "sample_chain_args 0 2 (sample_utxo 1476)"
  let ?st = "sample_st [sample_ctx, sample_ctx]"
  let ?chain = "[sample_commit 1366,
           sample_reveal_of [1] 0 [\<lparr>out_script = [4], out_value = 700\<rparr>],
           sample_reveal_of [2] 1 []]"
  let ?st' = "recordTx 0 2 110 (Some 1) (recordTx 0 (Suc 0) 120 (Some 0)
        (recordTx 0 0 110 None ?st))"
  have ne: "a_inscriptions ?P \<noteq> []" by (simp add: sample_args_simps)
  have mc: "0 \<le> a_minChangeValue ?P" by (simp add: sample_args_simps)
  have d: "length (outs (last ?chain)) = 1" by (simp add: sample_reveal_of_def)
  note t = C9_dropped_change_input_covers_fee [OF sample_build_1476 [of "[sample_ctx, sample_ctx]"]
      ne mc d, unfolded Let_def]
  from t obtain pv cs txS1 vsize1 txS2 vsize2 where
    a: "tf_txIndex (last (txFees ?st')) = length (a_inscriptions ?P)"
    and pv: "pv = out_value (outs (?chain ! (length (a_inscriptions ?P) - 1))
               ! (if length (a_inscriptions ?P) = 1 then 0 else 1))"
    and s1: "simulateSign sample_ext (network ?st) (last ?chain) (revealInputs ?P pv) False
               (Some (a_inscriptions ?P ! (length (a_inscriptions ?P) - 1))) = Inr txS1"
    and v1: "countAdjustedVsize sample_ext txS1 (map address (revealInputs ?P pv)) (network ?st)
               = Inr vsize1"
    and f: "tf_fee (last (txFees ?st')) = feeFor vsize1 (a_revealFeeRate ?P)"
    and c: "a_revealOutValue ?P + tf_fee (last (txFees ?st')) \<le> pv"
    and cs: "toOutputScript sample_ext (a_finalChangeAddress ?P) Testnet = Inr cs"
    and s2: "simulateSign sample_ext (network ?st)
               ((last ?chain)\<lparr>outs := outs (last ?chain) @ [\<lparr>out_script = cs, out_value = 0\<rparr>]\<rparr>)
               (revealInputs ?P pv) False
               (Some (a_inscriptions ?P ! (length (a_inscriptions ?P) - 1))) = Inr txS2"
    and v2: "countAdjustedVsize sample_ext txS2 (map address (revealInputs ?P pv)) (network ?st)
               = Inr vsize2"
    and b: "pv - a_revealOutValue ?P - feeFor vsize2 (a_revealFeeRate ?P) < a_minChangeValue ?P"
    apply (elim exE conjE)
    apply (rule that)
             apply assumption+
    done
  have pv7: "pv = 700" using pv by (simp add: sample_args_simps sample_reveal_of_def)
  have "length (outs txS1) = 1" using s1
    by (auto simp: simulateSign_def sample_reveal_of_def)
  then have vs1: "vsize1 = 110" using v1 by (simp add: sample_ext_def sample_st_network)
  have "length (outs txS2) = 2" using s2
    by (auto simp: simulateSign_def sample_reveal_of_def)
  then have vs2: "vsize2 = 120" using v2 by (simp add: sample_ext_def sample_st_network)
  have i: "tf_txIndex (last (txFees ?st')) = 2" using a by (simp add: sample_args_simps)
  have f': "tf_fee (last (txFees ?st')) = feeFor 110 1" using f vs1 by (simp add: sample_args_simps)
  have c': "(546 :: int) + 110 \<le> 700" using c f' pv7 by (simp add: sample_args_simps sample_fee)
  have b': "(700 :: int) - 546 - feeFor 120 1 < 546" using b vs2 pv7 by (simp add: sample_args_simps)
  show ?thesis using sample_build_1476 [of "[sample_ctx, sample_ctx]"] i f' c' b' by (intro conjI)
qed

text \<open>
  Claim C3. In a chain that \<open>buildSingleUtxoChain\<close> returns, a reveal keeps a change output
  of at least \<open>minChangeValue\<close>, or it is the final reveal and has the dust output only.
  Then the fee recorded last in the ledger, for this chain and this transaction, is the fee
  estimated again for the transaction without change output. In the loop, when the
  estimator answers \<open>-1\<close> (change dropped) for a non-final reveal, the iteration throws,
  and so do the loop, the assembly of the chain and the planner; for the final reveal the
  change output is removed, the fee estimated again is recorded and the available balance
  becomes 0. The estimator is the estimator of the tool at hand.
\<close>

theorem C3_change_floor_and_final_drop:
  "(buildSingleUtxoChain E net P st = (Inr chain, st') \<and> a_inscriptions P \<noteq> [] \<longrightarrow>
      (\<forall>i<length (a_inscriptions P).
          (\<exists>c. outs (chain ! Suc i) = [dustOutput P i, c] \<and> a_minChangeValue P \<le> out_value c)
        \<or> (Suc i = length (a_inscriptions P) \<and> outs (chain ! Suc i) = [dustOutput P i]))
    \<and> (length (outs (last chain)) = 1 \<longrightarrow>
          tf_chainIndex (last (txFees st')) = a_chainIndex P
        \<and> tf_txIndex (last (txFees st')) = length chain - 1
        \<and> (\<exists>x. revealEstimate E st P (length chain - 2) (last chain)
                  (out_value (outs (chain ! (length chain - 2)) ! (if length chain = 2 then 0 else 1))) 0
                = Inr (tf_fee (last (txFees st')), x))))
   \<and> (changeAddressOf P j \<noteq> [] \<and> j < length (a_inscriptions P)
       \<and> toOutputScript E (changeAddressOf P j) net = Inr cs
       \<and> revealEstimate E s P j (revealTemplate E P L j cs) (prevOutputValue L)
            (a_minChangeValue P) = Inr (f0, Num (- 1)) \<longrightarrow>
        (Suc j \<noteq> length (a_inscriptions P) \<longrightarrow>
           revealStep E net P j L s = (Inl (NonFinalNeedsChange (a_chainIndex P) j), s)
         \<and> revealLoop E net P (j # js) L s = (Inl (NonFinalNeedsChange (a_chainIndex P) j), s))
      \<and> (Suc j = length (a_inscriptions P)
          \<and> revealEstimate E s P j ((revealTemplate E P L j cs)\<lparr>outs := [dustOutput P j]\<rparr>)
               (prevOutputValue L) 0 = Inr (f, x) \<longrightarrow>
           revealStep E net P j L s =
             (Inr \<lparr>txChain = txChain L @ [(revealTemplate E P L j cs)\<lparr>outs := [dustOutput P j]\<rparr>],
                   prevTx = (revealTemplate E P L j cs)\<lparr>outs := [dustOutput P j]\<rparr>,
                   prevOutputValue = 0, prevOutputIndex = - 1\<rparr>,
              recordTx (a_chainIndex P) (length (txChain L)) f
                (Some (a_inscriptionCtxStartIndex P + j)) s)))
   \<and> (a_inscriptions Q \<noteq> [] \<and> commitEstimate E t0 Q = Inr (f1, Num c1) \<and> 0 \<le> c1
       \<and> revealLoop E net Q [0..<length (a_inscriptions Q)]
            \<lparr>txChain = [commitTemplate E Q c1], prevTx = commitTemplate E Q c1,
             prevOutputValue = c1, prevOutputIndex = 0\<rparr>
            (recordTx (a_chainIndex Q) 0 f1 None t0) = (Inl e1, t1) \<longrightarrow>
        buildSingleUtxoChain E net Q t0 = (Inl e1, t1))
   \<and> (start < n \<and> cur < length us \<and> n \<le> length (inscriptionTxCtxDataList t)
       \<and> buildSingleUtxoChain E net
             \<lparr>a_utxo = us ! cur,
              a_inscriptions = slice (inscriptionTxCtxDataList t) start (start + min (n - start) 24),
              a_revealOutValue = rov, a_revealFeeRate = rfr,
              a_finalChangeAddress = ca, a_minChangeValue = mcv, a_commitFeeRate = cfr,
              a_inscriptionCtxStartIndex = start, a_chainIndex = length (txChains t)\<rparr> t
            = (Inl e, t') \<longrightarrow>
        buildChains_loop E net us rov rfr ca mcv cfr n start cur t = (Inl e, t'))"
proof (intro conjI impI allI)
  fix i
  assume a: "buildSingleUtxoChain E net P st = (Inr chain, st') \<and> a_inscriptions P \<noteq> []"
    and i: "i < length (a_inscriptions P)"
  note r = build_reveal(3) [OF a [THEN conjunct1] a [THEN conjunct2] i]
  then show "(\<exists>c. outs (chain ! Suc i) = [dustOutput P i, c] \<and> a_minChangeValue P \<le> out_value c)
        \<or> (Suc i = length (a_inscriptions P) \<and> outs (chain ! Suc i) = [dustOutput P i])"
    by (auto simp: revealOk_def split: list.splits)
next
  assume a: "buildSingleUtxoChain E net P st = (Inr chain, st') \<and> a_inscriptions P \<noteq> []"
    and d: "length (outs (last chain)) = 1"
  let ?n = "length (a_inscriptions P)"
  have len: "length chain = Suc ?n"
    using build_ok [OF a [THEN conjunct1] a [THEN conjunct2]] by auto
  have pos: "0 < ?n" using a by simp
  have cne: "chain \<noteq> []" using len by auto
  have lst: "last chain = chain ! ?n" using len by (simp add: last_conv_nth [OF cne])
  note lf = build_last_fee [OF a [THEN conjunct1] a [THEN conjunct2]]
  have idx: "length chain - 1 = ?n" "length chain - 2 = ?n - 1"
    "(length chain = 2) = (?n - 1 = 0)" using len pos by (cases "a_inscriptions P"; auto)+
  show "tf_chainIndex (last (txFees st')) = a_chainIndex P" using lf by simp
  show "tf_txIndex (last (txFees st')) = length chain - 1" using lf idx by simp
  from d obtain o1 where o1: "outs (chain ! ?n) = [o1]"
    unfolding lst by (cases "outs (chain ! ?n)") auto
  have "feeOk E st net P (?n - 1) (chain ! (?n - 1)) (chain ! ?n) (tf_fee (last (txFees st')))"
    using lf by simp
  then show "\<exists>x. revealEstimate E st P (length chain - 2) (last chain)
                  (out_value (outs (chain ! (length chain - 2)) ! (if length chain = 2 then 0 else 1))) 0
                = Inr (tf_fee (last (txFees st')), x)"
    unfolding idx lst
    by (auto simp: feeOk_def Let_def o1 split: sum.splits)
next
  assume a: "changeAddressOf P j \<noteq> [] \<and> j < length (a_inscriptions P)
       \<and> toOutputScript E (changeAddressOf P j) net = Inr cs
       \<and> revealEstimate E s P j (revealTemplate E P L j cs) (prevOutputValue L)
            (a_minChangeValue P) = Inr (f0, Num (- 1))"
    and nl: "Suc j \<noteq> length (a_inscriptions P)"
  from a have a1: "changeAddressOf P j \<noteq> []" and a2: "j < length (a_inscriptions P)"
    and a3: "toOutputScript E (changeAddressOf P j) net = Inr cs"
    and a4: "revealEstimate E s P j (revealTemplate E P L j cs) (prevOutputValue L)
            (a_minChangeValue P) = Inr (f0, Num (- 1))" by simp_all
  show s: "revealStep E net P j L s = (Inl (NonFinalNeedsChange (a_chainIndex P) j), s)"
    by (rule revealStep_nonfinal_drop [OF a1 a2 a3 a4 nl])
  show "revealLoop E net P (j # js) L s = (Inl (NonFinalNeedsChange (a_chainIndex P) j), s)"
    by (rule revealLoop_error [OF s])
next
  assume a: "changeAddressOf P j \<noteq> [] \<and> j < length (a_inscriptions P)
       \<and> toOutputScript E (changeAddressOf P j) net = Inr cs
       \<and> revealEstimate E s P j (revealTemplate E P L j cs) (prevOutputValue L)
            (a_minChangeValue P) = Inr (f0, Num (- 1))"
    and b: "Suc j = length (a_inscriptions P)
          \<and> revealEstimate E s P j ((revealTemplate E P L j cs)\<lparr>outs := [dustOutput P j]\<rparr>)
               (prevOutputValue L) 0 = Inr (f, x)"
  from a have a1: "changeAddressOf P j \<noteq> []" and a2: "j < length (a_inscriptions P)"
    and a3: "toOutputScript E (changeAddressOf P j) net = Inr cs"
    and a4: "revealEstimate E s P j (revealTemplate E P L j cs) (prevOutputValue L)
            (a_minChangeValue P) = Inr (f0, Num (- 1))" by simp_all
  show "revealStep E net P j L s =
             (Inr \<lparr>txChain = txChain L @ [(revealTemplate E P L j cs)\<lparr>outs := [dustOutput P j]\<rparr>],
                   prevTx = (revealTemplate E P L j cs)\<lparr>outs := [dustOutput P j]\<rparr>,
                   prevOutputValue = 0, prevOutputIndex = - 1\<rparr>,
              recordTx (a_chainIndex P) (length (txChain L)) f
                (Some (a_inscriptionCtxStartIndex P + j)) s)"
    by (rule revealStep_final_drop [OF a1 a2 a3 a4 b [THEN conjunct1] b [THEN conjunct2]])
next
  assume a: "a_inscriptions Q \<noteq> [] \<and> commitEstimate E t0 Q = Inr (f1, Num c1) \<and> 0 \<le> c1
       \<and> revealLoop E net Q [0..<length (a_inscriptions Q)]
            \<lparr>txChain = [commitTemplate E Q c1], prevTx = commitTemplate E Q c1,
             prevOutputValue = c1, prevOutputIndex = 0\<rparr>
            (recordTx (a_chainIndex Q) 0 f1 None t0) = (Inl e1, t1)"
  show "buildSingleUtxoChain E net Q t0 = (Inl e1, t1)"
    by (rule build_loop_error [OF a [THEN conjunct1] a [THEN conjunct2, THEN conjunct1]
          a [THEN conjunct2, THEN conjunct2, THEN conjunct1]
          a [THEN conjunct2, THEN conjunct2, THEN conjunct2]])
next
  assume a: "start < n \<and> cur < length us \<and> n \<le> length (inscriptionTxCtxDataList t)
       \<and> buildSingleUtxoChain E net
             \<lparr>a_utxo = us ! cur,
              a_inscriptions = slice (inscriptionTxCtxDataList t) start (start + min (n - start) 24),
              a_revealOutValue = rov, a_revealFeeRate = rfr,
              a_finalChangeAddress = ca, a_minChangeValue = mcv, a_commitFeeRate = cfr,
              a_inscriptionCtxStartIndex = start, a_chainIndex = length (txChains t)\<rparr> t
            = (Inl e, t')"
  show "buildChains_loop E net us rov rfr ca mcv cfr n start cur t = (Inl e, t')"
    by (rule loop_fail) (use a in simp_all)
qed

text \<open>
  Claim C3 on chains of two inscriptions. Funded with 1476 sat, the first reveal keeps a
  change of 700 sat and the final reveal drops its change: the ledger ends with the entry
  of transaction 2. Funded with 1000 sat, the first reveal would have to drop its change:
  its iteration throws, and so do the loop, the assembly and the planner.
\<close>

theorem C3_change_floor_and_final_drop_witness:
  "outs ([sample_commit 1366,
          sample_reveal_of [1] 0 [\<lparr>out_script = [4], out_value = 700\<rparr>],
          sample_reveal_of [2] 1 []] ! 1)
     = [\<lparr>out_script = [5], out_value = 546\<rparr>, \<lparr>out_script = [4], out_value = 700\<rparr>]
   \<and> tf_txIndex (last (txFees (recordTx 0 2 110 (Some 1) (recordTx 0 (Suc 0) 120 (Some 0)
        (recordTx 0 0 110 None (sample_st [sample_ctx, sample_ctx])))))) = 2
   \<and> revealStep sample_ext Testnet (sample_chain_args 0 2 (sample_utxo 1476)) 1
        \<lparr>txChain = [sample_commit 1366,
                     sample_reveal_of [1] 0 [\<lparr>out_script = [4], out_value = 700\<rparr>]],
         prevTx = sample_reveal_of [1] 0 [\<lparr>out_script = [4], out_value = 700\<rparr>],
         prevOutputValue = 700, prevOutputIndex = 1\<rparr>
        (sample_st [sample_ctx, sample_ctx])
      = (Inr \<lparr>txChain = [sample_commit 1366,
                     sample_reveal_of [1] 0 [\<lparr>out_script = [4], out_value = 700\<rparr>],
                     sample_reveal_of [2] 1 []],
              prevTx = sample_reveal_of [2] 1 [], prevOutputValue = 0, prevOutputIndex = - 1\<rparr>,
         recordTx 0 2 110 (Some 1) (sample_st [sample_ctx, sample_ctx]))
   \<and> buildSingleUtxoChain sample_ext Testnet (sample_chain_args 0 2 (sample_utxo 1000))
        (sample_st [sample_ctx, sample_ctx])
      = (Inl (NonFinalNeedsChange 0 0), recordTx 0 0 110 None (sample_st [sample_ctx, sample_ctx]))
   \<and> buildChains_loop sample_ext Testnet [sample_utxo 1000] 546 1 ''tb1ccc'' 546 1 2 0 0
        (sample_st [sample_ctx, sample_ctx])
      = (Inl (NonFinalNeedsChange 0 0), recordTx 0 0 110 None (sample_st [sample_ctx, sample_ctx]))"
proof -
  let ?st = "sample_st [sample_ctx, sample_ctx]"
  let ?P = "sample_chain_args 0 2 (sample_utxo 1476)"
  let ?Q = "sample_chain_args 0 2 (sample_utxo 1000)"
  let ?r0 = "sample_reveal_of [1] 0 [\<lparr>out_script = [4], out_value = 700\<rparr>]"
  let ?chain = "[sample_commit 1366, ?r0, sample_reveal_of [2] 1 []]"
  let ?st' = "recordTx 0 2 110 (Some 1) (recordTx 0 (Suc 0) 120 (Some 0) (recordTx 0 0 110 None ?st))"
  have nw: "network ?st = Testnet" by (rule sample_st_network)
  have ne: "a_inscriptions ?P \<noteq> []" by (simp add: sample_args_simps)
  note b = sample_build_1476 [of "[sample_ctx, sample_ctx]"]
  note t = C3_change_floor_and_final_drop [where E = sample_ext and net = Testnet and P = ?P and st = ?st
      and chain = ?chain and st' = ?st']
  note t1 = t [THEN conjunct1, rule_format, OF conjI [OF b ne]]
  have i1: "0 < length (a_inscriptions ?P)" by (simp add: sample_args_simps)
  have "(\<exists>c. outs (?chain ! Suc 0) = [dustOutput ?P 0, c] \<and> a_minChangeValue ?P \<le> out_value c)
        \<or> (Suc 0 = length (a_inscriptions ?P) \<and> outs (?chain ! Suc 0) = [dustOutput ?P 0])"
    by (rule t1 [THEN conjunct1, rule_format, OF i1])
  then have A: "outs (?chain ! 1)
     = [\<lparr>out_script = [5], out_value = 546\<rparr>, \<lparr>out_script = [4], out_value = 700\<rparr>]"
    by (simp add: sample_args_simps sample_reveal_of_def)
  have d: "length (outs (last ?chain)) = 1" by (simp add: sample_reveal_of_def)
  have B: "tf_txIndex (last (txFees ?st')) = 2"
    using t1 [THEN conjunct2, rule_format, OF d] by simp
  let ?L1 = "\<lparr>txChain = [sample_commit 1366, ?r0], prevTx = ?r0,
              prevOutputValue = 700, prevOutputIndex = 1\<rparr>"
  have ca1: "changeAddressOf ?P 1 = ''tb1ccc''"
    by (simp add: changeAddressOf_def sample_args_simps)
  have h1: "changeAddressOf ?P 1 \<noteq> [] \<and> 1 < length (a_inscriptions ?P)
       \<and> toOutputScript sample_ext (changeAddressOf ?P 1) Testnet = Inr [6]
       \<and> revealEstimate sample_ext ?st ?P 1 (revealTemplate sample_ext ?P ?L1 1 [6])
            (prevOutputValue ?L1) (a_minChangeValue ?P) = Inr (110, Num (- 1))"
  proof -
    have x: "toOutputScript sample_ext ''tb1ccc'' Testnet = Inr [6]" by (simp add: sample_ext_def)
    have y: "revealEstimate sample_ext ?st ?P 1 (revealTemplate sample_ext ?P ?L1 1 [6])
            (prevOutputValue ?L1) (a_minChangeValue ?P) = Inr (110, Num (- 1))"
      by (simp add: sample_args_simps sample_revealEstimate(1) [OF nw sample_revealTemplate])
    have z: "1 < length (a_inscriptions ?P)" by (simp add: sample_args_simps)
    show ?thesis unfolding ca1 using x y [unfolded ca1] z by (intro conjI) simp_all
  qed
  have h2: "Suc 1 = length (a_inscriptions ?P)
          \<and> revealEstimate sample_ext ?st ?P 1
               ((revealTemplate sample_ext ?P ?L1 1 [6])\<lparr>outs := [dustOutput ?P 1]\<rparr>)
               (prevOutputValue ?L1) 0 = Inr (110, Num 44)"
    by (simp add: sample_args_simps sample_revealEstimate(2) [OF nw] revealTemplate_def)
  have tpl: "(revealTemplate sample_ext ?P ?L1 1 [6])\<lparr>outs := [dustOutput ?P 1]\<rparr>
      = sample_reveal_of [2] 1 []"
    by (simp add: revealTemplate_def dustOutput_def spendInput_def sample_reveal_of_def
        sample_args_simps sample_ext_def sample_ctx_def DEFAULT_TX_VERSION_def
        DEFAULT_SEQUENCE_NUM_def)
  have C: "revealStep sample_ext Testnet ?P 1 ?L1 ?st
      = (Inr \<lparr>txChain = ?chain, prevTx = sample_reveal_of [2] 1 [],
              prevOutputValue = 0, prevOutputIndex = - 1\<rparr>,
         recordTx 0 2 110 (Some 1) ?st)"
    using C3_change_floor_and_final_drop [where E = sample_ext and net = Testnet and P = ?P
        and j = 1 and cs = "[6]" and s = ?st and L = ?L1 and ?f0.0 = 110 and f = 110
        and x = "Num 44", THEN conjunct2, THEN conjunct1, rule_format, OF h1, THEN conjunct2,
        rule_format, OF h2]
    unfolding tpl by (simp add: sample_args_simps numeral_2_eq_2)
  let ?L0 = "\<lparr>txChain = [commitTemplate sample_ext ?Q 890], prevTx = commitTemplate sample_ext ?Q 890,
              prevOutputValue = 890, prevOutputIndex = 0\<rparr>"
  let ?s0 = "recordTx 0 0 110 None ?st"
  have nw0: "network ?s0 = Testnet" using nw by (simp add: network_recordTx)
  have ca0: "changeAddressOf ?Q 0 = ''tb1c''"
    by (simp add: changeAddressOf_def sample_args_simps sample_ctx_def)
  have g1: "changeAddressOf ?Q 0 \<noteq> [] \<and> 0 < length (a_inscriptions ?Q)
       \<and> toOutputScript sample_ext (changeAddressOf ?Q 0) Testnet = Inr [4]
       \<and> revealEstimate sample_ext ?s0 ?Q 0 (revealTemplate sample_ext ?Q ?L0 0 [4])
            (prevOutputValue ?L0) (a_minChangeValue ?Q) = Inr (110, Num (- 1))"
  proof -
    have x: "toOutputScript sample_ext ''tb1c'' Testnet = Inr [4]" by (simp add: sample_ext_def)
    have y: "revealEstimate sample_ext ?s0 ?Q 0 (revealTemplate sample_ext ?Q ?L0 0 [4])
            (prevOutputValue ?L0) (a_minChangeValue ?Q) = Inr (110, Num (- 1))"
      by (simp add: sample_args_simps sample_revealEstimate(1) [OF nw0 sample_revealTemplate])
    have z: "0 < length (a_inscriptions ?Q)" by (simp add: sample_args_simps)
    show ?thesis unfolding ca0 using x y z by (intro conjI) simp_all
  qed
  have g2: "Suc 0 \<noteq> length (a_inscriptions ?Q)" by (simp add: sample_args_simps)
  have loop: "revealLoop sample_ext Testnet ?Q (0 # [1]) ?L0 ?s0
      = (Inl (NonFinalNeedsChange (a_chainIndex ?Q) 0), ?s0)"
    by (rule C3_change_floor_and_final_drop [where E = sample_ext and net = Testnet
        and P = ?Q and j = 0 and cs = "[4]" and s = ?s0 and L = ?L0 and ?f0.0 = 110 and js = "[1]",
        THEN conjunct2, THEN conjunct1, rule_format, OF g1, THEN conjunct1, rule_format, OF g2,
        THEN conjunct2])
  have up: "[0..<length (a_inscriptions ?Q)] = 0 # [1]"
    by (simp add: sample_args_simps upt_conv_Cons)
  have neq: "a_inscriptions ?Q \<noteq> []" by (simp add: sample_args_simps)
  have ce: "commitEstimate sample_ext ?st ?Q = Inr (110, Num 890)"
    using sample_commitEstimate [OF nw, where n = 2 and u = "sample_utxo 1000" and v = 1000 and k = 0]
    by simp
  have ci: "recordTx (a_chainIndex ?Q) 0 110 None ?st = ?s0" by (simp add: sample_args_simps)
  have q: "a_inscriptions ?Q \<noteq> [] \<and> commitEstimate sample_ext ?st ?Q = Inr (110, Num 890)
       \<and> (0 :: int) \<le> 890
       \<and> revealLoop sample_ext Testnet ?Q [0..<length (a_inscriptions ?Q)] ?L0
            (recordTx (a_chainIndex ?Q) 0 110 None ?st)
            = (Inl (NonFinalNeedsChange (a_chainIndex ?Q) 0), ?s0)"
    unfolding up ci using neq ce loop by (intro conjI) simp_all
  have bq: "buildSingleUtxoChain sample_ext Testnet ?Q ?st
      = (Inl (NonFinalNeedsChange (a_chainIndex ?Q) 0), ?s0)"
    by (rule C3_change_floor_and_final_drop [where E = sample_ext and net = Testnet
        and Q = ?Q and ?t0.0 = ?st and ?f1.0 = 110 and ?c1.0 = 890, THEN conjunct2, THEN conjunct2, THEN conjunct1, rule_format, OF q])
  have D: "buildSingleUtxoChain sample_ext Testnet ?Q ?st
      = (Inl (NonFinalNeedsChange 0 0), recordTx 0 0 110 None ?st)"
    using bq by (simp add: sample_args_simps)
  have args: "\<lparr>a_utxo = [sample_utxo 1000] ! 0,
        a_inscriptions = slice (inscriptionTxCtxDataList ?st) 0 (0 + min (2 - 0) 24),
        a_revealOutValue = 546, a_revealFeeRate = 1, a_finalChangeAddress = ''tb1ccc'',
        a_minChangeValue = 546, a_commitFeeRate = 1, a_inscriptionCtxStartIndex = 0,
        a_chainIndex = length (txChains ?st)\<rparr> = ?Q"
    by (simp add: sample_chain_args_def sample_st_def new_ChainInscriptionTool_def slice_def
        numeral_2_eq_2)
  have p: "(0 :: nat) < 2 \<and> 0 < length [sample_utxo 1000] \<and> 2 \<le> length (inscriptionTxCtxDataList ?st)
       \<and> buildSingleUtxoChain sample_ext Testnet
             \<lparr>a_utxo = [sample_utxo 1000] ! 0,
              a_inscriptions = slice (inscriptionTxCtxDataList ?st) 0 (0 + min (2 - 0) 24),
              a_revealOutValue = 546, a_revealFeeRate = 1,
              a_finalChangeAddress = ''tb1ccc'', a_minChangeValue = 546, a_commitFeeRate = 1,
              a_inscriptionCtxStartIndex = 0, a_chainIndex = length (txChains ?st)\<rparr> ?st
            = (Inl (NonFinalNeedsChange 0 0), recordTx 0 0 110 None ?st)"
    unfolding args using D by (simp add: sample_st_def)
  have E: "buildChains_loop sample_ext Testnet [sample_utxo 1000] 546 1 ''tb1ccc'' 546 1 2 0 0 ?st
      = (Inl (NonFinalNeedsChange 0 0), recordTx 0 0 110 None ?st)"
    by (rule C3_change_floor_and_final_drop [THEN conjunct2, THEN conjunct2, THEN conjunct2,
        rule_format, OF p])
  show ?thesis using A B C D E by (intro conjI)
qed

text \<open>
  Claim C1, as amended. Let the tool hold \<open>n \<ge> 1\<close> contexts and no chain, and let the
  planner run on \<open>m\<close> funding outputs. With \<open>m = 0\<close> it returns at once, without a chain
  and without an error (and \<open>newChainInscriptionTool\<close> has rejected such a request
  before). With \<open>m \<ge> 1\<close>, when the assembly of every chain that is attempted succeeds
  (its funding output covers its fees): with \<open>m \<ge> ceil (n / 24)\<close> the planner returns
  with exactly \<open>ceil (n / 24)\<close> chains; with \<open>m < ceil (n / 24)\<close> it throws the UTXO-count
  error after \<open>m\<close> chains. Chain \<open>k\<close> is what \<open>buildSingleUtxoChain\<close> makes of funding
  output \<open>k\<close> and the inscriptions \<open>24k, ..., 24k + min 24 (n - 24k) - 1\<close>: it has one commit
  and one reveal per inscription, and reveal \<open>j\<close> pays the dust to the recipient of
  inscription \<open>24k + j\<close>. Whether an assembly succeeds depends on the tool through its
  network only, which the planner leaves as it is, so that the hypothesis is stated on the
  tool before the run.
\<close>

theorem C1_chain_layout:
  assumes "inscriptionTxCtxDataList st = ctxs" and "txChains st = []" and "ctxs \<noteq> []"
    and "buildEnhancedInscriptionChains E net us rov rfr ca mcv cfr st = (r, st')"
  shows "int (chainCount (length ctxs)) = \<lceil>rat_of_nat (length ctxs) / 24\<rceil>
    \<and> (us = [] \<longrightarrow> r = Inr () \<and> st' = st)
    \<and> (req_commitTxPrevOutputList request = []
         \<longrightarrow> newChainInscriptionTool E net request = Inl EmptyPrevOutputList)
    \<and> (us \<noteq> []
        \<and> (\<forall>k<min (length us) (chainCount (length ctxs)).
              isOk (fst (buildSingleUtxoChain E net (argsOfChain us ctxs rov rfr ca mcv cfr k) st)))
       \<longrightarrow>
         (chainCount (length ctxs) \<le> length us \<longrightarrow>
            r = Inr () \<and> length (txChains st') = chainCount (length ctxs))
       \<and> (length us < chainCount (length ctxs) \<longrightarrow>
            r = Inl (UtxoCountInsufficient (length us) (length ctxs))
          \<and> length (txChains st') = length us)
       \<and> (\<forall>k<length (txChains st').
            fst (buildSingleUtxoChain E net (argsOfChain us ctxs rov rfr ca mcv cfr k) st)
              = Inr (txChains st' ! k)
          \<and> length (a_inscriptions (argsOfChain us ctxs rov rfr ca mcv cfr k))
              = min 24 (length ctxs - 24 * k)
          \<and> length (txChains st' ! k) = 1 + min 24 (length ctxs - 24 * k)
          \<and> (\<forall>j<min 24 (length ctxs - 24 * k).
                hd (outs (txChains st' ! k ! Suc j))
                  = \<lparr>out_script = revealPkScript (ctxs ! (24 * k + j)), out_value = rov\<rparr>)))"
proof (intro conjI impI)
  show "int (chainCount (length ctxs)) = \<lceil>rat_of_nat (length ctxs) / 24\<rceil>"
    by (rule chainCount_ceiling)
next
  assume "us = []"
  then show "r = Inr ()" and "st' = st"
    using assms(4) by (simp_all add: buildEnhancedInscriptionChains_def)
next
  assume "req_commitTxPrevOutputList request = []"
  then show "newChainInscriptionTool E net request = Inl EmptyPrevOutputList"
    by (simp add: newChainInscriptionTool_def)
next
  let ?K = "min (length us) (chainCount (length ctxs))"
  let ?n = "length ctxs"
  assume h: "us \<noteq> []
        \<and> (\<forall>k<min (length us) (chainCount (length ctxs)).
              isOk (fst (buildSingleUtxoChain E net (argsOfChain us ctxs rov rfr ca mcv cfr k) st)))"
  note p = planner_run [OF assms(1-3) h [THEN conjunct1] h [THEN conjunct2] assms(4) refl]
  show "chainCount ?n \<le> length us \<Longrightarrow> r = Inr ()"
    and "chainCount ?n \<le> length us \<Longrightarrow> length (txChains st') = chainCount ?n"
    and "length us < chainCount ?n \<Longrightarrow> r = Inl (UtxoCountInsufficient (length us) ?n)"
    and "length us < chainCount ?n \<Longrightarrow> length (txChains st') = length us"
    using p(2,4) by simp_all
  show "\<forall>k<length (txChains st').
          fst (buildSingleUtxoChain E net (argsOfChain us ctxs rov rfr ca mcv cfr k) st)
              = Inr (txChains st' ! k)
        \<and> length (a_inscriptions (argsOfChain us ctxs rov rfr ca mcv cfr k))
            = min 24 (length ctxs - 24 * k)
        \<and> length (txChains st' ! k) = 1 + min 24 (length ctxs - 24 * k)
        \<and> (\<forall>j<min 24 (length ctxs - 24 * k).
              hd (outs (txChains st' ! k ! Suc j))
                = \<lparr>out_script = revealPkScript (ctxs ! (24 * k + j)), out_value = rov\<rparr>)"
  proof (intro allI impI)
    fix k assume "k < length (txChains st')"
    then have k: "k < ?K" using p(2) by simp
    then have "k < chainCount ?n" by simp
    then have lt: "24 * k < ?n" using chainCount_less by simp
    let ?P = "argsOfChain us ctxs rov rfr ca mcv cfr k"
    let ?c = "txChains st' ! k"
    have f: "fst (buildSingleUtxoChain E net ?P st) = Inr ?c"
      using p(3) k by simp
    then obtain s where b: "buildSingleUtxoChain E net ?P st = (Inr ?c, s)"
      by (cases "buildSingleUtxoChain E net ?P st") simp
    have al: "length (a_inscriptions ?P) = min 24 (?n - 24 * k)"
      by (simp add: args_length inscriptionsInChain_def)
    have ne: "a_inscriptions ?P \<noteq> []" using al lt by auto
    have len: "length ?c = 1 + min 24 (?n - 24 * k)"
      using build_ok [OF b ne] al by auto
    have dust: "\<forall>j<min 24 (?n - 24 * k).
              hd (outs (?c ! Suc j))
                = \<lparr>out_script = revealPkScript (ctxs ! (24 * k + j)), out_value = rov\<rparr>"
    proof (intro allI impI)
      fix j assume j: "j < min 24 (?n - 24 * k)"
      then have j': "j < length (a_inscriptions ?P)" using al by simp
      have "revealOk E net ?P j (?c ! j) (?c ! Suc j)" by (rule build_reveal(3) [OF b ne j'])
      then have "hd (outs (?c ! Suc j)) = dustOutput ?P j"
        by (auto simp: revealOk_def split: list.splits)
      moreover have "a_inscriptions ?P ! j = ctxs ! (24 * k + j)"
        using j lt by (simp add: argsOfChain_def inscriptionsInChain_def slice_def)
      moreover have "a_revealOutValue ?P = rov" by (simp add: argsOfChain_def)
      ultimately show "hd (outs (?c ! Suc j))
                = \<lparr>out_script = revealPkScript (ctxs ! (24 * k + j)), out_value = rov\<rparr>"
        by (simp add: dustOutput_def)
    qed
    show "fst (buildSingleUtxoChain E net ?P st) = Inr ?c
        \<and> length (a_inscriptions ?P) = min 24 (?n - 24 * k)
        \<and> length ?c = 1 + min 24 (?n - 24 * k)
        \<and> (\<forall>j<min 24 (?n - 24 * k).
              hd (outs (?c ! Suc j))
                = \<lparr>out_script = revealPkScript (ctxs ! (24 * k + j)), out_value = rov\<rparr>)"
      using f al len dust by (intro conjI)
  qed
qed

text \<open>
  Claim C1 as the spec states it fails for \<open>m = 0\<close>: no funding output is fewer than the
  one chain that one inscription needs, yet the planner returns without error, and the
  error of the entry point is the one of the input validation.
\<close>

theorem C1_counterexample:
  "buildEnhancedInscriptionChains sample_ext Testnet [] 546 1 ''tb1ccc'' 546 1
      (sample_st [sample_ctx]) = (Inr (), sample_st [sample_ctx])
   \<and> length ([] :: PrevOutput list) < chainCount (length [sample_ctx])
   \<and> newChainInscriptionTool sample_ext Testnet
        ((sample_request 1000)\<lparr>req_commitTxPrevOutputList := []\<rparr>) = Inl EmptyPrevOutputList
   \<and> EmptyPrevOutputList \<noteq> UtxoCountInsufficient 0 1"
  by (simp add: buildEnhancedInscriptionChains_def newChainInscriptionTool_def chainCount_def)

text \<open>
  Claim C1 as amended, on 25 inscriptions: with funding outputs of 20000 and 2000 sat the
  planner makes two chains, of 24 inscriptions (25 transactions) and of one inscription
  (2 transactions); with the first funding output alone it makes the first chain and
  throws the UTXO-count error.
\<close>

theorem C1_chain_layout_witness:
  "fst (buildEnhancedInscriptionChains sample_ext Testnet [sample_utxo 20000, sample_utxo 2000]
          546 1 ''tb1ccc'' 546 1 (sample_st (replicate 25 sample_ctx))) = Inr ()
   \<and> map length (txChains (snd (buildEnhancedInscriptionChains sample_ext Testnet
          [sample_utxo 20000, sample_utxo 2000] 546 1 ''tb1ccc'' 546 1
          (sample_st (replicate 25 sample_ctx))))) = [25, 2]
   \<and> fst (buildEnhancedInscriptionChains sample_ext Testnet [sample_utxo 20000]
          546 1 ''tb1ccc'' 546 1 (sample_st (replicate 25 sample_ctx)))
        = Inl (UtxoCountInsufficient 1 25)
   \<and> map length (txChains (snd (buildEnhancedInscriptionChains sample_ext Testnet
          [sample_utxo 20000] 546 1 ''tb1ccc'' 546 1
          (sample_st (replicate 25 sample_ctx))))) = [25]"
proof -
  let ?ctxs = "replicate 25 sample_ctx"
  let ?st = "sample_st ?ctxs"
  let ?us2 = "[sample_utxo 20000, sample_utxo 2000]"
  let ?us1 = "[sample_utxo 20000]"
  let ?run2 = "buildEnhancedInscriptionChains sample_ext Testnet ?us2 546 1 ''tb1ccc'' 546 1 ?st"
  let ?run1 = "buildEnhancedInscriptionChains sample_ext Testnet ?us1 546 1 ''tb1ccc'' 546 1 ?st"
  have h1: "inscriptionTxCtxDataList ?st = ?ctxs" by (simp add: sample_st_def)
  have h2: "txChains ?st = []" by (simp add: sample_st_def new_ChainInscriptionTool_def)
  have h3: "?ctxs \<noteq> []" by simp
  have nw: "network ?st = Testnet" by (rule sample_st_network)
  have len: "length ?ctxs = 25" by simp
  have ok0: "isOk (fst (buildSingleUtxoChain sample_ext Testnet
      (argsOfChain us ?ctxs 546 1 ''tb1ccc'' 546 1 0) ?st))" if "us ! 0 = sample_utxo 20000" for us
  proof -
    have a: "argsOfChain us ?ctxs 546 1 ''tb1ccc'' 546 1 0 = sample_chain_args 0 24 (sample_utxo 20000)"
      using sample_argsOfChain [of 0 25 us] that by (simp add: inscriptionsInChain_def)
    show ?thesis unfolding a
      by (rule sample_build_ok [OF nw, where v = 20000]) simp_all
  qed
  have ok1: "isOk (fst (buildSingleUtxoChain sample_ext Testnet
      (argsOfChain ?us2 ?ctxs 546 1 ''tb1ccc'' 546 1 1) ?st))"
  proof -
    have a: "argsOfChain ?us2 ?ctxs 546 1 ''tb1ccc'' 546 1 1 = sample_chain_args 1 1 (sample_utxo 2000)"
      using sample_argsOfChain [of 1 25 ?us2] by (simp add: inscriptionsInChain_def)
    show ?thesis unfolding a
      by (rule sample_build_ok [OF nw, where v = 2000]) simp_all
  qed
  have h5: "?us2 \<noteq> []
        \<and> (\<forall>k<min (length ?us2) (chainCount (length ?ctxs)).
              isOk (fst (buildSingleUtxoChain sample_ext Testnet
                 (argsOfChain ?us2 ?ctxs 546 1 ''tb1ccc'' 546 1 k) ?st)))"
  proof (intro conjI allI impI)
    show "?us2 \<noteq> []" by simp
    fix k assume "k < min (length ?us2) (chainCount (length ?ctxs))"
    then have "k = 0 \<or> k = 1" by (auto simp: chainCount_25)
    then show "isOk (fst (buildSingleUtxoChain sample_ext Testnet
                 (argsOfChain ?us2 ?ctxs 546 1 ''tb1ccc'' 546 1 k) ?st))"
      using ok0 [of ?us2] ok1 by auto
  qed
  have g5: "?us1 \<noteq> []
        \<and> (\<forall>k<min (length ?us1) (chainCount (length ?ctxs)).
              isOk (fst (buildSingleUtxoChain sample_ext Testnet
                 (argsOfChain ?us1 ?ctxs 546 1 ''tb1ccc'' 546 1 k) ?st)))"
  proof (intro conjI allI impI)
    show "?us1 \<noteq> []" by simp
    fix k assume "k < min (length ?us1) (chainCount (length ?ctxs))"
    then have "k = 0" by (auto simp: chainCount_25)
    then show "isOk (fst (buildSingleUtxoChain sample_ext Testnet
                 (argsOfChain ?us1 ?ctxs 546 1 ''tb1ccc'' 546 1 k) ?st))"
      using ok0 [of ?us1] by auto
  qed
  have e2: "?run2 = (fst ?run2, snd ?run2)" by simp
  have e1: "?run1 = (fst ?run1, snd ?run1)" by simp
  note t2 = C1_chain_layout [OF h1 h2 h3 e2, THEN conjunct2, THEN conjunct2, THEN conjunct2,
      rule_format, OF h5]
  note t1 = C1_chain_layout [OF h1 h2 h3 e1, THEN conjunct2, THEN conjunct2, THEN conjunct2,
      rule_format, OF g5]
  have a2: "fst ?run2 = Inr ()" and l2: "length (txChains (snd ?run2)) = 2"
    using t2 [THEN conjunct1] by (simp_all add: chainCount_25)
  have c0: "length (txChains (snd ?run2) ! 0) = 25"
    using t2 [THEN conjunct2, THEN conjunct2, rule_format, of 0] l2 by simp
  have c1: "length (txChains (snd ?run2) ! 1) = 2"
    using t2 [THEN conjunct2, THEN conjunct2, rule_format, of 1] l2 by simp
  have m2: "map length (txChains (snd ?run2)) = [25, 2]"
    using l2 c0 c1 by (intro nth_equalityI) (auto simp: less_Suc_eq numeral_2_eq_2)
  have a1: "fst ?run1 = Inl (UtxoCountInsufficient 1 25)" and l1: "length (txChains (snd ?run1)) = 1"
    using t1 [THEN conjunct2, THEN conjunct1] by (simp_all add: chainCount_25)
  have d0: "length (txChains (snd ?run1) ! 0) = 25"
    using t1 [THEN conjunct2, THEN conjunct2, rule_format, of 0] l1 by simp
  have m1: "map length (txChains (snd ?run1)) = [25]"
    using l1 d0 by (intro nth_equalityI) auto
  show ?thesis using a2 m2 a1 m1 by (intro conjI)
qed

text \<open>
  Claim C4 fails on the chains that the tool returns. The reveal is assembled on the hash
  of the commit as it is then, without signature, and \<open>signAllTransactions\<close> signs the
  commit in place afterwards. For a funding output at a legacy address \<open>signTx\<close> writes the
  input script, which the hash of a transaction covers: in the tool made from the sample
  request with a legacy funding output of 2000 sat, the input of the reveal names the hash
  \<open>[1]\<close> of the unsigned commit, which is not the hash of the commit in the chain. With the
  same funding output at a P2TR address the signature is in the witness, and the reveal
  spends output 0 of the commit of the chain.
\<close>

theorem C4_legacy_funding_breaks_linkage:
  "newChainInscriptionTool sample_ext Testnet (sample_request_of (sample_legacy_utxo 2000))
     = Inr ((sample_built (sample_legacy_utxo 2000) 2000)\<lparr>txChains := [sample_signed True 2000]\<rparr>)
   \<and> map in_hash (ins (sample_signed True 2000 ! 1)) = [[1]]
   \<and> getHash sample_ext (sample_signed True 2000 ! 0) = 1 # replicate 64 2 @ [1, 2, 1]
   \<and> map in_hash (ins (sample_signed True 2000 ! 1)) \<noteq> [getHash sample_ext (sample_signed True 2000 ! 0)]
   \<and> newChainInscriptionTool sample_ext Testnet (sample_request_of (sample_utxo 2000))
     = Inr ((sample_built (sample_utxo 2000) 2000)\<lparr>txChains := [sample_signed False 2000]\<rparr>)
   \<and> map in_hash (ins (sample_signed False 2000 ! 1)) = [getHash sample_ext (sample_signed False 2000 ! 0)]"
proof -
  have a: "newChainInscriptionTool sample_ext Testnet (sample_request_of (sample_legacy_utxo 2000))
     = Inr ((sample_built (sample_legacy_utxo 2000) 2000)\<lparr>txChains := [sample_signed True 2000]\<rparr>)"
    by (rule sample_newTool) simp_all
  have b: "newChainInscriptionTool sample_ext Testnet (sample_request_of (sample_utxo 2000))
     = Inr ((sample_built (sample_utxo 2000) 2000)\<lparr>txChains := [sample_signed False 2000]\<rparr>)"
    by (rule sample_newTool) simp_all
  have c: "map in_hash (ins (sample_signed True 2000 ! 1)) = [[1]]"
    "getHash sample_ext (sample_signed True 2000 ! 0) = 1 # replicate 64 2 @ [1, 2, 1]"
    "map in_hash (ins (sample_signed False 2000 ! 1)) = [getHash sample_ext (sample_signed False 2000 ! 0)]"
    by (simp_all add: sample_signed_def sample_ext_def sample_commit_def sample_reveal_of_def)
  have d: "map in_hash (ins (sample_signed True 2000 ! 1))
      \<noteq> [getHash sample_ext (sample_signed True 2000 ! 0)]"
    unfolding c by simp
  show ?thesis using a b c d by (intro conjI)
qed

text \<open>
  Claim C5. When \<open>signAllTransactions\<close> returns, for the contexts that the constructor
  creates from the primary key, the reveal \<open>t \<ge> 1\<close> of every chain that was not skipped
  has on its input the witness \<open>[sig, inscription script, control block]\<close>: \<open>sig\<close> is the
  Schnorr signature, with 32 bytes of auxiliary randomness, of
  \<open>hashForWitnessV1 (0, [prev_script], [prev_value], SIGHASH_DEFAULT, leaf_hash)\<close> under
  the private key decoded from the primary WIF as it is, the script is the compiled
  envelope of the mapped inscription, and the control block is \<open>0xC0 | parity\<close> followed
  by the x-only primary public key. The signature has 64 bytes and the control block 33,
  for a library as the specification describes it. The spent output is the one that the
  input names in the previous transaction, and it pays to the context's commit script.
  The other inputs, of which a reveal built by \<open>buildSingleUtxoChain\<close> has none, are
  left as they were. By contrast the funding input of the commit, for a P2TR address, is
  signed by \<open>signTx\<close> under the tweaked key \<open>taprootTweakPrivKey\<close>, over the key-path
  hash (no leaf hash).
\<close>

theorem C5_reveal_signature:
  assumes sign: "signAllTransactions E us st = (Inr (), st')"
    and ctxs: "mapM (\<lambda>d. createInscriptionTxCtxData E (network st) d wif) ds
                 = Inr (inscriptionTxCtxDataList st)"
    and lib: "schnorrSignatureSize E" "compressedPublicKey E" "p2trSingleLeaf E"
    and k: "k < length (txChains st)" "k < length us" "privateKey (us ! k) \<noteq> []"
    and t: "0 < t" "t < length (txChains st ! k)"
  shows "(\<exists>in0 rest ci priv pub parity.
        ins (txChains st ! k ! t) = in0 # rest
      \<and> contextOf st k t = Some ci \<and> ci < length ds
      \<and> privateKeyFromWIF E wif (network st) = Inr priv
      \<and> wif2Public E wif (network st) = Inr pub
      \<and> parity \<le> 1
      \<and> (let tx = txChains st ! k ! t;
             ctx = inscriptionTxCtxDataList st ! ci;
             spent = outs (txChains st ! k ! (t - 1)) ! nat (in_index in0);
             sig = schnorr_sign E
                     (hashForWitnessV1 E tx 0 [out_script spent] [out_value spent]
                        SIGHASH_DEFAULT (Some (ctx_hash ctx)))
                     priv (randomBytes E 32);
             script = script_compile E (inscriptionBuilder (drop 1 pub) (ds ! ci));
             cb = controlBlock 0xC0 parity (drop 1 pub)
         in txChains st' ! k ! t = tx\<lparr>ins := in0\<lparr>in_witness := [sig, script, cb]\<rparr> # rest\<rparr>
          \<and> length sig = 64 \<and> length cb = 33
          \<and> inscriptionScript ctx = script
          \<and> 0 \<le> in_index in0 \<and> in_index in0 < int (length (outs (txChains st ! k ! (t - 1))))
          \<and> out_script spent = commitTxAddressPkScript ctx))
    \<and> (getAddressType E (address (us ! k)) (network st) = Inr ''segwit_taproot'' \<longrightarrow>
       ins (txChains st ! k ! 0) \<noteq> [] \<longrightarrow>
        (\<exists>p s. privateKeyFromWIF E (privateKey (us ! k)) (network st) = Inr p
          \<and> toOutputScript E (address (us ! k)) (network st) = Inr s
          \<and> ins (txChains st' ! k ! 0) =
              [(hd (ins (txChains st ! k ! 0)))\<lparr>in_witness :=
                 [schnorr_sign E
                    (hashForWitnessV1 E (txChains st ! k ! 0) 0 [s] [amount (us ! k)]
                       SIGHASH_DEFAULT None)
                    (taprootTweakPrivKey E p) (randomBytes E 32)]\<rparr>]))"
proof (rule conjI)
  let ?chain = "txChains st ! k"
  let ?ctxs = "inscriptionTxCtxDataList st"
  have po: "prevOutsAt ?chain t = outs (?chain ! (t - 1))" using t(1) by (simp add: prevOutsAt_def)
  note s = sign_ok [OF sign k t(2), unfolded po]
  have tn: "t \<noteq> 0" using t(1) by simp
  from signChainTx_reveal [OF s tn]
  obtain in0 rest m ci where r: "ins (?chain ! t) = in0 # rest"
    "0 \<le> in_index in0" "in_index in0 < int (length (outs (?chain ! (t - 1))))"
    "find (\<lambda>m. cm_chainIndex m = k \<and> cm_txIndex m = t) (chainContextMapping st) = Some m"
    "contextIndex m = Some ci" "ci < length ?ctxs"
    "commitTxAddressPkScript (?ctxs ! ci) = out_script (outs (?chain ! (t - 1)) ! nat (in_index in0))"
    "txChains st' ! k ! t = (?chain ! t)\<lparr>ins := in0\<lparr>in_witness :=
           schnorr_sign E
             (hashForWitnessV1 E (?chain ! t) 0 [out_script (outs (?chain ! (t - 1)) ! nat (in_index in0))]
                [out_value (outs (?chain ! (t - 1)) ! nat (in_index in0))] SIGHASH_DEFAULT
                (Some (ctx_hash (?ctxs ! ci))))
             (ctx_privateKey (?ctxs ! ci)) (randomBytes E 32)
           # ctx_witness (?ctxs ! ci)\<rparr> # rest\<rparr>"
    by auto
  have co: "contextOf st k t = Some ci" using r(4,5) by (simp add: contextOf_def)
  have len: "length ?ctxs = length ds" using mapM_nth [OF ctxs] by simp
  have ci: "ci < length ds" using r(6) len by simp
  have cr: "createInscriptionTxCtxData E (network st) (ds ! ci) wif = Inr (?ctxs ! ci)"
    using mapM_nth [OF ctxs] ci by simp
  from createInscriptionTxCtxData_ok [OF cr]
  obtain priv pub pay rs where c: "privateKeyFromWIF E wif (network st) = Inr priv"
    "wif2Public E wif (network st) = Inr pub"
    "p2tr E (drop 1 pub) (script_compile E (inscriptionBuilder (drop 1 pub) (ds ! ci)))
          (script_compile E (inscriptionBuilder (drop 1 pub) (ds ! ci))) 0xc0 (network st) = Inr pay"
    and f: "ctx_privateKey (?ctxs ! ci) = priv"
      "inscriptionScript (?ctxs ! ci) = script_compile E (inscriptionBuilder (drop 1 pub) (ds ! ci))"
      "ctx_witness (?ctxs ! ci) = p2tr_witness pay"
    by auto
  from lib(3) c(3) obtain parity where p: "parity \<le> 1"
    "p2tr_witness pay = [script_compile E (inscriptionBuilder (drop 1 pub) (ds ! ci)),
                         controlBlock 0xC0 parity (drop 1 pub)]"
    unfolding p2trSingleLeaf_def by blast
  have l33: "length pub = 33" using lib(2) c(2) unfolding compressedPublicKey_def by blast
  have lcb: "length (controlBlock 0xC0 parity (drop 1 pub)) = 33"
    using l33 by (simp add: controlBlock_def)
  have l64: "\<And>h a. length (schnorr_sign E h priv a) = 64"
    using lib(1) unfolding schnorrSignatureSize_def by simp
  have w: "txChains st' ! k ! t = (?chain ! t)\<lparr>ins := in0\<lparr>in_witness :=
           [schnorr_sign E
             (hashForWitnessV1 E (?chain ! t) 0 [out_script (outs (?chain ! (t - 1)) ! nat (in_index in0))]
                [out_value (outs (?chain ! (t - 1)) ! nat (in_index in0))] SIGHASH_DEFAULT
                (Some (ctx_hash (?ctxs ! ci))))
             priv (randomBytes E 32),
            script_compile E (inscriptionBuilder (drop 1 pub) (ds ! ci)),
            controlBlock 0xC0 parity (drop 1 pub)]\<rparr> # rest\<rparr>"
    using r(8) unfolding f(1) f(3) p(2) by simp
  show "\<exists>in0 rest ci priv pub parity.
        ins (txChains st ! k ! t) = in0 # rest
      \<and> contextOf st k t = Some ci \<and> ci < length ds
      \<and> privateKeyFromWIF E wif (network st) = Inr priv
      \<and> wif2Public E wif (network st) = Inr pub
      \<and> parity \<le> 1
      \<and> (let tx = txChains st ! k ! t;
             ctx = inscriptionTxCtxDataList st ! ci;
             spent = outs (txChains st ! k ! (t - 1)) ! nat (in_index in0);
             sig = schnorr_sign E
                     (hashForWitnessV1 E tx 0 [out_script spent] [out_value spent]
                        SIGHASH_DEFAULT (Some (ctx_hash ctx)))
                     priv (randomBytes E 32);
             script = script_compile E (inscriptionBuilder (drop 1 pub) (ds ! ci));
             cb = controlBlock 0xC0 parity (drop 1 pub)
         in txChains st' ! k ! t = tx\<lparr>ins := in0\<lparr>in_witness := [sig, script, cb]\<rparr> # rest\<rparr>
          \<and> length sig = 64 \<and> length cb = 33
          \<and> inscriptionScript ctx = script
          \<and> 0 \<le> in_index in0 \<and> in_index in0 < int (length (outs (txChains st ! k ! (t - 1))))
          \<and> out_script spent = commitTxAddressPkScript ctx)"
    apply (rule exI [of _ in0], rule exI [of _ rest], rule exI [of _ ci], rule exI [of _ priv],
        rule exI [of _ pub], rule exI [of _ parity])
    unfolding Let_def
    using r(1) co ci c(1) c(2) p(1) w l64 lcb f(2) r(2) r(3) r(7) [symmetric]
    by (intro conjI)
next
  let ?chain = "txChains st ! k"
  show "getAddressType E (address (us ! k)) (network st) = Inr ''segwit_taproot'' \<longrightarrow>
       ins (?chain ! 0) \<noteq> [] \<longrightarrow>
        (\<exists>p s. privateKeyFromWIF E (privateKey (us ! k)) (network st) = Inr p
          \<and> toOutputScript E (address (us ! k)) (network st) = Inr s
          \<and> ins (txChains st' ! k ! 0) =
              [(hd (ins (?chain ! 0)))\<lparr>in_witness :=
                 [schnorr_sign E
                    (hashForWitnessV1 E (?chain ! 0) 0 [s] [amount (us ! k)]
                       SIGHASH_DEFAULT None)
                    (taprootTweakPrivKey E p) (randomBytes E 32)]\<rparr>])"
  proof (intro impI)
    assume ty: "getAddressType E (address (us ! k)) (network st) = Inr ''segwit_taproot''"
      and ne: "ins (?chain ! 0) \<noteq> []"
    have z: "0 < length ?chain" using t(2) by (cases "txChains st ! k") simp_all
    from sign_ok [OF sign k z]
    have "signTx E (network st) (?chain ! 0) [us ! k] = Inr (txChains st' ! k ! 0)"
      by (auto simp: signChainTx_def split: sum.splits)
    from signTx_taproot [OF this ne ty]
    show "\<exists>p s. privateKeyFromWIF E (privateKey (us ! k)) (network st) = Inr p
          \<and> toOutputScript E (address (us ! k)) (network st) = Inr s
          \<and> ins (txChains st' ! k ! 0) =
              [(hd (ins (?chain ! 0)))\<lparr>in_witness :=
                 [schnorr_sign E
                    (hashForWitnessV1 E (?chain ! 0) 0 [s] [amount (us ! k)]
                       SIGHASH_DEFAULT None)
                    (taprootTweakPrivKey E p) (randomBytes E 32)]\<rparr>]" .
  qed
qed


end
